theory Spec2Isabelle
  imports Main "HOL-Library.Sublist"
begin

section \<open>Hub-and-spoke Terraform configurations of GuiWorld\<close>

text \<open>
  The infrastructure directory holds four Terraform root modules: the hub and the
  Key Vault, Database and Storage spokes. Each module is embedded as a function from
  its input variables and what it reads from outside (remote state files, the results
  of the random provider, attributes the cloud only reports after creation) to the
  resources it declares, or to the error that ends the run.

  A variable \<open>x\<close> of a module is a field of that module's variable record, prefixed by
  the module: \<open>hv_\<close> (hub), \<open>kv_\<close> (Key Vault spoke), \<open>db_\<close> (Database spoke), \<open>st_\<close>
  (Storage spoke). The outputs a module publishes are prefixed \<open>ho_\<close> (hub) and \<open>ko_\<close>
  (Key Vault spoke). A resource block \<open>resource "T" "L"\<close> of module \<open>m\<close> is the
  definition \<open>m_T_L\<close>, with the \<open>azurerm_\<close> of the type left out.
\<close>

subsection \<open>Values, resources, environment\<close>

datatype val =
    Str string
  | Bool bool
  | Num int
  | Lst "val list"
  | Obj "(string \<times> val) list"
  | Null

type_synonym tags = "string \<rightharpoonup> string"

text \<open>
  A resource instance: its type and local name, its \<open>name\<close> argument, its \<open>tags\<close>
  argument (\<open>None\<close> when the block has none) and its other arguments; nested blocks are
  objects, repeated blocks are lists of objects.
\<close>

record resource =
  r_type :: string
  r_label :: string
  r_name :: string
  r_tags :: "tags option"
  r_args :: "(string \<times> val) list"

definition arg :: "resource \<Rightarrow> string \<Rightarrow> val option" where
  "arg r k = map_of (r_args r) k"

datatype error =
    InvalidVariable string
  | RemoteStateUnreadable string
  | InvalidIndex string

text \<open>The outputs of the hub that the spokes read (hub \<open>outputs.tf\<close>).\<close>

record hub_outputs =
  ho_hub_resource_group_name :: string
  ho_hub_vnet_name :: string
  ho_hub_vnet_id :: string
  ho_hub_vnet_address_space :: "string list"
  ho_shared_services_subnet_id :: string
  ho_keyvault_private_dns_zone_name :: string
  ho_keyvault_private_dns_zone_id :: string
  ho_postgres_private_dns_zone_name :: string
  ho_postgres_private_dns_zone_id :: string
  ho_storage_private_dns_zone_name :: string
  ho_storage_private_dns_zone_id :: string
  ho_log_analytics_workspace_id :: string
  ho_environment :: string
  ho_resource_suffix :: string
  ho_common_tags :: tags

text \<open>The output of the Key Vault spoke that the other spokes read.\<close>

record keyvault_outputs =
  ko_key_vault_id :: string

text \<open>
  What a run of a spoke module reads from outside its configuration:
  \<^item> the local backend: the outputs in the state file at a path, \<open>None\<close> when the
    state or the outputs cannot be read there (\<open>data "terraform_remote_state"\<close> with
    \<open>backend = "local"\<close>);
  \<^item> \<open>random_string.suffix.result\<close> and \<open>random_password.db_admin.result\<close>: each
    random resource is declared once in a module and has one result per deployment;
  \<^item> the attributes known only after creation (identifiers, host names, keys), by
    the address of the attribute;
  \<^item> \<open>data.azurerm_client_config.current\<close>.
\<close>

record env =
  hub_state_at :: "string \<Rightarrow> hub_outputs option"
  keyvault_state_at :: "string \<Rightarrow> keyvault_outputs option"
  random_string_suffix_result :: string
  random_password_db_admin_result :: string
  computed :: "string \<Rightarrow> string"
  client_tenant_id :: string
  client_object_id :: string

subsection \<open>Built-in functions of the configuration language\<close>

text \<open>
  \<open>merge(m1, ..., mn)\<close>: the maps are applied from left to right, so a key of a later
  argument replaces the same key of an earlier one.
\<close>

definition merge :: "tags list \<Rightarrow> tags" where
  "merge ms = foldl (++) Map.empty ms"

text \<open>\<open>toset(xs)\<close> for \<open>for_each\<close>: one instance per distinct element.\<close>

definition toset :: "string list \<Rightarrow> string list" where
  "toset xs = remdups xs"

text \<open>Indexing an instance list of a block with \<open>count\<close>: \<open>x[0]\<close> fails on no instance.\<close>

definition index0 :: "string \<Rightarrow> 'a list \<Rightarrow> error + 'a" where
  "index0 addr xs = (case xs of [] \<Rightarrow> Inl (InvalidIndex addr) | x # _ \<Rightarrow> Inr x)"

text \<open>
  \<open>can(cidrhost(prefix, 0))\<close>. The function \<open>cidrhost\<close> is a built-in of Terraform. It
  parses the prefix as Go's \<open>net.ParseCIDR\<close> does (in the variant that admits leading
  zeros): the text before the first \<open>/\<close> is an IPv4 address, or else an IPv6 address,
  and the text after it is a decimal prefix length of at most 32, or 128 for IPv6.
  Host number 0 lies in every prefix, so the call succeeds exactly when the prefix
  parses.
\<close>

fun split_on :: "char \<Rightarrow> string \<Rightarrow> string list" where
  "split_on c [] = [[]]"
| "split_on c (x # xs) =
     (if x = c then [] # split_on c xs
      else (case split_on c xs of [] \<Rightarrow> [[x]] | y # ys \<Rightarrow> (x # y) # ys))"

definition is_digit :: "char \<Rightarrow> bool" where
  "is_digit c = (c \<in> set ''0123456789'')"

definition dec_val :: "string \<Rightarrow> nat" where
  "dec_val s = foldl (\<lambda>n c. 10 * n + (of_char c - 48)) 0 s"

definition decimal_upto :: "nat \<Rightarrow> string \<Rightarrow> bool" where
  "decimal_upto m s = (s \<noteq> [] \<and> list_all is_digit s \<and> dec_val s \<le> m)"

text \<open>An IPv4 address: four decimal numbers of at most 255, separated by dots.\<close>

definition parseIPv4 :: "string \<Rightarrow> bool" where
  "parseIPv4 s =
     (case split_on CHR ''.'' s of
        [o1, o2, o3, o4] \<Rightarrow> list_all (decimal_upto 255) [o1, o2, o3, o4]
      | _ \<Rightarrow> False)"

definition is_hex :: "char \<Rightarrow> bool" where
  "is_hex c = (c \<in> set ''0123456789abcdefABCDEF'')"

definition hex_digit :: "char \<Rightarrow> nat" where
  "hex_digit c =
     (if c \<in> set ''0123456789'' then of_char c - 48
      else if c \<in> set ''abcdef'' then of_char c - 87
      else of_char c - 55)"

definition xtoi :: "string \<Rightarrow> nat" where
  "xtoi s = foldl (\<lambda>n c. 16 * n + hex_digit c) 0 s"

text \<open>
  The loop of the IPv6 parser: \<open>i\<close> counts the bytes filled so far, \<open>ellipsis\<close> tells
  whether a \<open>::\<close> has been seen, \<open>s\<close> is the text left. Each round reads a group of
  hexadecimal digits of value at most \<open>0xFFFF\<close>. A dot after the group starts a
  trailing IPv4 address, which must fill the last four bytes unless there is an
  ellipsis. Otherwise the group is followed by the end of the text, by a colon and
  more text, or by the one ellipsis. At the end the 16 bytes are filled exactly when
  there is no ellipsis.
\<close>

function parseIPv6_groups :: "nat \<Rightarrow> bool \<Rightarrow> string \<Rightarrow> bool" where
  "parseIPv6_groups i ellipsis s =
     (if 16 \<le> i then False
      else if takeWhile is_hex s = [] then False
      else if 65535 < xtoi (takeWhile is_hex s) then False
      else (case dropWhile is_hex s of
              [] \<Rightarrow> (if i + 2 < 16 then ellipsis else \<not> ellipsis)
            | c # s1 \<Rightarrow>
                if c = CHR ''.'' then
                  (if \<not> ellipsis \<and> i \<noteq> 12 then False
                   else if 16 < i + 4 then False
                   else parseIPv4 s \<and> (if i + 4 < 16 then ellipsis else \<not> ellipsis))
                else if c \<noteq> CHR '':'' then False
                else (case s1 of
                        [] \<Rightarrow> False
                      | d # s2 \<Rightarrow>
                          if d = CHR '':'' then
                            (if ellipsis then False
                             else if s2 = [] then i + 2 < 16
                             else parseIPv6_groups (i + 2) True s2)
                          else parseIPv6_groups (i + 2) ellipsis s1)))"
  by pat_completeness auto
termination
  apply (relation "measure (\<lambda>(i, ellipsis, s). length s)")
    apply simp
  subgoal for i ellipsis s c s1 d s2
    using length_dropWhile_le [of is_hex s] by simp
  subgoal for i ellipsis s c s1 d s2
    using length_dropWhile_le [of is_hex s] by simp
  done

text \<open>An IPv6 address: an ellipsis may lead, and may be all there is.\<close>

definition parseIPv6 :: "string \<Rightarrow> bool" where
  "parseIPv6 s =
     (case s of
        c # d # s' \<Rightarrow>
          if c = CHR '':'' \<and> d = CHR '':'' then (s' = [] \<or> parseIPv6_groups 0 True s')
          else parseIPv6_groups 0 False s
      | _ \<Rightarrow> parseIPv6_groups 0 False s)"

definition can_cidrhost :: "string \<Rightarrow> bool" where
  "can_cidrhost s =
     (case split_on CHR ''/'' s of
        [a, n] \<Rightarrow> if parseIPv4 a then decimal_upto 32 n else parseIPv6 a \<and> decimal_upto 128 n
      | _ \<Rightarrow> False)"

text \<open>
  \<open>can(regex(pattern, s))\<close>. The regular expressions of Terraform are those of RE2,
  which has no look-around groups: \<open>regex\<close> fails on a pattern that holds \<open>(?=\<close>, \<open>(?!\<close>,
  \<open>(?<=\<close> or \<open>(?<!\<close>, whatever the string, and \<open>can\<close> turns the failure into \<open>false\<close>.
  On a pattern that compiles the call is true for the strings the pattern matches;
  these are given with each pattern.
\<close>

definition re2_compiles :: "string \<Rightarrow> bool" where
  "re2_compiles pattern =
     (\<not> sublist ''(?='' pattern \<and> \<not> sublist ''(?!'' pattern \<and>
      \<not> sublist ''(?<='' pattern \<and> \<not> sublist ''(?<!'' pattern)"

definition can_regex :: "string \<Rightarrow> (string \<Rightarrow> bool) \<Rightarrow> string \<Rightarrow> bool" where
  "can_regex pattern matches s = (re2_compiles pattern \<and> matches s)"

text \<open>The regions that the \<open>validation\<close> of a location variable admits.\<close>

definition azure_regions :: "string list" where
  "azure_regions =
     [''East US'', ''East US 2'', ''West US'', ''West US 2'', ''West US 3'',
      ''Central US'', ''North Central US'', ''South Central US'',
      ''West Central US'', ''Canada Central'', ''Canada East'',
      ''Brazil South'', ''North Europe'', ''West Europe'',
      ''UK South'', ''UK West'', ''France Central'', ''Germany West Central'',
      ''Switzerland North'', ''Norway East'', ''Sweden Central'',
      ''Australia East'', ''Australia Southeast'', ''Japan East'', ''Japan West'',
      ''Korea Central'', ''South India'', ''Southeast Asia'', ''East Asia'']"

text \<open>A \<open>validation\<close> block: the error message when the condition is false.\<close>

definition validation :: "bool \<Rightarrow> string \<Rightarrow> string list" where
  "validation condition error_message = (if condition then [] else [error_message])"

text \<open>A \<open>security_rule\<close> block of a network security group.\<close>

definition security_rule ::
  "string \<Rightarrow> int \<Rightarrow> string \<Rightarrow> string \<Rightarrow> string \<Rightarrow> val \<Rightarrow> string \<Rightarrow> val" where
  "security_rule nm priority access protocol source_address_prefix destination_ports tag =
     Obj [(''name'', Str nm), (''priority'', Num priority), (''direction'', Str ''Inbound''),
          (''access'', Str access), (''protocol'', Str protocol),
          (''source_port_range'', Str ''*''), (tag, destination_ports),
          (''source_address_prefix'', Str source_address_prefix),
          (''destination_address_prefix'', Str ''*'')]"

text \<open>The two directions of a peering differ in the gateway transit they allow.\<close>

definition peering_args :: "string \<Rightarrow> string \<Rightarrow> string \<Rightarrow> bool \<Rightarrow> (string \<times> val) list" where
  "peering_args resource_group_name virtual_network_name remote_virtual_network_id transit =
     [(''resource_group_name'', Str resource_group_name),
      (''virtual_network_name'', Str virtual_network_name),
      (''remote_virtual_network_id'', Str remote_virtual_network_id),
      (''allow_virtual_network_access'', Bool True),
      (''allow_forwarded_traffic'', Bool True),
      (''allow_gateway_transit'', Bool transit),
      (''use_remote_gateways'', Bool False)]"

subsection \<open>Key Vault spoke\<close>

record keyvault_vars =
  kv_spoke_location :: string
  kv_hub_state_path :: string
  kv_spoke_vnet_address_space :: string
  kv_keyvault_subnet_address_prefix :: string
  kv_key_vault_sku :: string
  kv_soft_delete_retention_days :: int
  kv_enable_purge_protection :: bool
  kv_allow_public_access :: bool
  kv_additional_tags :: tags
  kv_cost_center :: string

text \<open>The \<open>default\<close> of every variable (\<open>keyvault-spoke/variables.tf\<close>).\<close>

definition keyvault_defaults :: keyvault_vars where
  "keyvault_defaults =
     \<lparr> kv_spoke_location = ''South Central US'',
       kv_hub_state_path = ''../../hub/terraform.tfstate'',
       kv_spoke_vnet_address_space = ''10.1.0.0/16'',
       kv_keyvault_subnet_address_prefix = ''10.1.1.0/24'',
       kv_key_vault_sku = ''standard'',
       kv_soft_delete_retention_days = 7,
       kv_enable_purge_protection = False,
       kv_allow_public_access = True,
       kv_additional_tags = Map.empty,
       kv_cost_center = ''GuiWorld-KeyVault'' \<rparr>"

text \<open>The \<open>validation\<close> blocks of the address variables.\<close>

definition keyvault_address_validation :: "keyvault_vars \<Rightarrow> string list" where
  "keyvault_address_validation v =
     validation (can_cidrhost (kv_spoke_vnet_address_space v))
       ''Spoke VNet address space must be a valid CIDR block.'' @
     validation (can_cidrhost (kv_keyvault_subnet_address_prefix v))
       ''Key Vault subnet address prefix must be a valid CIDR block.''"

text \<open>All \<open>validation\<close> blocks of the module, in the order of \<open>variables.tf\<close>.\<close>

definition keyvault_validation :: "keyvault_vars \<Rightarrow> string list" where
  "keyvault_validation v =
     validation (kv_spoke_location v \<in> set azure_regions)
       ''Spoke location must be a valid Azure region.'' @
     keyvault_address_validation v @
     validation (kv_key_vault_sku v \<in> set [''standard'', ''premium''])
       ''Key Vault SKU must be either 'standard' or 'premium'.'' @
     validation (7 \<le> kv_soft_delete_retention_days v \<and> kv_soft_delete_retention_days v \<le> 90)
       ''Soft delete retention days must be between 7 and 90.''"

definition kv_spoke_tags :: "keyvault_vars \<Rightarrow> hub_outputs \<Rightarrow> tags" where
  "kv_spoke_tags v h =
     merge [ho_common_tags h,
            [''Component'' \<mapsto> ''KeyVault-Spoke'', ''Region'' \<mapsto> kv_spoke_location v],
            kv_additional_tags v]"

definition kv_resource_group_keyvault_spoke ::
  "keyvault_vars \<Rightarrow> hub_outputs \<Rightarrow> env \<Rightarrow> resource" where
  "kv_resource_group_keyvault_spoke v h e =
     \<lparr> r_type = ''azurerm_resource_group'', r_label = ''keyvault_spoke'',
       r_name = ''rg-guiworld-keyvault-'' @ ho_environment h @ ''-'' @ random_string_suffix_result e,
       r_tags = Some (kv_spoke_tags v h),
       r_args = [(''location'', Str (kv_spoke_location v))] \<rparr>"

definition kv_virtual_network_keyvault_spoke ::
  "keyvault_vars \<Rightarrow> hub_outputs \<Rightarrow> env \<Rightarrow> resource" where
  "kv_virtual_network_keyvault_spoke v h e =
     \<lparr> r_type = ''azurerm_virtual_network'', r_label = ''keyvault_spoke'',
       r_name = ''vnet-guiworld-keyvault-'' @ ho_environment h @ ''-'' @ random_string_suffix_result e,
       r_tags = Some (kv_spoke_tags v h),
       r_args = [(''address_space'', Lst [Str (kv_spoke_vnet_address_space v)]),
                 (''location'', Str (kv_spoke_location v)),
                 (''resource_group_name'', Str (r_name (kv_resource_group_keyvault_spoke v h e)))] \<rparr>"

definition kv_subnet_keyvault :: "keyvault_vars \<Rightarrow> hub_outputs \<Rightarrow> env \<Rightarrow> resource" where
  "kv_subnet_keyvault v h e =
     \<lparr> r_type = ''azurerm_subnet'', r_label = ''keyvault'',
       r_name = ''snet-keyvault'',
       r_tags = None,
       r_args = [(''resource_group_name'', Str (r_name (kv_resource_group_keyvault_spoke v h e))),
                 (''virtual_network_name'', Str (r_name (kv_virtual_network_keyvault_spoke v h e))),
                 (''address_prefixes'', Lst [Str (kv_keyvault_subnet_address_prefix v)]),
                 (''private_endpoint_network_policies_enabled'', Bool False)] \<rparr>"

definition kv_network_security_group_keyvault ::
  "keyvault_vars \<Rightarrow> hub_outputs \<Rightarrow> env \<Rightarrow> resource" where
  "kv_network_security_group_keyvault v h e =
     \<lparr> r_type = ''azurerm_network_security_group'', r_label = ''keyvault'',
       r_name = ''nsg-keyvault-'' @ ho_environment h @ ''-'' @ random_string_suffix_result e,
       r_tags = Some (kv_spoke_tags v h),
       r_args = [(''location'', Str (kv_spoke_location v)),
                 (''resource_group_name'', Str (r_name (kv_resource_group_keyvault_spoke v h e))),
                 (''security_rule'',
                  Lst [security_rule ''AllowKeyVaultHTTPS'' 1001 ''Allow'' ''Tcp'' ''VirtualNetwork''
                         (Str ''443'') ''destination_port_range'',
                       security_rule ''DenyAllInbound'' 4096 ''Deny'' ''*'' ''*''
                         (Str ''*'') ''destination_port_range''])] \<rparr>"

definition kv_subnet_network_security_group_association_keyvault ::
  "keyvault_vars \<Rightarrow> hub_outputs \<Rightarrow> env \<Rightarrow> resource" where
  "kv_subnet_network_security_group_association_keyvault v h e =
     \<lparr> r_type = ''azurerm_subnet_network_security_group_association'', r_label = ''keyvault'',
       r_name = [],
       r_tags = None,
       r_args = [(''subnet_id'', Str (computed e ''azurerm_subnet.keyvault.id'')),
                 (''network_security_group_id'',
                  Str (computed e ''azurerm_network_security_group.keyvault.id''))] \<rparr>"

text \<open>
  The domain resource. Its network rules name the spoke's own subnet and the
  shared-services subnet of the hub; \<open>var.allow_public_access\<close> sets both the public
  network access and the default action.
\<close>

definition kv_key_vault_main :: "keyvault_vars \<Rightarrow> hub_outputs \<Rightarrow> env \<Rightarrow> resource" where
  "kv_key_vault_main v h e =
     \<lparr> r_type = ''azurerm_key_vault'', r_label = ''main'',
       r_name = ''kv-guiworld-'' @ ho_environment h @ ''-'' @ random_string_suffix_result e,
       r_tags = Some (kv_spoke_tags v h),
       r_args = [(''location'', Str (kv_spoke_location v)),
                 (''resource_group_name'', Str (r_name (kv_resource_group_keyvault_spoke v h e))),
                 (''tenant_id'', Str (client_tenant_id e)),
                 (''sku_name'', Str (kv_key_vault_sku v)),
                 (''soft_delete_retention_days'', Num (kv_soft_delete_retention_days v)),
                 (''purge_protection_enabled'', Bool (kv_enable_purge_protection v)),
                 (''public_network_access_enabled'', Bool (kv_allow_public_access v)),
                 (''network_acls'',
                  Obj [(''bypass'', Str ''AzureServices''),
                       (''default_action'',
                        Str (if kv_allow_public_access v then ''Allow'' else ''Deny'')),
                       (''virtual_network_subnet_ids'',
                        Lst [Str (computed e ''azurerm_subnet.keyvault.id''),
                             Str (ho_shared_services_subnet_id h)])]),
                 (''access_policy'',
                  Obj [(''tenant_id'', Str (client_tenant_id e)),
                       (''object_id'', Str (client_object_id e)),
                       (''key_permissions'',
                        Lst (map Str [''Create'', ''Delete'', ''Get'', ''List'', ''Update'',
                                      ''Import'', ''Backup'', ''Restore'', ''Recover''])),
                       (''secret_permissions'',
                        Lst (map Str [''Set'', ''Get'', ''Delete'', ''List'', ''Backup'',
                                      ''Restore'', ''Recover''])),
                       (''certificate_permissions'',
                        Lst (map Str [''Create'', ''Delete'', ''Get'', ''List'', ''Update'',
                                      ''Import'', ''Backup'', ''Restore'', ''Recover'']))])] \<rparr>"

text \<open>\<open>count = var.allow_public_access ? 0 : 1\<close>\<close>

definition kv_private_endpoint_keyvault ::
  "keyvault_vars \<Rightarrow> hub_outputs \<Rightarrow> env \<Rightarrow> resource list" where
  "kv_private_endpoint_keyvault v h e =
     replicate (if kv_allow_public_access v then 0 else 1)
       \<lparr> r_type = ''azurerm_private_endpoint'', r_label = ''keyvault'',
         r_name = ''pep-keyvault-'' @ ho_environment h @ ''-'' @ random_string_suffix_result e,
         r_tags = Some (kv_spoke_tags v h),
         r_args = [(''location'', Str (kv_spoke_location v)),
                   (''resource_group_name'', Str (r_name (kv_resource_group_keyvault_spoke v h e))),
                   (''subnet_id'', Str (computed e ''azurerm_subnet.keyvault.id'')),
                   (''private_service_connection'',
                    Obj [(''name'', Str ''psc-keyvault''),
                         (''private_connection_resource_id'',
                          Str (computed e ''azurerm_key_vault.main.id'')),
                         (''subresource_names'', Lst [Str ''vault'']),
                         (''is_manual_connection'', Bool False)]),
                   (''private_dns_zone_group'',
                    Obj [(''name'', Str ''dns-zone-group''),
                         (''private_dns_zone_ids'',
                          Lst [Str (ho_keyvault_private_dns_zone_id h)])])] \<rparr>"

definition kv_virtual_network_peering_spoke_to_hub ::
  "keyvault_vars \<Rightarrow> hub_outputs \<Rightarrow> env \<Rightarrow> resource" where
  "kv_virtual_network_peering_spoke_to_hub v h e =
     \<lparr> r_type = ''azurerm_virtual_network_peering'', r_label = ''spoke_to_hub'',
       r_name = ''peer-keyvault-to-hub'',
       r_tags = None,
       r_args = peering_args (r_name (kv_resource_group_keyvault_spoke v h e))
                  (r_name (kv_virtual_network_keyvault_spoke v h e)) (ho_hub_vnet_id h) False \<rparr>"

definition kv_virtual_network_peering_hub_to_spoke ::
  "keyvault_vars \<Rightarrow> hub_outputs \<Rightarrow> env \<Rightarrow> resource" where
  "kv_virtual_network_peering_hub_to_spoke v h e =
     \<lparr> r_type = ''azurerm_virtual_network_peering'', r_label = ''hub_to_spoke'',
       r_name = ''peer-hub-to-keyvault'',
       r_tags = None,
       r_args = peering_args (ho_hub_resource_group_name h) (ho_hub_vnet_name h)
                  (computed e ''azurerm_virtual_network.keyvault_spoke.id'') True \<rparr>"

definition kv_private_dns_zone_virtual_network_link_keyvault_spoke ::
  "keyvault_vars \<Rightarrow> hub_outputs \<Rightarrow> env \<Rightarrow> resource" where
  "kv_private_dns_zone_virtual_network_link_keyvault_spoke v h e =
     \<lparr> r_type = ''azurerm_private_dns_zone_virtual_network_link'', r_label = ''keyvault_spoke'',
       r_name = ''keyvault-spoke-link'',
       r_tags = Some (kv_spoke_tags v h),
       r_args = [(''resource_group_name'', Str (ho_hub_resource_group_name h)),
                 (''private_dns_zone_name'', Str (ho_keyvault_private_dns_zone_name h)),
                 (''virtual_network_id'',
                  Str (computed e ''azurerm_virtual_network.keyvault_spoke.id'')),
                 (''registration_enabled'', Bool False)] \<rparr>"

definition kv_monitor_diagnostic_setting_keyvault ::
  "keyvault_vars \<Rightarrow> hub_outputs \<Rightarrow> env \<Rightarrow> resource" where
  "kv_monitor_diagnostic_setting_keyvault v h e =
     \<lparr> r_type = ''azurerm_monitor_diagnostic_setting'', r_label = ''keyvault'',
       r_name = ''diag-keyvault-'' @ ho_environment h @ ''-'' @ random_string_suffix_result e,
       r_tags = None,
       r_args = [(''target_resource_id'', Str (computed e ''azurerm_key_vault.main.id'')),
                 (''log_analytics_workspace_id'', Str (ho_log_analytics_workspace_id h)),
                 (''enabled_log'',
                  Lst [Obj [(''category'', Str ''AuditEvent'')],
                       Obj [(''category'', Str ''AzurePolicyEvaluationDetails'')]]),
                 (''metric'', Obj [(''category'', Str ''AllMetrics''), (''enabled'', Bool True)])] \<rparr>"

text \<open>The resources of the module, in the order of \<open>main.tf\<close>.\<close>

definition keyvault_resources :: "keyvault_vars \<Rightarrow> hub_outputs \<Rightarrow> env \<Rightarrow> resource list" where
  "keyvault_resources v h e =
     [kv_resource_group_keyvault_spoke v h e,
      kv_virtual_network_keyvault_spoke v h e,
      kv_subnet_keyvault v h e,
      kv_network_security_group_keyvault v h e,
      kv_subnet_network_security_group_association_keyvault v h e,
      kv_key_vault_main v h e] @
     kv_private_endpoint_keyvault v h e @
     [kv_virtual_network_peering_spoke_to_hub v h e,
      kv_virtual_network_peering_hub_to_spoke v h e,
      kv_private_dns_zone_virtual_network_link_keyvault_spoke v h e,
      kv_monitor_diagnostic_setting_keyvault v h e]"

text \<open>
  A run first checks the variables and reads the data sources, both while planning; an
  error there ends the run with nothing created. Otherwise the resources above are
  the plan. The first rule that fails, in the order of \<open>variables.tf\<close>, gives the error.
\<close>

definition keyvault_plan :: "keyvault_vars \<Rightarrow> env \<Rightarrow> error + resource list" where
  "keyvault_plan v e =
     (case keyvault_validation v of
        m # _ \<Rightarrow> Inl (InvalidVariable m)
      | [] \<Rightarrow>
          (case hub_state_at e (kv_hub_state_path v) of
             None \<Rightarrow> Inl (RemoteStateUnreadable (kv_hub_state_path v))
           | Some h \<Rightarrow> Inr (keyvault_resources v h e)))"

subsection \<open>The random provider\<close>

text \<open>
  The arguments of a \<open>random_string\<close> or \<open>random_password\<close> resource. An argument a
  block does not set has the provider's default: every character class enabled and
  no minimum count for any class.
\<close>

record random_args =
  ra_length :: nat
  ra_lower :: bool
  ra_upper :: bool
  ra_numeric :: bool
  ra_special :: bool
  ra_min_lower :: nat
  ra_min_upper :: nat
  ra_min_numeric :: nat
  ra_min_special :: nat

definition random_provider_defaults :: "nat \<Rightarrow> random_args" where
  "random_provider_defaults n =
     \<lparr> ra_length = n, ra_lower = True, ra_upper = True, ra_numeric = True, ra_special = True,
       ra_min_lower = 0, ra_min_upper = 0, ra_min_numeric = 0, ra_min_special = 0 \<rparr>"

text \<open>\<open>resource "random_string" "suffix"\<close>, the same block in every module.\<close>

definition random_string_suffix :: random_args where
  "random_string_suffix = (random_provider_defaults 8) \<lparr> ra_special := False, ra_upper := False \<rparr>"

text \<open>\<open>resource "random_password" "db_admin"\<close> of the Database spoke.\<close>

definition random_password_db_admin :: random_args where
  "random_password_db_admin = (random_provider_defaults 16) \<lparr> ra_special := True \<rparr>"

definition lower_chars :: string where
  "lower_chars = ''abcdefghijklmnopqrstuvwxyz''"

definition upper_chars :: string where
  "upper_chars = ''ABCDEFGHIJKLMNOPQRSTUVWXYZ''"

definition numeric_chars :: string where
  "numeric_chars = ''0123456789''"

definition special_chars :: string where
  "special_chars = ''!@#$%&*()-_=+[]{}<>:?''"

definition count_in :: "string \<Rightarrow> string \<Rightarrow> nat" where
  "count_in cs s = length (filter (\<lambda>c. c \<in> set cs) s)"

definition random_alphabet :: "random_args \<Rightarrow> string" where
  "random_alphabet a =
     (if ra_lower a then lower_chars else []) @ (if ra_upper a then upper_chars else []) @
     (if ra_numeric a then numeric_chars else []) @ (if ra_special a then special_chars else [])"

text \<open>
  The results the provider can produce for given arguments: strings of the given
  length over the enabled classes, with at least the minimum count of each class.
\<close>

definition random_admits :: "random_args \<Rightarrow> string \<Rightarrow> bool" where
  "random_admits a s =
     (length s = ra_length a \<and> list_all (\<lambda>c. c \<in> set (random_alphabet a)) s \<and>
      ra_min_lower a \<le> count_in lower_chars s \<and> ra_min_upper a \<le> count_in upper_chars s \<and>
      ra_min_numeric a \<le> count_in numeric_chars s \<and> ra_min_special a \<le> count_in special_chars s)"

subsection \<open>Database spoke\<close>

record database_vars =
  db_spoke_location :: string
  db_hub_state_path :: string
  db_keyvault_state_path :: string
  db_store_password_in_keyvault :: bool
  db_spoke_vnet_address_space :: string
  db_database_subnet_address_prefix :: string
  db_postgresql_sku :: string
  db_postgresql_storage_mb :: int
  db_postgresql_version :: string
  db_database_admin_username :: string
  db_database_admin_password :: string
  db_database_name :: string
  db_additional_databases :: "string list"
  db_database_timezone :: string
  db_backup_retention_days :: int
  db_geo_redundant_backup_enabled :: bool
  db_enable_high_availability :: bool
  db_maintenance_window_day :: int
  db_maintenance_window_hour :: int
  db_additional_tags :: tags
  db_cost_center :: string

text \<open>The \<open>default\<close> of every variable (\<open>database-spoke/variables.tf\<close>).\<close>

definition database_defaults :: database_vars where
  "database_defaults =
     \<lparr> db_spoke_location = ''East US'',
       db_hub_state_path = ''../../hub/terraform.tfstate'',
       db_keyvault_state_path = ''../keyvault-spoke/terraform.tfstate'',
       db_store_password_in_keyvault = False,
       db_spoke_vnet_address_space = ''10.2.0.0/16'',
       db_database_subnet_address_prefix = ''10.2.1.0/24'',
       db_postgresql_sku = ''B_Standard_B1ms'',
       db_postgresql_storage_mb = 32768,
       db_postgresql_version = ''15'',
       db_database_admin_username = ''guiworld_admin'',
       db_database_admin_password = [],
       db_database_name = ''guiworld'',
       db_additional_databases = [],
       db_database_timezone = ''UTC'',
       db_backup_retention_days = 14,
       db_geo_redundant_backup_enabled = False,
       db_enable_high_availability = False,
       db_maintenance_window_day = 0,
       db_maintenance_window_hour = 3,
       db_additional_tags = Map.empty,
       db_cost_center = ''GuiWorld-Database'' \<rparr>"

definition database_address_validation :: "database_vars \<Rightarrow> string list" where
  "database_address_validation v =
     validation (can_cidrhost (db_spoke_vnet_address_space v))
       ''Spoke VNet address space must be a valid CIDR block.'' @
     validation (can_cidrhost (db_database_subnet_address_prefix v))
       ''Database subnet address prefix must be a valid CIDR block.''"

text \<open>
  The pattern of \<open>postgresql_sku\<close> and the strings it matches: one of three series, each
  with one of three sizes.
\<close>

definition postgresql_sku_pattern :: string where
  "postgresql_sku_pattern =
     ''^(B_Standard_B[124]ms|GP_Standard_D[248]s_v3|MO_Standard_E[248]s_v3)$''"

definition postgresql_sku_matches :: "string \<Rightarrow> bool" where
  "postgresql_sku_matches s =
     (s \<in> set [''B_Standard_B1ms'', ''B_Standard_B2ms'', ''B_Standard_B4ms'',
               ''GP_Standard_D2s_v3'', ''GP_Standard_D4s_v3'', ''GP_Standard_D8s_v3'',
               ''MO_Standard_E2s_v3'', ''MO_Standard_E4s_v3'', ''MO_Standard_E8s_v3''])"

text \<open>
  The patterns of \<open>database_admin_username\<close> and \<open>database_name\<close>: a letter, followed by
  2 to 63, respectively 0 to 62, letters, digits and underscores.
\<close>

definition database_admin_username_pattern :: string where
  "database_admin_username_pattern = ''^[a-zA-Z][a-zA-Z0-9_]{2,63}$''"

definition database_name_pattern :: string where
  "database_name_pattern = ''^[a-zA-Z][a-zA-Z0-9_]{0,62}$''"

definition identifier_matches :: "nat \<Rightarrow> nat \<Rightarrow> string \<Rightarrow> bool" where
  "identifier_matches lo hi s =
     (case s of
        [] \<Rightarrow> False
      | c # cs \<Rightarrow>
          c \<in> set (lower_chars @ upper_chars) \<and>
          list_all (\<lambda>x. x \<in> set (lower_chars @ upper_chars @ numeric_chars @ ''_'')) cs \<and>
          lo \<le> length cs \<and> length cs \<le> hi)"

text \<open>
  The pattern of \<open>database_admin_password\<close>; \<open>CHR 0x5C\<close> is the backslash of its two
  digit classes. It opens with four look-ahead groups.
\<close>

definition database_admin_password_pattern :: string where
  "database_admin_password_pattern =
     ''^(?=.*[a-z])(?=.*[A-Z])(?=.*'' @ [CHR 0x5C] @ ''d)(?=.*[@$!%*?&])[A-Za-z'' @ [CHR 0x5C] @
     ''d@$!%*?&]{12,128}$''"

text \<open>
  The policy that the \<open>validation\<close> block of \<open>database_admin_password\<close> declares for a
  password the caller supplies, as its pattern and its error message state it: 12 to
  128 characters out of letters, digits and \<open>@$!%*?&\<close>, with at least one lowercase
  letter, one uppercase letter, one digit and one of the special characters.
\<close>

definition password_policy :: "string \<Rightarrow> bool" where
  "password_policy s =
     (0 < count_in lower_chars s \<and> 0 < count_in upper_chars s \<and>
      0 < count_in numeric_chars s \<and> 0 < count_in ''@$!%*?&'' s \<and>
      list_all (\<lambda>c. c \<in> set (upper_chars @ lower_chars @ numeric_chars @ ''@$!%*?&'')) s \<and>
      12 \<le> length s \<and> length s \<le> 128)"

text \<open>All \<open>validation\<close> blocks of the module, in the order of \<open>variables.tf\<close>.\<close>

definition database_validation :: "database_vars \<Rightarrow> string list" where
  "database_validation v =
     validation (db_spoke_location v \<in> set azure_regions)
       ''Spoke location must be a valid Azure region.'' @
     database_address_validation v @
     validation (can_regex postgresql_sku_pattern postgresql_sku_matches (db_postgresql_sku v))
       ''PostgreSQL SKU must be a valid flexible server SKU.'' @
     validation (20480 \<le> db_postgresql_storage_mb v \<and> db_postgresql_storage_mb v \<le> 16777216)
       ''PostgreSQL storage must be between 20GB and 16TB (20480 to 16777216 MB).'' @
     validation (db_postgresql_version v \<in> set [''11'', ''12'', ''13'', ''14'', ''15''])
       ''PostgreSQL version must be 11, 12, 13, 14, or 15.'' @
     validation (can_regex database_admin_username_pattern (identifier_matches 2 63)
                   (db_database_admin_username v))
       (''Database admin username must be 3-64 characters, start with a letter, '' @
        ''and contain only letters, numbers, and underscores.'') @
     validation (db_database_admin_password v = [] \<or>
                 can_regex database_admin_password_pattern password_policy
                   (db_database_admin_password v))
       (''Database admin password must be 12-128 characters with at least one lowercase '' @
        ''letter, one uppercase letter, one digit, and one special character, '' @
        ''or leave empty for auto-generation.'') @
     validation (can_regex database_name_pattern (identifier_matches 0 62) (db_database_name v))
       (''Database name must start with a letter and contain only letters, numbers, '' @
        ''and underscores (max 63 characters).'') @
     validation (7 \<le> db_backup_retention_days v \<and> db_backup_retention_days v \<le> 35)
       ''Backup retention days must be between 7 and 35.'' @
     validation (0 \<le> db_maintenance_window_day v \<and> db_maintenance_window_day v \<le> 6)
       ''Maintenance window day must be between 0 (Sunday) and 6 (Saturday).'' @
     validation (0 \<le> db_maintenance_window_hour v \<and> db_maintenance_window_hour v \<le> 23)
       ''Maintenance window hour must be between 0 and 23.''"

definition db_spoke_tags :: "database_vars \<Rightarrow> hub_outputs \<Rightarrow> tags" where
  "db_spoke_tags v h =
     merge [ho_common_tags h,
            [''Component'' \<mapsto> ''Database-Spoke'', ''Region'' \<mapsto> db_spoke_location v],
            db_additional_tags v]"

definition db_resource_group_database_spoke ::
  "database_vars \<Rightarrow> hub_outputs \<Rightarrow> env \<Rightarrow> resource" where
  "db_resource_group_database_spoke v h e =
     \<lparr> r_type = ''azurerm_resource_group'', r_label = ''database_spoke'',
       r_name = ''rg-guiworld-database-'' @ ho_environment h @ ''-'' @ random_string_suffix_result e,
       r_tags = Some (db_spoke_tags v h),
       r_args = [(''location'', Str (db_spoke_location v))] \<rparr>"

definition db_virtual_network_database_spoke ::
  "database_vars \<Rightarrow> hub_outputs \<Rightarrow> env \<Rightarrow> resource" where
  "db_virtual_network_database_spoke v h e =
     \<lparr> r_type = ''azurerm_virtual_network'', r_label = ''database_spoke'',
       r_name = ''vnet-guiworld-database-'' @ ho_environment h @ ''-'' @ random_string_suffix_result e,
       r_tags = Some (db_spoke_tags v h),
       r_args = [(''address_space'', Lst [Str (db_spoke_vnet_address_space v)]),
                 (''location'', Str (db_spoke_location v)),
                 (''resource_group_name'', Str (r_name (db_resource_group_database_spoke v h e)))] \<rparr>"

definition db_subnet_database :: "database_vars \<Rightarrow> hub_outputs \<Rightarrow> env \<Rightarrow> resource" where
  "db_subnet_database v h e =
     \<lparr> r_type = ''azurerm_subnet'', r_label = ''database'',
       r_name = ''snet-database'',
       r_tags = None,
       r_args = [(''resource_group_name'', Str (r_name (db_resource_group_database_spoke v h e))),
                 (''virtual_network_name'', Str (r_name (db_virtual_network_database_spoke v h e))),
                 (''address_prefixes'', Lst [Str (db_database_subnet_address_prefix v)]),
                 (''delegation'',
                  Obj [(''name'', Str ''postgresql-delegation''),
                       (''service_delegation'',
                        Obj [(''name'', Str ''Microsoft.DBforPostgreSQL/flexibleServers''),
                             (''actions'',
                              Lst [Str ''Microsoft.Network/virtualNetworks/subnets/join/action''])])])] \<rparr>"

text \<open>
  \<open>hub_vnet_address_space[0]\<close>: the hub publishes the list \<open>[var.hub_vnet_address_space]\<close>;
  on an empty list the index fails.
\<close>

definition db_network_security_group_database ::
  "database_vars \<Rightarrow> hub_outputs \<Rightarrow> env \<Rightarrow> error + resource" where
  "db_network_security_group_database v h e =
     (case index0 ''hub_vnet_address_space'' (ho_hub_vnet_address_space h) of
        Inl err \<Rightarrow> Inl err
      | Inr hub_space \<Rightarrow> Inr
     \<lparr> r_type = ''azurerm_network_security_group'', r_label = ''database'',
       r_name = ''nsg-database-'' @ ho_environment h @ ''-'' @ random_string_suffix_result e,
       r_tags = Some (db_spoke_tags v h),
       r_args = [(''location'', Str (db_spoke_location v)),
                 (''resource_group_name'', Str (r_name (db_resource_group_database_spoke v h e))),
                 (''security_rule'',
                  Lst [security_rule ''AllowPostgreSQL'' 1001 ''Allow'' ''Tcp'' ''VirtualNetwork''
                         (Str ''5432'') ''destination_port_range'',
                       security_rule ''AllowPostgreSQLFromHub'' 1002 ''Allow'' ''Tcp'' hub_space
                         (Str ''5432'') ''destination_port_range'',
                       security_rule ''DenyAllInbound'' 4096 ''Deny'' ''*'' ''*''
                         (Str ''*'') ''destination_port_range''])] \<rparr>)"

definition db_subnet_network_security_group_association_database ::
  "database_vars \<Rightarrow> hub_outputs \<Rightarrow> env \<Rightarrow> resource" where
  "db_subnet_network_security_group_association_database v h e =
     \<lparr> r_type = ''azurerm_subnet_network_security_group_association'', r_label = ''database'',
       r_name = [],
       r_tags = None,
       r_args = [(''subnet_id'', Str (computed e ''azurerm_subnet.database.id'')),
                 (''network_security_group_id'',
                  Str (computed e ''azurerm_network_security_group.database.id''))] \<rparr>"

definition db_private_dns_zone_virtual_network_link_database_spoke ::
  "database_vars \<Rightarrow> hub_outputs \<Rightarrow> env \<Rightarrow> resource" where
  "db_private_dns_zone_virtual_network_link_database_spoke v h e =
     \<lparr> r_type = ''azurerm_private_dns_zone_virtual_network_link'', r_label = ''database_spoke'',
       r_name = ''database-spoke-link'',
       r_tags = Some (db_spoke_tags v h),
       r_args = [(''resource_group_name'', Str (ho_hub_resource_group_name h)),
                 (''private_dns_zone_name'', Str (ho_postgres_private_dns_zone_name h)),
                 (''virtual_network_id'',
                  Str (computed e ''azurerm_virtual_network.database_spoke.id'')),
                 (''registration_enabled'', Bool False)] \<rparr>"

text \<open>
  The domain resource. It has no public-access argument and no network rules: it is
  placed in the delegated database subnet and the private DNS zone of the hub.
\<close>

definition db_postgresql_flexible_server_main ::
  "database_vars \<Rightarrow> hub_outputs \<Rightarrow> env \<Rightarrow> resource" where
  "db_postgresql_flexible_server_main v h e =
     \<lparr> r_type = ''azurerm_postgresql_flexible_server'', r_label = ''main'',
       r_name = ''psql-guiworld-'' @ ho_environment h @ ''-'' @ random_string_suffix_result e,
       r_tags = Some (db_spoke_tags v h),
       r_args = [(''resource_group_name'', Str (r_name (db_resource_group_database_spoke v h e))),
                 (''location'', Str (db_spoke_location v)),
                 (''administrator_login'', Str (db_database_admin_username v)),
                 (''administrator_password'',
                  Str (if db_database_admin_password v \<noteq> [] then db_database_admin_password v
                       else random_password_db_admin_result e)),
                 (''sku_name'', Str (db_postgresql_sku v)),
                 (''storage_mb'', Num (db_postgresql_storage_mb v)),
                 (''version'', Str (db_postgresql_version v)),
                 (''backup_retention_days'', Num (db_backup_retention_days v)),
                 (''geo_redundant_backup_enabled'', Bool (db_geo_redundant_backup_enabled v)),
                 (''delegated_subnet_id'', Str (computed e ''azurerm_subnet.database.id'')),
                 (''private_dns_zone_id'', Str (ho_postgres_private_dns_zone_id h)),
                 (''high_availability'',
                  Lst (map (\<lambda>_. Obj [(''mode'', Str ''ZoneRedundant'')])
                         (if db_enable_high_availability v then [1::nat] else []))),
                 (''maintenance_window'',
                  Obj [(''day_of_week'', Num (db_maintenance_window_day v)),
                       (''start_hour'', Num (db_maintenance_window_hour v)),
                       (''start_minute'', Num 0)])] \<rparr>"

definition db_postgresql_flexible_server_database_guiworld ::
  "database_vars \<Rightarrow> hub_outputs \<Rightarrow> env \<Rightarrow> resource" where
  "db_postgresql_flexible_server_database_guiworld v h e =
     \<lparr> r_type = ''azurerm_postgresql_flexible_server_database'', r_label = ''guiworld'',
       r_name = db_database_name v,
       r_tags = None,
       r_args = [(''server_id'', Str (computed e ''azurerm_postgresql_flexible_server.main.id'')),
                 (''collation'', Str ''en_US.utf8''), (''charset'', Str ''utf8'')] \<rparr>"

text \<open>\<open>for_each = toset(var.additional_databases)\<close>\<close>

definition db_postgresql_flexible_server_database_additional ::
  "database_vars \<Rightarrow> hub_outputs \<Rightarrow> env \<Rightarrow> resource list" where
  "db_postgresql_flexible_server_database_additional v h e =
     map (\<lambda>each_value.
       \<lparr> r_type = ''azurerm_postgresql_flexible_server_database'', r_label = ''additional'',
         r_name = each_value,
         r_tags = None,
         r_args = [(''server_id'', Str (computed e ''azurerm_postgresql_flexible_server.main.id'')),
                   (''collation'', Str ''en_US.utf8''), (''charset'', Str ''utf8'')] \<rparr>)
       (toset (db_additional_databases v))"

definition db_postgresql_flexible_server_configuration ::
  "string \<Rightarrow> string \<Rightarrow> string \<Rightarrow> env \<Rightarrow> resource" where
  "db_postgresql_flexible_server_configuration lbl nm value e =
     \<lparr> r_type = ''azurerm_postgresql_flexible_server_configuration'', r_label = lbl,
       r_name = nm,
       r_tags = None,
       r_args = [(''server_id'', Str (computed e ''azurerm_postgresql_flexible_server.main.id'')),
                 (''value'', Str value)] \<rparr>"

definition db_virtual_network_peering_spoke_to_hub ::
  "database_vars \<Rightarrow> hub_outputs \<Rightarrow> env \<Rightarrow> resource" where
  "db_virtual_network_peering_spoke_to_hub v h e =
     \<lparr> r_type = ''azurerm_virtual_network_peering'', r_label = ''spoke_to_hub'',
       r_name = ''peer-database-to-hub'',
       r_tags = None,
       r_args = peering_args (r_name (db_resource_group_database_spoke v h e))
                  (r_name (db_virtual_network_database_spoke v h e)) (ho_hub_vnet_id h) False \<rparr>"

definition db_virtual_network_peering_hub_to_spoke ::
  "database_vars \<Rightarrow> hub_outputs \<Rightarrow> env \<Rightarrow> resource" where
  "db_virtual_network_peering_hub_to_spoke v h e =
     \<lparr> r_type = ''azurerm_virtual_network_peering'', r_label = ''hub_to_spoke'',
       r_name = ''peer-hub-to-database'',
       r_tags = None,
       r_args = peering_args (ho_hub_resource_group_name h) (ho_hub_vnet_name h)
                  (computed e ''azurerm_virtual_network.database_spoke.id'') True \<rparr>"

text \<open>
  \<open>data "terraform_remote_state" "keyvault"\<close> with
  \<open>count = var.store_password_in_keyvault ? 1 : 0\<close>: the state of the Key Vault spoke is
  read only when the flag is set, and a state that cannot be read is an error.
\<close>

definition db_data_terraform_remote_state_keyvault ::
  "database_vars \<Rightarrow> env \<Rightarrow> error + keyvault_outputs list" where
  "db_data_terraform_remote_state_keyvault v e =
     (if db_store_password_in_keyvault v then
        (case keyvault_state_at e (db_keyvault_state_path v) of
           None \<Rightarrow> Inl (RemoteStateUnreadable (db_keyvault_state_path v))
         | Some k \<Rightarrow> Inr [k])
      else Inr [])"

text \<open>
  The two secrets, each with \<open>count = var.store_password_in_keyvault ? 1 : 0\<close> and
  \<open>key_vault_id = data.terraform_remote_state.keyvault[0].outputs.key_vault_id\<close>.
\<close>

definition db_key_vault_secret_db_password ::
  "database_vars \<Rightarrow> hub_outputs \<Rightarrow> keyvault_outputs list \<Rightarrow> env \<Rightarrow> error + resource list" where
  "db_key_vault_secret_db_password v h kv e =
     (if db_store_password_in_keyvault v then
        (case index0 ''data.terraform_remote_state.keyvault'' kv of
           Inl err \<Rightarrow> Inl err
         | Inr k \<Rightarrow> Inr
            [\<lparr> r_type = ''azurerm_key_vault_secret'', r_label = ''db_password'',
               r_name = ''database-admin-password'',
               r_tags = Some (db_spoke_tags v h),
               r_args = [(''value'',
                          Str (if db_database_admin_password v \<noteq> []
                               then db_database_admin_password v
                               else random_password_db_admin_result e)),
                         (''key_vault_id'', Str (ko_key_vault_id k))] \<rparr>])
      else Inr [])"

definition db_key_vault_secret_db_connection_string ::
  "database_vars \<Rightarrow> hub_outputs \<Rightarrow> keyvault_outputs list \<Rightarrow> env \<Rightarrow> error + resource list" where
  "db_key_vault_secret_db_connection_string v h kv e =
     (if db_store_password_in_keyvault v then
        (case index0 ''data.terraform_remote_state.keyvault'' kv of
           Inl err \<Rightarrow> Inl err
         | Inr k \<Rightarrow> Inr
            [\<lparr> r_type = ''azurerm_key_vault_secret'', r_label = ''db_connection_string'',
               r_name = ''database-connection-string'',
               r_tags = Some (db_spoke_tags v h),
               r_args = [(''value'',
                          Str (''Host='' @ computed e ''azurerm_postgresql_flexible_server.main.fqdn'' @
                               '';Database='' @
                               r_name (db_postgresql_flexible_server_database_guiworld v h e) @
                               '';Username='' @ db_database_admin_username v @
                               '';Password='' @
                               (if db_database_admin_password v \<noteq> []
                                then db_database_admin_password v
                                else random_password_db_admin_result e) @
                               '';SSL Mode=Require'')),
                         (''key_vault_id'', Str (ko_key_vault_id k))] \<rparr>])
      else Inr [])"

definition db_monitor_diagnostic_setting_postgresql ::
  "database_vars \<Rightarrow> hub_outputs \<Rightarrow> env \<Rightarrow> resource" where
  "db_monitor_diagnostic_setting_postgresql v h e =
     \<lparr> r_type = ''azurerm_monitor_diagnostic_setting'', r_label = ''postgresql'',
       r_name = ''diag-postgresql-'' @ ho_environment h @ ''-'' @ random_string_suffix_result e,
       r_tags = None,
       r_args = [(''target_resource_id'',
                  Str (computed e ''azurerm_postgresql_flexible_server.main.id'')),
                 (''log_analytics_workspace_id'', Str (ho_log_analytics_workspace_id h)),
                 (''enabled_log'', Lst [Obj [(''category'', Str ''PostgreSQLLogs'')]]),
                 (''metric'', Obj [(''category'', Str ''AllMetrics''), (''enabled'', Bool True)])] \<rparr>"

text \<open>The resources of the module, in the order of its \<open>main.tf\<close>.\<close>

definition database_resources ::
  "database_vars \<Rightarrow> hub_outputs \<Rightarrow> keyvault_outputs list \<Rightarrow> env \<Rightarrow> error + resource list" where
  "database_resources v h kv e =
     (case db_network_security_group_database v h e of
        Inl err \<Rightarrow> Inl err
      | Inr nsg \<Rightarrow>
     (case db_key_vault_secret_db_password v h kv e of
        Inl err \<Rightarrow> Inl err
      | Inr db_password \<Rightarrow>
     (case db_key_vault_secret_db_connection_string v h kv e of
        Inl err \<Rightarrow> Inl err
      | Inr db_connection_string \<Rightarrow> Inr
         ([db_resource_group_database_spoke v h e,
           db_virtual_network_database_spoke v h e,
           db_subnet_database v h e,
           nsg,
           db_subnet_network_security_group_association_database v h e,
           db_private_dns_zone_virtual_network_link_database_spoke v h e,
           db_postgresql_flexible_server_main v h e,
           db_postgresql_flexible_server_database_guiworld v h e] @
          db_postgresql_flexible_server_database_additional v h e @
          [db_postgresql_flexible_server_configuration ''timezone'' ''timezone''
             (db_database_timezone v) e,
           db_postgresql_flexible_server_configuration ''log_connections'' ''log_connections''
             ''on'' e,
           db_postgresql_flexible_server_configuration ''log_disconnections'' ''log_disconnections''
             ''on'' e,
           db_virtual_network_peering_spoke_to_hub v h e,
           db_virtual_network_peering_hub_to_spoke v h e] @
          db_password @ db_connection_string @
          [db_monitor_diagnostic_setting_postgresql v h e]))))"

text \<open>
  A run checks the variables and reads both data sources before any resource is
  created; an error there ends the run with nothing created. The first rule that
  fails, in the order of \<open>variables.tf\<close>, gives the error.
\<close>

definition database_plan :: "database_vars \<Rightarrow> env \<Rightarrow> error + resource list" where
  "database_plan v e =
     (case database_validation v of
        m # _ \<Rightarrow> Inl (InvalidVariable m)
      | [] \<Rightarrow>
          (case hub_state_at e (db_hub_state_path v) of
             None \<Rightarrow> Inl (RemoteStateUnreadable (db_hub_state_path v))
           | Some h \<Rightarrow>
               (case db_data_terraform_remote_state_keyvault v e of
                  Inl err \<Rightarrow> Inl err
                | Inr kv \<Rightarrow> database_resources v h kv e)))"

text \<open>What a run has created: nothing when planning failed, the planned resources otherwise.\<close>

definition created :: "error + resource list \<Rightarrow> resource list" where
  "created p = (case p of Inl _ \<Rightarrow> [] | Inr rs \<Rightarrow> rs)"

subsection \<open>Storage spoke\<close>

record file_share =
  quota_gb :: int
  access_tier :: string

text \<open>
  \<open>file_shares\<close> is a map from share names to share settings, kept as the list of its
  entries, one for each name; \<open>length(var.file_shares)\<close> is the number of entries.
\<close>

record storage_vars =
  st_hub_state_path :: string
  st_keyvault_state_path :: string
  st_spoke_location :: string
  st_spoke_vnet_address_space :: string
  st_storage_subnet_address_prefix :: string
  st_storage_account_tier :: string
  st_storage_replication_type :: string
  st_storage_account_kind :: string
  st_allow_public_access :: bool
  st_storage_containers :: "string list"
  st_file_shares :: "(string \<times> file_share) list"
  st_storage_tables :: "string list"
  st_storage_queues :: "string list"
  st_enable_versioning :: bool
  st_enable_change_feed :: bool
  st_enable_static_website :: bool
  st_static_website_index_document :: string
  st_static_website_error_document :: string
  st_store_connection_string_in_keyvault :: bool
  st_additional_tags :: tags

text \<open>The \<open>default\<close> of every variable (the variables file of the Storage spoke).\<close>

definition storage_defaults :: storage_vars where
  "storage_defaults =
     \<lparr> st_hub_state_path = ''../../hub/terraform.tfstate'',
       st_keyvault_state_path = ''../keyvault-spoke/terraform.tfstate'',
       st_spoke_location = ''West US'',
       st_spoke_vnet_address_space = ''10.3.0.0/16'',
       st_storage_subnet_address_prefix = ''10.3.1.0/24'',
       st_storage_account_tier = ''Standard'',
       st_storage_replication_type = ''LRS'',
       st_storage_account_kind = ''StorageV2'',
       st_allow_public_access = False,
       st_storage_containers =
         [''webgui-data'', ''application-assets'', ''user-uploads'', ''backup-data''],
       st_file_shares =
         [(''webgui-shared'', \<lparr> quota_gb = 100, access_tier = ''Hot'' \<rparr>),
          (''application-files'', \<lparr> quota_gb = 50, access_tier = ''Hot'' \<rparr>)],
       st_storage_tables = [],
       st_storage_queues = [],
       st_enable_versioning = True,
       st_enable_change_feed = True,
       st_enable_static_website = False,
       st_static_website_index_document = ''index.html'',
       st_static_website_error_document = ''error.html'',
       st_store_connection_string_in_keyvault = True,
       st_additional_tags = Map.empty \<rparr>"

text \<open>
  The variables \<open>spoke_vnet_address_space\<close> and \<open>storage_subnet_address_prefix\<close> of this
  module have a type, a description and a default, and no \<open>validation\<close> block.
\<close>

definition storage_address_validation :: "storage_vars \<Rightarrow> string list" where
  "storage_address_validation v = []"

text \<open>All \<open>validation\<close> blocks of the module, in the order of its variables file.\<close>

definition storage_validation :: "storage_vars \<Rightarrow> string list" where
  "storage_validation v =
     storage_address_validation v @
     validation (st_storage_account_tier v \<in> set [''Standard'', ''Premium''])
       ''Storage account tier must be either 'Standard' or 'Premium'.'' @
     validation (st_storage_replication_type v \<in>
                   set [''LRS'', ''GRS'', ''RAGRS'', ''ZRS'', ''GZRS'', ''RAGZRS''])
       ''Storage replication type must be one of: LRS, GRS, RAGRS, ZRS, GZRS, RAGZRS.'' @
     validation (st_storage_account_kind v \<in>
                   set [''Storage'', ''StorageV2'', ''BlobStorage'', ''FileStorage'',
                        ''BlockBlobStorage''])
       (''Storage account kind must be one of: Storage, StorageV2, BlobStorage, '' @
        ''FileStorage, BlockBlobStorage.'')"

definition st_spoke_tags :: "storage_vars \<Rightarrow> hub_outputs \<Rightarrow> tags" where
  "st_spoke_tags v h =
     merge [ho_common_tags h,
            [''Component'' \<mapsto> ''Storage-Spoke'', ''Region'' \<mapsto> st_spoke_location v],
            st_additional_tags v]"

definition st_resource_group_storage_spoke ::
  "storage_vars \<Rightarrow> hub_outputs \<Rightarrow> env \<Rightarrow> resource" where
  "st_resource_group_storage_spoke v h e =
     \<lparr> r_type = ''azurerm_resource_group'', r_label = ''storage_spoke'',
       r_name = ''rg-guiworld-storage-'' @ ho_environment h @ ''-'' @ random_string_suffix_result e,
       r_tags = Some (st_spoke_tags v h),
       r_args = [(''location'', Str (st_spoke_location v))] \<rparr>"

definition st_virtual_network_storage_spoke ::
  "storage_vars \<Rightarrow> hub_outputs \<Rightarrow> env \<Rightarrow> resource" where
  "st_virtual_network_storage_spoke v h e =
     \<lparr> r_type = ''azurerm_virtual_network'', r_label = ''storage_spoke'',
       r_name = ''vnet-guiworld-storage-'' @ ho_environment h @ ''-'' @ random_string_suffix_result e,
       r_tags = Some (st_spoke_tags v h),
       r_args = [(''address_space'', Lst [Str (st_spoke_vnet_address_space v)]),
                 (''location'', Str (st_spoke_location v)),
                 (''resource_group_name'', Str (r_name (st_resource_group_storage_spoke v h e)))] \<rparr>"

definition st_subnet_storage :: "storage_vars \<Rightarrow> hub_outputs \<Rightarrow> env \<Rightarrow> resource" where
  "st_subnet_storage v h e =
     \<lparr> r_type = ''azurerm_subnet'', r_label = ''storage'',
       r_name = ''snet-storage'',
       r_tags = None,
       r_args = [(''resource_group_name'', Str (r_name (st_resource_group_storage_spoke v h e))),
                 (''virtual_network_name'', Str (r_name (st_virtual_network_storage_spoke v h e))),
                 (''address_prefixes'', Lst [Str (st_storage_subnet_address_prefix v)]),
                 (''private_endpoint_network_policies_enabled'', Bool False)] \<rparr>"

definition st_network_security_group_storage ::
  "storage_vars \<Rightarrow> hub_outputs \<Rightarrow> env \<Rightarrow> resource" where
  "st_network_security_group_storage v h e =
     \<lparr> r_type = ''azurerm_network_security_group'', r_label = ''storage'',
       r_name = ''nsg-storage-'' @ ho_environment h @ ''-'' @ random_string_suffix_result e,
       r_tags = Some (st_spoke_tags v h),
       r_args = [(''location'', Str (st_spoke_location v)),
                 (''resource_group_name'', Str (r_name (st_resource_group_storage_spoke v h e))),
                 (''security_rule'',
                  Lst [security_rule ''AllowStorageHTTPS'' 1001 ''Allow'' ''Tcp'' ''VirtualNetwork''
                         (Str ''443'') ''destination_port_range'',
                       security_rule ''AllowStorageServices'' 1002 ''Allow'' ''Tcp'' ''Storage''
                         (Lst [Str ''80'', Str ''443'']) ''destination_port_ranges'',
                       security_rule ''DenyAllInbound'' 4096 ''Deny'' ''*'' ''*''
                         (Str ''*'') ''destination_port_range''])] \<rparr>"

definition st_subnet_network_security_group_association_storage ::
  "storage_vars \<Rightarrow> hub_outputs \<Rightarrow> env \<Rightarrow> resource" where
  "st_subnet_network_security_group_association_storage v h e =
     \<lparr> r_type = ''azurerm_subnet_network_security_group_association'', r_label = ''storage'',
       r_name = [],
       r_tags = None,
       r_args = [(''subnet_id'', Str (computed e ''azurerm_subnet.storage.id'')),
                 (''network_security_group_id'',
                  Str (computed e ''azurerm_network_security_group.storage.id''))] \<rparr>"

text \<open>
  The domain resource. Its name joins the environment and the suffix without hyphens.
  The network rules name the spoke's own subnet and the shared-services subnet of the
  hub; \<open>var.allow_public_access\<close> sets the public network access and the default action.
\<close>

definition st_storage_account_main :: "storage_vars \<Rightarrow> hub_outputs \<Rightarrow> env \<Rightarrow> resource" where
  "st_storage_account_main v h e =
     \<lparr> r_type = ''azurerm_storage_account'', r_label = ''main'',
       r_name = ''stguiworld'' @ ho_environment h @ random_string_suffix_result e,
       r_tags = Some (st_spoke_tags v h),
       r_args = [(''resource_group_name'', Str (r_name (st_resource_group_storage_spoke v h e))),
                 (''location'', Str (st_spoke_location v)),
                 (''account_tier'', Str (st_storage_account_tier v)),
                 (''account_replication_type'', Str (st_storage_replication_type v)),
                 (''account_kind'', Str (st_storage_account_kind v)),
                 (''min_tls_version'', Str ''TLS1_2''),
                 (''allow_nested_items_to_be_public'', Bool (st_allow_public_access v)),
                 (''public_network_access_enabled'', Bool (st_allow_public_access v)),
                 (''network_rules'',
                  Obj [(''default_action'',
                        Str (if st_allow_public_access v then ''Allow'' else ''Deny'')),
                       (''bypass'', Lst [Str ''AzureServices'']),
                       (''virtual_network_subnet_ids'',
                        Lst [Str (computed e ''azurerm_subnet.storage.id''),
                             Str (ho_shared_services_subnet_id h)])]),
                 (''blob_properties'',
                  Obj [(''versioning_enabled'', Bool (st_enable_versioning v)),
                       (''change_feed_enabled'', Bool (st_enable_change_feed v)),
                       (''change_feed_retention_in_days'',
                        (if st_enable_change_feed v then Num 7 else Null)),
                       (''container_delete_retention_policy'', Obj [(''days'', Num 7)]),
                       (''delete_retention_policy'', Obj [(''days'', Num 7)])]),
                 (''static_website'',
                  Lst (map (\<lambda>_. Obj [(''index_document'', Str (st_static_website_index_document v)),
                                      (''error_404_document'',
                                       Str (st_static_website_error_document v))])
                         (if st_enable_static_website v then [1::nat] else [])))] \<rparr>"

text \<open>\<open>for_each = toset(var.storage_containers)\<close>\<close>

definition st_storage_container_containers ::
  "storage_vars \<Rightarrow> hub_outputs \<Rightarrow> env \<Rightarrow> resource list" where
  "st_storage_container_containers v h e =
     map (\<lambda>each_value.
       \<lparr> r_type = ''azurerm_storage_container'', r_label = ''containers'',
         r_name = each_value,
         r_tags = None,
         r_args = [(''storage_account_name'', Str (r_name (st_storage_account_main v h e))),
                   (''container_access_type'', Str ''private'')] \<rparr>)
       (toset (st_storage_containers v))"

text \<open>\<open>for_each = var.file_shares\<close>\<close>

definition st_storage_share_shares ::
  "storage_vars \<Rightarrow> hub_outputs \<Rightarrow> env \<Rightarrow> resource list" where
  "st_storage_share_shares v h e =
     map (\<lambda>(each_key, each_value).
       \<lparr> r_type = ''azurerm_storage_share'', r_label = ''shares'',
         r_name = each_key,
         r_tags = None,
         r_args = [(''storage_account_name'', Str (r_name (st_storage_account_main v h e))),
                   (''quota'', Num (quota_gb each_value)),
                   (''access_tier'', Str (access_tier each_value))] \<rparr>)
       (st_file_shares v)"

text \<open>\<open>for_each = toset(var.storage_tables)\<close> and \<open>for_each = toset(var.storage_queues)\<close>\<close>

definition st_storage_table_tables ::
  "storage_vars \<Rightarrow> hub_outputs \<Rightarrow> env \<Rightarrow> resource list" where
  "st_storage_table_tables v h e =
     map (\<lambda>each_value.
       \<lparr> r_type = ''azurerm_storage_table'', r_label = ''tables'',
         r_name = each_value,
         r_tags = None,
         r_args = [(''storage_account_name'', Str (r_name (st_storage_account_main v h e)))] \<rparr>)
       (toset (st_storage_tables v))"

definition st_storage_queue_queues ::
  "storage_vars \<Rightarrow> hub_outputs \<Rightarrow> env \<Rightarrow> resource list" where
  "st_storage_queue_queues v h e =
     map (\<lambda>each_value.
       \<lparr> r_type = ''azurerm_storage_queue'', r_label = ''queues'',
         r_name = each_value,
         r_tags = None,
         r_args = [(''storage_account_name'', Str (r_name (st_storage_account_main v h e)))] \<rparr>)
       (toset (st_storage_queues v))"

text \<open>\<open>count = var.allow_public_access ? 0 : 1\<close>\<close>

definition st_private_endpoint_storage_blob ::
  "storage_vars \<Rightarrow> hub_outputs \<Rightarrow> env \<Rightarrow> resource list" where
  "st_private_endpoint_storage_blob v h e =
     replicate (if st_allow_public_access v then 0 else 1)
       \<lparr> r_type = ''azurerm_private_endpoint'', r_label = ''storage_blob'',
         r_name = ''pep-storage-blob-'' @ ho_environment h @ ''-'' @ random_string_suffix_result e,
         r_tags = Some (st_spoke_tags v h),
         r_args = [(''location'', Str (st_spoke_location v)),
                   (''resource_group_name'', Str (r_name (st_resource_group_storage_spoke v h e))),
                   (''subnet_id'', Str (computed e ''azurerm_subnet.storage.id'')),
                   (''private_service_connection'',
                    Obj [(''name'', Str ''psc-storage-blob''),
                         (''private_connection_resource_id'',
                          Str (computed e ''azurerm_storage_account.main.id'')),
                         (''subresource_names'', Lst [Str ''blob'']),
                         (''is_manual_connection'', Bool False)]),
                   (''private_dns_zone_group'',
                    Obj [(''name'', Str ''dns-zone-group''),
                         (''private_dns_zone_ids'',
                          Lst [Str (ho_storage_private_dns_zone_id h)])])] \<rparr>"

text \<open>\<open>count = var.allow_public_access || length(var.file_shares) == 0 ? 0 : 1\<close>\<close>

definition st_private_endpoint_storage_file ::
  "storage_vars \<Rightarrow> hub_outputs \<Rightarrow> env \<Rightarrow> resource list" where
  "st_private_endpoint_storage_file v h e =
     replicate (if st_allow_public_access v \<or> length (st_file_shares v) = 0 then 0 else 1)
       \<lparr> r_type = ''azurerm_private_endpoint'', r_label = ''storage_file'',
         r_name = ''pep-storage-file-'' @ ho_environment h @ ''-'' @ random_string_suffix_result e,
         r_tags = Some (st_spoke_tags v h),
         r_args = [(''location'', Str (st_spoke_location v)),
                   (''resource_group_name'', Str (r_name (st_resource_group_storage_spoke v h e))),
                   (''subnet_id'', Str (computed e ''azurerm_subnet.storage.id'')),
                   (''private_service_connection'',
                    Obj [(''name'', Str ''psc-storage-file''),
                         (''private_connection_resource_id'',
                          Str (computed e ''azurerm_storage_account.main.id'')),
                         (''subresource_names'', Lst [Str ''file'']),
                         (''is_manual_connection'', Bool False)])] \<rparr>"

definition st_virtual_network_peering_spoke_to_hub ::
  "storage_vars \<Rightarrow> hub_outputs \<Rightarrow> env \<Rightarrow> resource" where
  "st_virtual_network_peering_spoke_to_hub v h e =
     \<lparr> r_type = ''azurerm_virtual_network_peering'', r_label = ''spoke_to_hub'',
       r_name = ''peer-storage-to-hub'',
       r_tags = None,
       r_args = peering_args (r_name (st_resource_group_storage_spoke v h e))
                  (r_name (st_virtual_network_storage_spoke v h e)) (ho_hub_vnet_id h) False \<rparr>"

definition st_virtual_network_peering_hub_to_spoke ::
  "storage_vars \<Rightarrow> hub_outputs \<Rightarrow> env \<Rightarrow> resource" where
  "st_virtual_network_peering_hub_to_spoke v h e =
     \<lparr> r_type = ''azurerm_virtual_network_peering'', r_label = ''hub_to_spoke'',
       r_name = ''peer-hub-to-storage'',
       r_tags = None,
       r_args = peering_args (ho_hub_resource_group_name h) (ho_hub_vnet_name h)
                  (computed e ''azurerm_virtual_network.storage_spoke.id'') True \<rparr>"

definition st_private_dns_zone_virtual_network_link_storage_spoke ::
  "storage_vars \<Rightarrow> hub_outputs \<Rightarrow> env \<Rightarrow> resource" where
  "st_private_dns_zone_virtual_network_link_storage_spoke v h e =
     \<lparr> r_type = ''azurerm_private_dns_zone_virtual_network_link'', r_label = ''storage_spoke'',
       r_name = ''storage-spoke-link'',
       r_tags = Some (st_spoke_tags v h),
       r_args = [(''resource_group_name'', Str (ho_hub_resource_group_name h)),
                 (''private_dns_zone_name'', Str (ho_storage_private_dns_zone_name h)),
                 (''virtual_network_id'',
                  Str (computed e ''azurerm_virtual_network.storage_spoke.id'')),
                 (''registration_enabled'', Bool False)] \<rparr>"

text \<open>
  \<open>data "terraform_remote_state" "keyvault"\<close> with
  \<open>count = var.store_connection_string_in_keyvault ? 1 : 0\<close>.
\<close>

definition st_data_terraform_remote_state_keyvault ::
  "storage_vars \<Rightarrow> env \<Rightarrow> error + keyvault_outputs list" where
  "st_data_terraform_remote_state_keyvault v e =
     (if st_store_connection_string_in_keyvault v then
        (case keyvault_state_at e (st_keyvault_state_path v) of
           None \<Rightarrow> Inl (RemoteStateUnreadable (st_keyvault_state_path v))
         | Some k \<Rightarrow> Inr [k])
      else Inr [])"

text \<open>The two secrets, each with \<open>count = var.store_connection_string_in_keyvault ? 1 : 0\<close>.\<close>

definition st_key_vault_secret ::
  "string \<Rightarrow> string \<Rightarrow> string \<Rightarrow> storage_vars \<Rightarrow> hub_outputs \<Rightarrow> keyvault_outputs list \<Rightarrow>
   error + resource list" where
  "st_key_vault_secret lbl nm value v h kv =
     (if st_store_connection_string_in_keyvault v then
        (case index0 ''data.terraform_remote_state.keyvault'' kv of
           Inl err \<Rightarrow> Inl err
         | Inr k \<Rightarrow> Inr
            [\<lparr> r_type = ''azurerm_key_vault_secret'', r_label = lbl,
               r_name = nm,
               r_tags = Some (st_spoke_tags v h),
               r_args = [(''value'', Str value), (''key_vault_id'', Str (ko_key_vault_id k))] \<rparr>])
      else Inr [])"

definition st_key_vault_secret_storage_connection_string ::
  "storage_vars \<Rightarrow> hub_outputs \<Rightarrow> keyvault_outputs list \<Rightarrow> env \<Rightarrow> error + resource list" where
  "st_key_vault_secret_storage_connection_string v h kv e =
     st_key_vault_secret ''storage_connection_string'' ''storage-connection-string''
       (computed e ''azurerm_storage_account.main.primary_connection_string'') v h kv"

definition st_key_vault_secret_storage_access_key ::
  "storage_vars \<Rightarrow> hub_outputs \<Rightarrow> keyvault_outputs list \<Rightarrow> env \<Rightarrow> error + resource list" where
  "st_key_vault_secret_storage_access_key v h kv e =
     st_key_vault_secret ''storage_access_key'' ''storage-access-key''
       (computed e ''azurerm_storage_account.main.primary_access_key'') v h kv"

definition st_monitor_diagnostic_setting_storage ::
  "storage_vars \<Rightarrow> hub_outputs \<Rightarrow> env \<Rightarrow> resource" where
  "st_monitor_diagnostic_setting_storage v h e =
     \<lparr> r_type = ''azurerm_monitor_diagnostic_setting'', r_label = ''storage'',
       r_name = ''diag-storage-'' @ ho_environment h @ ''-'' @ random_string_suffix_result e,
       r_tags = None,
       r_args = [(''target_resource_id'',
                  Str (computed e ''azurerm_storage_account.main.id'' @ ''/blobServices/default'')),
                 (''log_analytics_workspace_id'', Str (ho_log_analytics_workspace_id h)),
                 (''enabled_log'',
                  Lst [Obj [(''category'', Str ''StorageRead'')],
                       Obj [(''category'', Str ''StorageWrite'')],
                       Obj [(''category'', Str ''StorageDelete'')]]),
                 (''metric'', Obj [(''category'', Str ''AllMetrics''), (''enabled'', Bool True)])] \<rparr>"

text \<open>The resources of the module, in the order of its \<open>main.tf\<close>.\<close>

definition storage_resources ::
  "storage_vars \<Rightarrow> hub_outputs \<Rightarrow> keyvault_outputs list \<Rightarrow> env \<Rightarrow> error + resource list" where
  "storage_resources v h kv e =
     (case st_key_vault_secret_storage_connection_string v h kv e of
        Inl err \<Rightarrow> Inl err
      | Inr storage_connection_string \<Rightarrow>
     (case st_key_vault_secret_storage_access_key v h kv e of
        Inl err \<Rightarrow> Inl err
      | Inr storage_access_key \<Rightarrow> Inr
         ([st_resource_group_storage_spoke v h e,
           st_virtual_network_storage_spoke v h e,
           st_subnet_storage v h e,
           st_network_security_group_storage v h e,
           st_subnet_network_security_group_association_storage v h e,
           st_storage_account_main v h e] @
          st_storage_container_containers v h e @
          st_storage_share_shares v h e @
          st_storage_table_tables v h e @
          st_storage_queue_queues v h e @
          st_private_endpoint_storage_blob v h e @
          st_private_endpoint_storage_file v h e @
          [st_virtual_network_peering_spoke_to_hub v h e,
           st_virtual_network_peering_hub_to_spoke v h e,
           st_private_dns_zone_virtual_network_link_storage_spoke v h e] @
          storage_connection_string @ storage_access_key @
          [st_monitor_diagnostic_setting_storage v h e])))"

definition storage_plan :: "storage_vars \<Rightarrow> env \<Rightarrow> error + resource list" where
  "storage_plan v e =
     (case storage_validation v of
        m # _ \<Rightarrow> Inl (InvalidVariable m)
      | [] \<Rightarrow>
          (case hub_state_at e (st_hub_state_path v) of
             None \<Rightarrow> Inl (RemoteStateUnreadable (st_hub_state_path v))
           | Some h \<Rightarrow>
               (case st_data_terraform_remote_state_keyvault v e of
                  Inl err \<Rightarrow> Inl err
                | Inr kv \<Rightarrow> storage_resources v h kv e)))"

text \<open>
  The outputs \<open>storage_blob_private_endpoint_id\<close> and \<open>storage_file_private_endpoint_id\<close>:
  \<open>null\<close> under the condition that gives the endpoint no instance, the identifier of
  instance 0 otherwise.
\<close>

definition output_storage_blob_private_endpoint_id ::
  "storage_vars \<Rightarrow> hub_outputs \<Rightarrow> env \<Rightarrow> error + val" where
  "output_storage_blob_private_endpoint_id v h e =
     (if st_allow_public_access v then Inr Null
      else (case index0 ''azurerm_private_endpoint.storage_blob''
                   (st_private_endpoint_storage_blob v h e) of
              Inl err \<Rightarrow> Inl err
            | Inr _ \<Rightarrow> Inr (Str (computed e ''azurerm_private_endpoint.storage_blob[0].id''))))"

definition output_storage_file_private_endpoint_id ::
  "storage_vars \<Rightarrow> hub_outputs \<Rightarrow> env \<Rightarrow> error + val" where
  "output_storage_file_private_endpoint_id v h e =
     (if st_allow_public_access v \<or> length (st_file_shares v) = 0 then Inr Null
      else (case index0 ''azurerm_private_endpoint.storage_file''
                   (st_private_endpoint_storage_file v h e) of
              Inl err \<Rightarrow> Inl err
            | Inr _ \<Rightarrow> Inr (Str (computed e ''azurerm_private_endpoint.storage_file[0].id''))))"

subsection \<open>Hub\<close>

record hub_vars =
  hv_environment :: string
  hv_hub_location :: string
  hv_hub_vnet_address_space :: string
  hv_gateway_subnet_address_prefix :: string
  hv_firewall_subnet_address_prefix :: string
  hv_bastion_subnet_address_prefix :: string
  hv_shared_services_subnet_address_prefix :: string
  hv_enable_azure_firewall :: bool
  hv_enable_azure_bastion :: bool
  hv_log_analytics_retention_days :: int
  hv_additional_tags :: tags
  hv_cost_center :: string
  hv_owner_email :: string

text \<open>The \<open>default\<close> of every variable (the variables file of the hub).\<close>

definition hub_defaults :: hub_vars where
  "hub_defaults =
     \<lparr> hv_environment = ''dev'',
       hv_hub_location = ''Central US'',
       hv_hub_vnet_address_space = ''10.0.0.0/16'',
       hv_gateway_subnet_address_prefix = ''10.0.1.0/24'',
       hv_firewall_subnet_address_prefix = ''10.0.2.0/24'',
       hv_bastion_subnet_address_prefix = ''10.0.3.0/24'',
       hv_shared_services_subnet_address_prefix = ''10.0.4.0/24'',
       hv_enable_azure_firewall = False,
       hv_enable_azure_bastion = False,
       hv_log_analytics_retention_days = 30,
       hv_additional_tags = Map.empty,
       hv_cost_center = ''GuiWorld-Hub'',
       hv_owner_email = [] \<rparr>"

definition hub_address_validation :: "hub_vars \<Rightarrow> string list" where
  "hub_address_validation v =
     validation (can_cidrhost (hv_hub_vnet_address_space v))
       ''Hub VNet address space must be a valid CIDR block.'' @
     validation (can_cidrhost (hv_gateway_subnet_address_prefix v))
       ''Gateway subnet address prefix must be a valid CIDR block.'' @
     validation (can_cidrhost (hv_firewall_subnet_address_prefix v))
       ''Firewall subnet address prefix must be a valid CIDR block.'' @
     validation (can_cidrhost (hv_bastion_subnet_address_prefix v))
       ''Bastion subnet address prefix must be a valid CIDR block.'' @
     validation (can_cidrhost (hv_shared_services_subnet_address_prefix v))
       ''Shared services subnet address prefix must be a valid CIDR block.''"

text \<open>
  What a run of the hub reads from outside: its own random suffix, the current date
  as \<open>formatdate("YYYY-MM-DD", timestamp())\<close> gives it, and the attributes known only
  after creation.
\<close>

record hub_env =
  hub_random_string_suffix_result :: string
  hub_created_date :: string
  hub_computed :: "string \<Rightarrow> string"

definition hub_common_tags :: "hub_vars \<Rightarrow> hub_env \<Rightarrow> tags" where
  "hub_common_tags v e =
     merge [[''Environment'' \<mapsto> hv_environment v,
             ''Project'' \<mapsto> ''GuiWorld'',
             ''ManagedBy'' \<mapsto> ''Terraform'',
             ''Architecture'' \<mapsto> ''HubAndSpoke'',
             ''Component'' \<mapsto> ''Hub'',
             ''CreatedDate'' \<mapsto> hub_created_date e],
            hv_additional_tags v]"

text \<open>The outputs of the hub (its \<open>outputs.tf\<close>) that the spokes read.\<close>

definition hub_output_bundle :: "hub_vars \<Rightarrow> hub_env \<Rightarrow> hub_outputs" where
  "hub_output_bundle v e =
     \<lparr> ho_hub_resource_group_name =
         ''rg-guiworld-hub-'' @ hv_environment v @ ''-'' @ hub_random_string_suffix_result e,
       ho_hub_vnet_name =
         ''vnet-guiworld-hub-'' @ hv_environment v @ ''-'' @ hub_random_string_suffix_result e,
       ho_hub_vnet_id = hub_computed e ''azurerm_virtual_network.hub.id'',
       ho_hub_vnet_address_space = [hv_hub_vnet_address_space v],
       ho_shared_services_subnet_id = hub_computed e ''azurerm_subnet.shared_services.id'',
       ho_keyvault_private_dns_zone_name = ''privatelink.vaultcore.azure.net'',
       ho_keyvault_private_dns_zone_id = hub_computed e ''azurerm_private_dns_zone.keyvault.id'',
       ho_postgres_private_dns_zone_name = ''privatelink.postgres.database.azure.com'',
       ho_postgres_private_dns_zone_id = hub_computed e ''azurerm_private_dns_zone.postgres.id'',
       ho_storage_private_dns_zone_name = ''privatelink.blob.core.windows.net'',
       ho_storage_private_dns_zone_id = hub_computed e ''azurerm_private_dns_zone.storage.id'',
       ho_log_analytics_workspace_id = hub_computed e ''azurerm_log_analytics_workspace.hub.id'',
       ho_environment = hv_environment v,
       ho_resource_suffix = hub_random_string_suffix_result e,
       ho_common_tags = hub_common_tags v e \<rparr>"

subsection \<open>A deployment to evaluate on\<close>

text \<open>
  The hub with its default variables, deployed with suffix \<open>hub00001\<close>; a Key Vault
  spoke state; and an environment of a spoke run in which both state files are
  readable at their default paths.
\<close>

definition example_hub_env :: hub_env where
  "example_hub_env =
     \<lparr> hub_random_string_suffix_result = ''hub00001'',
       hub_created_date = ''2024-01-01'',
       hub_computed = (\<lambda>a. ''/id/'' @ a) \<rparr>"

definition example_hub :: hub_outputs where
  "example_hub = hub_output_bundle hub_defaults example_hub_env"

definition example_env :: env where
  "example_env =
     \<lparr> hub_state_at = (\<lambda>p. if p = ''../../hub/terraform.tfstate'' then Some example_hub else None),
       keyvault_state_at =
         (\<lambda>p. if p = ''../keyvault-spoke/terraform.tfstate''
              then Some \<lparr> ko_key_vault_id = ''/id/azurerm_key_vault.main.id'' \<rparr> else None),
       random_string_suffix_result = ''ab12cd34'',
       random_password_db_admin_result = ''abcdefghABCDEFG!'',
       computed = (\<lambda>a. ''/id/'' @ a),
       client_tenant_id = ''tenant'',
       client_object_id = ''object'' \<rparr>"

text \<open>The values that the variable file of the Database spoke sets.\<close>

definition database_tfvars :: database_vars where
  "database_tfvars =
     database_defaults
       \<lparr> db_additional_databases := [''app_logs'', ''sessions''],
         db_backup_retention_days := 7,
         db_additional_tags :=
           [''Purpose'' \<mapsto> ''ApplicationDatabase'', ''Service'' \<mapsto> ''PostgreSQL'',
            ''Region'' \<mapsto> ''EastUS''] \<rparr>"

subsection \<open>Reading a plan\<close>

text \<open>The address under which the identifier of a resource is known after creation.\<close>

definition resource_id :: "env \<Rightarrow> resource \<Rightarrow> string" where
  "resource_id e r = computed e (r_type r @ ''.'' @ r_label r @ ''.id'')"

text \<open>The resource types whose \<open>name\<close> is built from the environment and the random suffix.\<close>

definition named_with_suffix :: "string list" where
  "named_with_suffix =
     [''azurerm_resource_group'', ''azurerm_virtual_network'', ''azurerm_network_security_group'',
      ''azurerm_key_vault'', ''azurerm_postgresql_flexible_server'', ''azurerm_storage_account'',
      ''azurerm_private_endpoint'', ''azurerm_monitor_diagnostic_setting'']"

text \<open>The resource types whose \<open>name\<close> is a constant of the spoke's role.\<close>

definition named_by_role :: "string list" where
  "named_by_role =
     [''azurerm_subnet'', ''azurerm_virtual_network_peering'',
      ''azurerm_private_dns_zone_virtual_network_link'']"

text \<open>The head of a resource: type, local name, \<open>name\<close> and \<open>tags\<close>.\<close>

definition summary :: "resource \<Rightarrow> string \<times> string \<times> string \<times> tags option" where
  "summary r = (r_type r, r_label r, r_name r, r_tags r)"

text \<open>
  A peering record \<open>p\<close> is declared on the virtual network \<open>virtual_network_name\<close> of a
  resource group and points to the virtual network with the given identifier. A plan
  is peered with the hub when it has one resource group, one virtual network and two
  peering records: the first on the network of the plan and pointing to the network
  of the hub, the second on the network of the hub and pointing to the network of
  the plan.
\<close>

definition peering_from_to :: "resource \<Rightarrow> string \<Rightarrow> string \<Rightarrow> string \<Rightarrow> bool" where
  "peering_from_to p resource_group_name virtual_network_name remote_virtual_network_id =
     (r_type p = ''azurerm_virtual_network_peering'' \<and>
      arg p ''resource_group_name'' = Some (Str resource_group_name) \<and>
      arg p ''virtual_network_name'' = Some (Str virtual_network_name) \<and>
      arg p ''remote_virtual_network_id'' = Some (Str remote_virtual_network_id) \<and>
      arg p ''allow_virtual_network_access'' = Some (Bool True))"

definition peered_with_hub :: "env \<Rightarrow> hub_outputs \<Rightarrow> resource list \<Rightarrow> bool" where
  "peered_with_hub e h rs =
     (case (filter (\<lambda>r. r_type r = ''azurerm_resource_group'') rs,
            filter (\<lambda>r. r_type r = ''azurerm_virtual_network'') rs,
            filter (\<lambda>r. r_type r = ''azurerm_virtual_network_peering'') rs) of
        ([rg], [vnet], [spoke_to_hub, hub_to_spoke]) \<Rightarrow>
          peering_from_to spoke_to_hub (r_name rg) (r_name vnet) (ho_hub_vnet_id h) \<and>
          peering_from_to hub_to_spoke (ho_hub_resource_group_name h) (ho_hub_vnet_name h)
            (resource_id e vnet)
      | _ \<Rightarrow> False)"

subsection \<open>Applying a plan\<close>

text \<open>
  Terraform applies a plan against the state the module left behind: a resource of
  that state which the plan does not declare is destroyed, a declared resource is
  created or updated. Of the cloud, the secrets of the vaults are kept here: a secret
  lives in a vault under its name; destroying the resource removes it, creating or
  updating the resource writes its value. A run whose planning fails changes nothing.
\<close>

type_synonym vault = "string \<times> string \<rightharpoonup> string"

record world =
  managed :: "resource list"
  vault_secrets :: vault

definition str_arg :: "resource \<Rightarrow> string \<Rightarrow> string" where
  "str_arg r k = (case arg r k of Some (Str x) \<Rightarrow> x | _ \<Rightarrow> [])"

definition is_secret :: "resource \<Rightarrow> bool" where
  "is_secret r = (r_type r = ''azurerm_key_vault_secret'')"

definition remove_secrets :: "resource list \<Rightarrow> vault \<Rightarrow> vault" where
  "remove_secrets rs vt =
     foldl (\<lambda>m r. m((str_arg r ''key_vault_id'', r_name r) := None)) vt (filter is_secret rs)"

definition write_secrets :: "resource list \<Rightarrow> vault \<Rightarrow> vault" where
  "write_secrets rs vt =
     foldl (\<lambda>m r. m((str_arg r ''key_vault_id'', r_name r) \<mapsto> str_arg r ''value'')) vt
       (filter is_secret rs)"

definition apply_run :: "error + resource list \<Rightarrow> world \<Rightarrow> world" where
  "apply_run p w =
     (case p of
        Inl _ \<Rightarrow> w
      | Inr rs \<Rightarrow>
          \<lparr> managed = rs,
            vault_secrets = write_secrets rs (remove_secrets (managed w) (vault_secrets w)) \<rparr>)"

section \<open>Properties\<close>

subsection \<open>The shape of a successful plan\<close>

lemmas kv_resource_defs =
  kv_resource_group_keyvault_spoke_def kv_virtual_network_keyvault_spoke_def
  kv_subnet_keyvault_def kv_network_security_group_keyvault_def
  kv_subnet_network_security_group_association_keyvault_def kv_key_vault_main_def
  kv_private_endpoint_keyvault_def kv_virtual_network_peering_spoke_to_hub_def
  kv_virtual_network_peering_hub_to_spoke_def
  kv_private_dns_zone_virtual_network_link_keyvault_spoke_def
  kv_monitor_diagnostic_setting_keyvault_def

lemmas db_resource_defs =
  db_resource_group_database_spoke_def db_virtual_network_database_spoke_def
  db_subnet_database_def db_network_security_group_database_def
  db_subnet_network_security_group_association_database_def
  db_private_dns_zone_virtual_network_link_database_spoke_def
  db_postgresql_flexible_server_main_def db_postgresql_flexible_server_database_guiworld_def
  db_postgresql_flexible_server_database_additional_def
  db_postgresql_flexible_server_configuration_def
  db_virtual_network_peering_spoke_to_hub_def db_virtual_network_peering_hub_to_spoke_def
  db_key_vault_secret_db_password_def db_key_vault_secret_db_connection_string_def
  db_monitor_diagnostic_setting_postgresql_def

lemmas st_resource_defs =
  st_resource_group_storage_spoke_def st_virtual_network_storage_spoke_def
  st_subnet_storage_def st_network_security_group_storage_def
  st_subnet_network_security_group_association_storage_def st_storage_account_main_def
  st_storage_container_containers_def st_storage_share_shares_def
  st_storage_table_tables_def st_storage_queue_queues_def
  st_private_endpoint_storage_blob_def st_private_endpoint_storage_file_def
  st_virtual_network_peering_spoke_to_hub_def st_virtual_network_peering_hub_to_spoke_def
  st_private_dns_zone_virtual_network_link_storage_spoke_def
  st_key_vault_secret_def st_key_vault_secret_storage_connection_string_def
  st_key_vault_secret_storage_access_key_def st_monitor_diagnostic_setting_storage_def

lemmas cidr_defs =
  can_cidrhost_def parseIPv4_def decimal_upto_def is_digit_def dec_val_def validation_def

lemma patterns_compile:
  "re2_compiles postgresql_sku_pattern"
  "re2_compiles database_admin_username_pattern"
  "re2_compiles database_name_pattern"
  "\<not> re2_compiles database_admin_password_pattern"
  by (simp_all add: re2_compiles_def postgresql_sku_pattern_def
      database_admin_username_pattern_def database_name_pattern_def
      database_admin_password_pattern_def sublist_Cons_right)

lemma merge3: "merge [a, b, c] = a ++ b ++ c"
  by (simp add: merge_def)

lemma merge2: "merge [a, b] = a ++ b"
  by (simp add: merge_def)

lemma keyvault_plan_Inr:
  assumes "keyvault_plan v e = Inr rs"
  obtains h where "hub_state_at e (kv_hub_state_path v) = Some h" "rs = keyvault_resources v h e"
  using assms by (auto simp: keyvault_plan_def split: list.splits option.splits)

lemma database_plan_Inr:
  assumes "database_plan v e = Inr rs"
  obtains h kv where "hub_state_at e (db_hub_state_path v) = Some h"
    "db_data_terraform_remote_state_keyvault v e = Inr kv" "database_resources v h kv e = Inr rs"
  using assms by (auto simp: database_plan_def split: list.splits option.splits sum.splits)

lemma storage_plan_Inr:
  assumes "storage_plan v e = Inr rs"
  obtains h kv where "hub_state_at e (st_hub_state_path v) = Some h"
    "st_data_terraform_remote_state_keyvault v e = Inr kv" "storage_resources v h kv e = Inr rs"
  using assms by (auto simp: storage_plan_def split: list.splits option.splits sum.splits)

lemma database_resources_Inr:
  assumes "database_resources v h kv e = Inr rs"
  obtains nsg s1 s2 where
    "db_network_security_group_database v h e = Inr nsg"
    "db_key_vault_secret_db_password v h kv e = Inr s1"
    "db_key_vault_secret_db_connection_string v h kv e = Inr s2"
    "rs = [db_resource_group_database_spoke v h e,
           db_virtual_network_database_spoke v h e,
           db_subnet_database v h e,
           nsg,
           db_subnet_network_security_group_association_database v h e,
           db_private_dns_zone_virtual_network_link_database_spoke v h e,
           db_postgresql_flexible_server_main v h e,
           db_postgresql_flexible_server_database_guiworld v h e] @
          db_postgresql_flexible_server_database_additional v h e @
          [db_postgresql_flexible_server_configuration ''timezone'' ''timezone''
             (db_database_timezone v) e,
           db_postgresql_flexible_server_configuration ''log_connections'' ''log_connections''
             ''on'' e,
           db_postgresql_flexible_server_configuration ''log_disconnections'' ''log_disconnections''
             ''on'' e,
           db_virtual_network_peering_spoke_to_hub v h e,
           db_virtual_network_peering_hub_to_spoke v h e] @
          s1 @ s2 @
          [db_monitor_diagnostic_setting_postgresql v h e]"
  using assms by (auto simp: database_resources_def split: sum.splits)

lemma storage_resources_Inr:
  assumes "storage_resources v h kv e = Inr rs"
  obtains s1 s2 where
    "st_key_vault_secret_storage_connection_string v h kv e = Inr s1"
    "st_key_vault_secret_storage_access_key v h kv e = Inr s2"
    "rs = [st_resource_group_storage_spoke v h e,
           st_virtual_network_storage_spoke v h e,
           st_subnet_storage v h e,
           st_network_security_group_storage v h e,
           st_subnet_network_security_group_association_storage v h e,
           st_storage_account_main v h e] @
          st_storage_container_containers v h e @
          st_storage_share_shares v h e @
          st_storage_table_tables v h e @
          st_storage_queue_queues v h e @
          st_private_endpoint_storage_blob v h e @
          st_private_endpoint_storage_file v h e @
          [st_virtual_network_peering_spoke_to_hub v h e,
           st_virtual_network_peering_hub_to_spoke v h e,
           st_private_dns_zone_virtual_network_link_storage_spoke v h e] @
          s1 @ s2 @
          [st_monitor_diagnostic_setting_storage v h e]"
  using assms by (auto simp: storage_resources_def split: sum.splits)

lemma keyvault_plan_ok:
  assumes "keyvault_validation v = []" "hub_state_at e (kv_hub_state_path v) = Some h"
  shows "keyvault_plan v e = Inr (keyvault_resources v h e)"
  using assms by (simp add: keyvault_plan_def)

lemma database_resources_ok:
  assumes "ho_hub_vnet_address_space h \<noteq> []" "db_store_password_in_keyvault v \<longrightarrow> kv \<noteq> []"
  shows "\<exists>rs. database_resources v h kv e = Inr rs"
  using assms
  by (cases "ho_hub_vnet_address_space h"; cases kv)
     (simp_all add: database_resources_def db_network_security_group_database_def index0_def
       db_key_vault_secret_db_password_def db_key_vault_secret_db_connection_string_def)

lemma storage_resources_ok:
  assumes "st_store_connection_string_in_keyvault v \<longrightarrow> kv \<noteq> []"
  shows "\<exists>rs. storage_resources v h kv e = Inr rs"
  using assms
  by (cases kv)
     (simp_all add: storage_resources_def st_key_vault_secret_def index0_def
       st_key_vault_secret_storage_connection_string_def st_key_vault_secret_storage_access_key_def)

lemma database_plan_ok:
  assumes "database_validation v = []" "hub_state_at e (db_hub_state_path v) = Some h"
    "ho_hub_vnet_address_space h \<noteq> []"
    "db_store_password_in_keyvault v \<longrightarrow> keyvault_state_at e (db_keyvault_state_path v) \<noteq> None"
  shows "\<exists>rs. database_plan v e = Inr rs"
proof -
  have "\<exists>kv. db_data_terraform_remote_state_keyvault v e = Inr kv \<and>
    (db_store_password_in_keyvault v \<longrightarrow> kv \<noteq> [])"
    using assms(4)
    by (cases "keyvault_state_at e (db_keyvault_state_path v)")
       (simp_all add: db_data_terraform_remote_state_keyvault_def)
  then obtain kv where kv: "db_data_terraform_remote_state_keyvault v e = Inr kv"
    "db_store_password_in_keyvault v \<longrightarrow> kv \<noteq> []"
    by blast
  from database_resources_ok [OF assms(3) kv(2)] show ?thesis
    by (simp add: database_plan_def assms(1,2) kv(1))
qed

lemma storage_plan_ok:
  assumes "hub_state_at e (st_hub_state_path v) = Some h"
    "st_store_connection_string_in_keyvault v \<longrightarrow>
       keyvault_state_at e (st_keyvault_state_path v) \<noteq> None"
    "storage_validation v = []"
  shows "\<exists>rs. storage_plan v e = Inr rs"
proof -
  have "\<exists>kv. st_data_terraform_remote_state_keyvault v e = Inr kv \<and>
    (st_store_connection_string_in_keyvault v \<longrightarrow> kv \<noteq> [])"
    using assms(2)
    by (cases "keyvault_state_at e (st_keyvault_state_path v)")
       (simp_all add: st_data_terraform_remote_state_keyvault_def)
  then obtain kv where kv: "st_data_terraform_remote_state_keyvault v e = Inr kv"
    "st_store_connection_string_in_keyvault v \<longrightarrow> kv \<noteq> []"
    by blast
  from storage_resources_ok [OF kv(2)] show ?thesis
    by (simp add: storage_plan_def assms(1,3) kv(1))
qed

subsection \<open>The example deployment\<close>

lemma example_facts:
  "database_validation database_defaults = []"
  "database_validation database_tfvars = []"
  "keyvault_validation keyvault_defaults = []"
  "hub_state_at example_env (db_hub_state_path database_defaults) = Some example_hub"
  "hub_state_at example_env (db_hub_state_path database_tfvars) = Some example_hub"
  "hub_state_at example_env (kv_hub_state_path keyvault_defaults) = Some example_hub"
  "hub_state_at example_env (st_hub_state_path storage_defaults) = Some example_hub"
  "keyvault_state_at example_env (db_keyvault_state_path database_defaults) \<noteq> None"
  "keyvault_state_at example_env (st_keyvault_state_path storage_defaults) \<noteq> None"
  "ho_hub_vnet_address_space example_hub \<noteq> []"
  "storage_validation storage_defaults = []"
  by (simp_all add: database_validation_def keyvault_validation_def storage_validation_def
      database_address_validation_def keyvault_address_validation_def
      storage_address_validation_def azure_regions_def can_regex_def patterns_compile
      postgresql_sku_matches_def identifier_matches_def lower_chars_def upper_chars_def
      numeric_chars_def
      database_defaults_def database_tfvars_def keyvault_defaults_def storage_defaults_def
      example_env_def example_hub_def hub_output_bundle_def cidr_defs)

lemma example_keyvault_plan:
  "keyvault_plan keyvault_defaults example_env =
     Inr (keyvault_resources keyvault_defaults example_hub example_env)"
  by (rule keyvault_plan_ok [OF example_facts(3) example_facts(6)])

subsection \<open>The heads of the planned resources\<close>

lemma kv_summary:
  "map summary (keyvault_resources v h e) =
     [(''azurerm_resource_group'', ''keyvault_spoke'',
       ''rg-guiworld-keyvault-'' @ ho_environment h @ ''-'' @ random_string_suffix_result e,
       Some (kv_spoke_tags v h)),
      (''azurerm_virtual_network'', ''keyvault_spoke'',
       ''vnet-guiworld-keyvault-'' @ ho_environment h @ ''-'' @ random_string_suffix_result e,
       Some (kv_spoke_tags v h)),
      (''azurerm_subnet'', ''keyvault'', ''snet-keyvault'', None),
      (''azurerm_network_security_group'', ''keyvault'',
       ''nsg-keyvault-'' @ ho_environment h @ ''-'' @ random_string_suffix_result e,
       Some (kv_spoke_tags v h)),
      (''azurerm_subnet_network_security_group_association'', ''keyvault'', [], None),
      (''azurerm_key_vault'', ''main'',
       ''kv-guiworld-'' @ ho_environment h @ ''-'' @ random_string_suffix_result e,
       Some (kv_spoke_tags v h))] @
     replicate (if kv_allow_public_access v then 0 else 1)
       (''azurerm_private_endpoint'', ''keyvault'',
        ''pep-keyvault-'' @ ho_environment h @ ''-'' @ random_string_suffix_result e,
        Some (kv_spoke_tags v h)) @
     [(''azurerm_virtual_network_peering'', ''spoke_to_hub'', ''peer-keyvault-to-hub'', None),
      (''azurerm_virtual_network_peering'', ''hub_to_spoke'', ''peer-hub-to-keyvault'', None),
      (''azurerm_private_dns_zone_virtual_network_link'', ''keyvault_spoke'',
       ''keyvault-spoke-link'', Some (kv_spoke_tags v h)),
      (''azurerm_monitor_diagnostic_setting'', ''keyvault'',
       ''diag-keyvault-'' @ ho_environment h @ ''-'' @ random_string_suffix_result e, None)]"
  unfolding keyvault_resources_def
  by (simp add: kv_resource_defs summary_def)

lemma db_secret_summary:
  "db_key_vault_secret_db_password v h kv e = Inr s1 \<Longrightarrow>
   map summary s1 = (if db_store_password_in_keyvault v
     then [(''azurerm_key_vault_secret'', ''db_password'', ''database-admin-password'',
            Some (db_spoke_tags v h))] else [])"
  "db_key_vault_secret_db_connection_string v h kv e = Inr s2 \<Longrightarrow>
   map summary s2 = (if db_store_password_in_keyvault v
     then [(''azurerm_key_vault_secret'', ''db_connection_string'', ''database-connection-string'',
            Some (db_spoke_tags v h))] else [])"
  by (auto simp: db_key_vault_secret_db_password_def db_key_vault_secret_db_connection_string_def
      summary_def split: if_splits sum.splits)

lemma db_nsg_summary:
  "db_network_security_group_database v h e = Inr nsg \<Longrightarrow>
   summary nsg = (''azurerm_network_security_group'', ''database'',
       ''nsg-database-'' @ ho_environment h @ ''-'' @ random_string_suffix_result e,
       Some (db_spoke_tags v h))"
  by (auto simp: db_network_security_group_database_def summary_def split: sum.splits)

lemma db_summary:
  assumes "database_resources v h kv e = Inr rs"
  shows "map summary rs =
     [(''azurerm_resource_group'', ''database_spoke'',
       ''rg-guiworld-database-'' @ ho_environment h @ ''-'' @ random_string_suffix_result e,
       Some (db_spoke_tags v h)),
      (''azurerm_virtual_network'', ''database_spoke'',
       ''vnet-guiworld-database-'' @ ho_environment h @ ''-'' @ random_string_suffix_result e,
       Some (db_spoke_tags v h)),
      (''azurerm_subnet'', ''database'', ''snet-database'', None),
      (''azurerm_network_security_group'', ''database'',
       ''nsg-database-'' @ ho_environment h @ ''-'' @ random_string_suffix_result e,
       Some (db_spoke_tags v h)),
      (''azurerm_subnet_network_security_group_association'', ''database'', [], None),
      (''azurerm_private_dns_zone_virtual_network_link'', ''database_spoke'',
       ''database-spoke-link'', Some (db_spoke_tags v h)),
      (''azurerm_postgresql_flexible_server'', ''main'',
       ''psql-guiworld-'' @ ho_environment h @ ''-'' @ random_string_suffix_result e,
       Some (db_spoke_tags v h)),
      (''azurerm_postgresql_flexible_server_database'', ''guiworld'', db_database_name v, None)] @
     map (\<lambda>x. (''azurerm_postgresql_flexible_server_database'', ''additional'', x, None))
       (toset (db_additional_databases v)) @
     [(''azurerm_postgresql_flexible_server_configuration'', ''timezone'', ''timezone'', None),
      (''azurerm_postgresql_flexible_server_configuration'', ''log_connections'',
       ''log_connections'', None),
      (''azurerm_postgresql_flexible_server_configuration'', ''log_disconnections'',
       ''log_disconnections'', None),
      (''azurerm_virtual_network_peering'', ''spoke_to_hub'', ''peer-database-to-hub'', None),
      (''azurerm_virtual_network_peering'', ''hub_to_spoke'', ''peer-hub-to-database'', None)] @
     (if db_store_password_in_keyvault v
      then [(''azurerm_key_vault_secret'', ''db_password'', ''database-admin-password'',
             Some (db_spoke_tags v h)),
            (''azurerm_key_vault_secret'', ''db_connection_string'', ''database-connection-string'',
             Some (db_spoke_tags v h))]
      else []) @
     [(''azurerm_monitor_diagnostic_setting'', ''postgresql'',
       ''diag-postgresql-'' @ ho_environment h @ ''-'' @ random_string_suffix_result e, None)]"
proof -
  from assms obtain nsg s1 s2 where
    nsg: "db_network_security_group_database v h e = Inr nsg" and
    s1: "db_key_vault_secret_db_password v h kv e = Inr s1" and
    s2: "db_key_vault_secret_db_connection_string v h kv e = Inr s2" and
    rs: "rs = [db_resource_group_database_spoke v h e,
           db_virtual_network_database_spoke v h e,
           db_subnet_database v h e,
           nsg,
           db_subnet_network_security_group_association_database v h e,
           db_private_dns_zone_virtual_network_link_database_spoke v h e,
           db_postgresql_flexible_server_main v h e,
           db_postgresql_flexible_server_database_guiworld v h e] @
          db_postgresql_flexible_server_database_additional v h e @
          [db_postgresql_flexible_server_configuration ''timezone'' ''timezone''
             (db_database_timezone v) e,
           db_postgresql_flexible_server_configuration ''log_connections'' ''log_connections''
             ''on'' e,
           db_postgresql_flexible_server_configuration ''log_disconnections'' ''log_disconnections''
             ''on'' e,
           db_virtual_network_peering_spoke_to_hub v h e,
           db_virtual_network_peering_hub_to_spoke v h e] @
          s1 @ s2 @
          [db_monitor_diagnostic_setting_postgresql v h e]"
    by (rule database_resources_Inr)
  have simple:
    "summary (db_resource_group_database_spoke v h e) = (''azurerm_resource_group'', ''database_spoke'',
       ''rg-guiworld-database-'' @ ho_environment h @ ''-'' @ random_string_suffix_result e,
       Some (db_spoke_tags v h))"
    "summary (db_virtual_network_database_spoke v h e) = (''azurerm_virtual_network'', ''database_spoke'',
       ''vnet-guiworld-database-'' @ ho_environment h @ ''-'' @ random_string_suffix_result e,
       Some (db_spoke_tags v h))"
    "summary (db_subnet_database v h e) = (''azurerm_subnet'', ''database'', ''snet-database'', None)"
    "summary (db_subnet_network_security_group_association_database v h e) =
       (''azurerm_subnet_network_security_group_association'', ''database'', [], None)"
    "summary (db_private_dns_zone_virtual_network_link_database_spoke v h e) =
       (''azurerm_private_dns_zone_virtual_network_link'', ''database_spoke'',
       ''database-spoke-link'', Some (db_spoke_tags v h))"
    "summary (db_postgresql_flexible_server_main v h e) = (''azurerm_postgresql_flexible_server'', ''main'',
       ''psql-guiworld-'' @ ho_environment h @ ''-'' @ random_string_suffix_result e,
       Some (db_spoke_tags v h))"
    "summary (db_postgresql_flexible_server_database_guiworld v h e) =
       (''azurerm_postgresql_flexible_server_database'', ''guiworld'', db_database_name v, None)"
    "\<And>l n x. summary (db_postgresql_flexible_server_configuration l n x e) =
       (''azurerm_postgresql_flexible_server_configuration'', l, n, None)"
    "summary (db_virtual_network_peering_spoke_to_hub v h e) =
       (''azurerm_virtual_network_peering'', ''spoke_to_hub'', ''peer-database-to-hub'', None)"
    "summary (db_virtual_network_peering_hub_to_spoke v h e) =
       (''azurerm_virtual_network_peering'', ''hub_to_spoke'', ''peer-hub-to-database'', None)"
    "summary (db_monitor_diagnostic_setting_postgresql v h e) =
       (''azurerm_monitor_diagnostic_setting'', ''postgresql'',
       ''diag-postgresql-'' @ ho_environment h @ ''-'' @ random_string_suffix_result e, None)"
    "map summary (db_postgresql_flexible_server_database_additional v h e) =
       map (\<lambda>x. (''azurerm_postgresql_flexible_server_database'', ''additional'', x, None))
       (toset (db_additional_databases v))"
    by (simp_all add: db_resource_defs summary_def comp_def)
  show ?thesis
    unfolding rs
    by (simp add: simple db_nsg_summary [OF nsg] db_secret_summary(1) [OF s1]
        db_secret_summary(2) [OF s2])
qed

lemma st_secret_summary:
  "st_key_vault_secret l n x v h kv = Inr s1 \<Longrightarrow>
   map summary s1 = (if st_store_connection_string_in_keyvault v
     then [(''azurerm_key_vault_secret'', l, n, Some (st_spoke_tags v h))] else [])"
  by (auto simp: st_key_vault_secret_def summary_def split: if_splits sum.splits)

lemma st_summary:
  assumes "storage_resources v h kv e = Inr rs"
  shows "map summary rs =
     [(''azurerm_resource_group'', ''storage_spoke'',
       ''rg-guiworld-storage-'' @ ho_environment h @ ''-'' @ random_string_suffix_result e,
       Some (st_spoke_tags v h)),
      (''azurerm_virtual_network'', ''storage_spoke'',
       ''vnet-guiworld-storage-'' @ ho_environment h @ ''-'' @ random_string_suffix_result e,
       Some (st_spoke_tags v h)),
      (''azurerm_subnet'', ''storage'', ''snet-storage'', None),
      (''azurerm_network_security_group'', ''storage'',
       ''nsg-storage-'' @ ho_environment h @ ''-'' @ random_string_suffix_result e,
       Some (st_spoke_tags v h)),
      (''azurerm_subnet_network_security_group_association'', ''storage'', [], None),
      (''azurerm_storage_account'', ''main'',
       ''stguiworld'' @ ho_environment h @ random_string_suffix_result e,
       Some (st_spoke_tags v h))] @
     map (\<lambda>x. (''azurerm_storage_container'', ''containers'', x, None))
       (toset (st_storage_containers v)) @
     map (\<lambda>x. (''azurerm_storage_share'', ''shares'', fst x, None)) (st_file_shares v) @
     map (\<lambda>x. (''azurerm_storage_table'', ''tables'', x, None)) (toset (st_storage_tables v)) @
     map (\<lambda>x. (''azurerm_storage_queue'', ''queues'', x, None)) (toset (st_storage_queues v)) @
     replicate (if st_allow_public_access v then 0 else 1)
       (''azurerm_private_endpoint'', ''storage_blob'',
        ''pep-storage-blob-'' @ ho_environment h @ ''-'' @ random_string_suffix_result e,
        Some (st_spoke_tags v h)) @
     replicate (if st_allow_public_access v \<or> length (st_file_shares v) = 0 then 0 else 1)
       (''azurerm_private_endpoint'', ''storage_file'',
        ''pep-storage-file-'' @ ho_environment h @ ''-'' @ random_string_suffix_result e,
        Some (st_spoke_tags v h)) @
     [(''azurerm_virtual_network_peering'', ''spoke_to_hub'', ''peer-storage-to-hub'', None),
      (''azurerm_virtual_network_peering'', ''hub_to_spoke'', ''peer-hub-to-storage'', None),
      (''azurerm_private_dns_zone_virtual_network_link'', ''storage_spoke'',
       ''storage-spoke-link'', Some (st_spoke_tags v h))] @
     (if st_store_connection_string_in_keyvault v
      then [(''azurerm_key_vault_secret'', ''storage_connection_string'',
             ''storage-connection-string'', Some (st_spoke_tags v h)),
            (''azurerm_key_vault_secret'', ''storage_access_key'', ''storage-access-key'',
             Some (st_spoke_tags v h))]
      else []) @
     [(''azurerm_monitor_diagnostic_setting'', ''storage'',
       ''diag-storage-'' @ ho_environment h @ ''-'' @ random_string_suffix_result e, None)]"
proof -
  from assms obtain s1 s2 where
    s1: "st_key_vault_secret_storage_connection_string v h kv e = Inr s1" and
    s2: "st_key_vault_secret_storage_access_key v h kv e = Inr s2" and
    rs: "rs = [st_resource_group_storage_spoke v h e,
           st_virtual_network_storage_spoke v h e,
           st_subnet_storage v h e,
           st_network_security_group_storage v h e,
           st_subnet_network_security_group_association_storage v h e,
           st_storage_account_main v h e] @
          st_storage_container_containers v h e @
          st_storage_share_shares v h e @
          st_storage_table_tables v h e @
          st_storage_queue_queues v h e @
          st_private_endpoint_storage_blob v h e @
          st_private_endpoint_storage_file v h e @
          [st_virtual_network_peering_spoke_to_hub v h e,
           st_virtual_network_peering_hub_to_spoke v h e,
           st_private_dns_zone_virtual_network_link_storage_spoke v h e] @
          s1 @ s2 @
          [st_monitor_diagnostic_setting_storage v h e]"
    by (rule storage_resources_Inr)
  have simple:
    "summary (st_resource_group_storage_spoke v h e) = (''azurerm_resource_group'', ''storage_spoke'',
       ''rg-guiworld-storage-'' @ ho_environment h @ ''-'' @ random_string_suffix_result e,
       Some (st_spoke_tags v h))"
    "summary (st_virtual_network_storage_spoke v h e) = (''azurerm_virtual_network'', ''storage_spoke'',
       ''vnet-guiworld-storage-'' @ ho_environment h @ ''-'' @ random_string_suffix_result e,
       Some (st_spoke_tags v h))"
    "summary (st_subnet_storage v h e) = (''azurerm_subnet'', ''storage'', ''snet-storage'', None)"
    "summary (st_network_security_group_storage v h e) = (''azurerm_network_security_group'', ''storage'',
       ''nsg-storage-'' @ ho_environment h @ ''-'' @ random_string_suffix_result e,
       Some (st_spoke_tags v h))"
    "summary (st_subnet_network_security_group_association_storage v h e) =
       (''azurerm_subnet_network_security_group_association'', ''storage'', [], None)"
    "summary (st_storage_account_main v h e) = (''azurerm_storage_account'', ''main'',
       ''stguiworld'' @ ho_environment h @ random_string_suffix_result e,
       Some (st_spoke_tags v h))"
    "summary (st_virtual_network_peering_spoke_to_hub v h e) =
       (''azurerm_virtual_network_peering'', ''spoke_to_hub'', ''peer-storage-to-hub'', None)"
    "summary (st_virtual_network_peering_hub_to_spoke v h e) =
       (''azurerm_virtual_network_peering'', ''hub_to_spoke'', ''peer-hub-to-storage'', None)"
    "summary (st_private_dns_zone_virtual_network_link_storage_spoke v h e) =
       (''azurerm_private_dns_zone_virtual_network_link'', ''storage_spoke'',
       ''storage-spoke-link'', Some (st_spoke_tags v h))"
    "summary (st_monitor_diagnostic_setting_storage v h e) =
       (''azurerm_monitor_diagnostic_setting'', ''storage'',
       ''diag-storage-'' @ ho_environment h @ ''-'' @ random_string_suffix_result e, None)"
    "map summary (st_storage_container_containers v h e) =
       map (\<lambda>x. (''azurerm_storage_container'', ''containers'', x, None))
       (toset (st_storage_containers v))"
    "map summary (st_storage_share_shares v h e) =
       map (\<lambda>x. (''azurerm_storage_share'', ''shares'', fst x, None)) (st_file_shares v)"
    "map summary (st_storage_table_tables v h e) =
       map (\<lambda>x. (''azurerm_storage_table'', ''tables'', x, None)) (toset (st_storage_tables v))"
    "map summary (st_storage_queue_queues v h e) =
       map (\<lambda>x. (''azurerm_storage_queue'', ''queues'', x, None)) (toset (st_storage_queues v))"
    "map summary (st_private_endpoint_storage_blob v h e) =
       replicate (if st_allow_public_access v then 0 else 1)
       (''azurerm_private_endpoint'', ''storage_blob'',
        ''pep-storage-blob-'' @ ho_environment h @ ''-'' @ random_string_suffix_result e,
        Some (st_spoke_tags v h))"
    "map summary (st_private_endpoint_storage_file v h e) =
       replicate (if st_allow_public_access v \<or> length (st_file_shares v) = 0 then 0 else 1)
       (''azurerm_private_endpoint'', ''storage_file'',
        ''pep-storage-file-'' @ ho_environment h @ ''-'' @ random_string_suffix_result e,
        Some (st_spoke_tags v h))"
    by (simp_all add: st_resource_defs summary_def comp_def case_prod_beta)
  show ?thesis
    unfolding rs
    by (simp add: simple
        st_secret_summary [OF s1 [unfolded st_key_vault_secret_storage_connection_string_def]]
        st_secret_summary [OF s2 [unfolded st_key_vault_secret_storage_access_key_def]])
qed

lemma via_summary:
  "map (\<lambda>r. g (summary r)) (filter (\<lambda>r. p (summary r)) rs) = map g (filter p (map summary rs))"
  by (simp add: filter_map comp_def)

lemma r_type_summary: "r_type r = fst (summary r)" 
  and r_label_summary: "r_label r = fst (snd (summary r))"
  and r_name_summary: "r_name r = fst (snd (snd (summary r)))"
  and r_tags_summary: "r_tags r = snd (snd (snd (summary r)))"
  by (simp_all add: summary_def)

text \<open>The server and the secrets among the resources of a planned Database spoke.\<close>

lemma db_filter_types:
  assumes "database_resources v h kv e = Inr rs"
  shows "filter (\<lambda>r. r_type r = ''azurerm_postgresql_flexible_server'') rs =
           [db_postgresql_flexible_server_main v h e] \<and>
         (\<exists>s1 s2. db_key_vault_secret_db_password v h kv e = Inr s1 \<and>
            db_key_vault_secret_db_connection_string v h kv e = Inr s2 \<and>
            filter (\<lambda>r. r_type r = ''azurerm_key_vault_secret'') rs = s1 @ s2)"
proof -
  from assms(1) obtain nsg s1 s2 where
    nsg: "db_network_security_group_database v h e = Inr nsg" and
    s1: "db_key_vault_secret_db_password v h kv e = Inr s1" and
    s2: "db_key_vault_secret_db_connection_string v h kv e = Inr s2" and
    rs: "rs = [db_resource_group_database_spoke v h e,
           db_virtual_network_database_spoke v h e,
           db_subnet_database v h e,
           nsg,
           db_subnet_network_security_group_association_database v h e,
           db_private_dns_zone_virtual_network_link_database_spoke v h e,
           db_postgresql_flexible_server_main v h e,
           db_postgresql_flexible_server_database_guiworld v h e] @
          db_postgresql_flexible_server_database_additional v h e @
          [db_postgresql_flexible_server_configuration ''timezone'' ''timezone''
             (db_database_timezone v) e,
           db_postgresql_flexible_server_configuration ''log_connections'' ''log_connections''
             ''on'' e,
           db_postgresql_flexible_server_configuration ''log_disconnections'' ''log_disconnections''
             ''on'' e,
           db_virtual_network_peering_spoke_to_hub v h e,
           db_virtual_network_peering_hub_to_spoke v h e] @
          s1 @ s2 @
          [db_monitor_diagnostic_setting_postgresql v h e]"
    by (rule database_resources_Inr)
  have t1: "\<forall>x\<in>set s1. r_type x = ''azurerm_key_vault_secret''"
    using db_secret_summary(1) [OF s1] by (cases s1) (auto simp: summary_def split: if_splits)
  have t2: "\<forall>x\<in>set s2. r_type x = ''azurerm_key_vault_secret''"
    using db_secret_summary(2) [OF s2] by (cases s2) (auto simp: summary_def split: if_splits)
  have t3: "\<forall>x\<in>set (db_postgresql_flexible_server_database_additional v h e).
      r_type x = ''azurerm_postgresql_flexible_server_database''"
    by (simp add: db_postgresql_flexible_server_database_additional_def)
  have t4: "r_type nsg = ''azurerm_network_security_group''"
    using db_nsg_summary [OF nsg] by (simp add: summary_def)
  have types:
    "r_type (db_resource_group_database_spoke v h e) = ''azurerm_resource_group''"
    "r_type (db_virtual_network_database_spoke v h e) = ''azurerm_virtual_network''"
    "r_type (db_subnet_database v h e) = ''azurerm_subnet''"
    "r_type (db_postgresql_flexible_server_main v h e) = ''azurerm_postgresql_flexible_server''"
    "r_type (db_subnet_network_security_group_association_database v h e) =
       ''azurerm_subnet_network_security_group_association''"
    "r_type (db_private_dns_zone_virtual_network_link_database_spoke v h e) =
       ''azurerm_private_dns_zone_virtual_network_link''"
    "r_type (db_postgresql_flexible_server_database_guiworld v h e) =
       ''azurerm_postgresql_flexible_server_database''"
    "\<And>l n x. r_type (db_postgresql_flexible_server_configuration l n x e) =
       ''azurerm_postgresql_flexible_server_configuration''"
    "r_type (db_virtual_network_peering_spoke_to_hub v h e) = ''azurerm_virtual_network_peering''"
    "r_type (db_virtual_network_peering_hub_to_spoke v h e) = ''azurerm_virtual_network_peering''"
    "r_type (db_monitor_diagnostic_setting_postgresql v h e) =
       ''azurerm_monitor_diagnostic_setting''"
    by (simp_all add: db_resource_defs)
  have f1: "filter (\<lambda>r. r_type r = ''azurerm_key_vault_secret'') s1 = s1"
    "filter (\<lambda>r. r_type r = ''azurerm_key_vault_secret'') s2 = s2"
    "filter (\<lambda>r. r_type r = ''azurerm_key_vault_secret'')
       (db_postgresql_flexible_server_database_additional v h e) = []"
    using t1 t2 t3 by (simp_all add: filter_empty_conv)
  have f2: "filter (\<lambda>r. r_type r = ''azurerm_postgresql_flexible_server'') s1 = []"
    "filter (\<lambda>r. r_type r = ''azurerm_postgresql_flexible_server'') s2 = []"
    "filter (\<lambda>r. r_type r = ''azurerm_postgresql_flexible_server'')
       (db_postgresql_flexible_server_database_additional v h e) = []"
    using t1 t2 t3 by (simp_all add: filter_empty_conv)
  have "filter (\<lambda>r. r_type r = ''azurerm_postgresql_flexible_server'') rs =
           [db_postgresql_flexible_server_main v h e]"
    unfolding rs by (simp add: types t4 f2)
  moreover have "filter (\<lambda>r. r_type r = ''azurerm_key_vault_secret'') rs = s1 @ s2"
    unfolding rs by (simp add: types t4 f1)
  ultimately show ?thesis using s1 s2 by blast
qed

subsection \<open>Network access of the domain resources (C1)\<close>

text \<open>
  C1, as the spoke defaults refute it: with its default variables the Key Vault spoke
  has \<open>allow_public_access = true\<close>, and its vault is planned with public network
  access enabled and default action \<open>Allow\<close>.
\<close>

theorem C1_keyvault_default_public_counterexample:
  "kv_allow_public_access keyvault_defaults \<and>
   kv_key_vault_main keyvault_defaults example_hub example_env
     \<in> set (created (keyvault_plan keyvault_defaults example_env)) \<and>
   arg (kv_key_vault_main keyvault_defaults example_hub example_env)
     ''public_network_access_enabled'' = Some (Bool True) \<and>
   arg (kv_key_vault_main keyvault_defaults example_hub example_env) ''network_acls'' =
     Some (Obj [(''bypass'', Str ''AzureServices''), (''default_action'', Str ''Allow''),
                (''virtual_network_subnet_ids'',
                 Lst [Str ''/id/azurerm_subnet.keyvault.id'',
                      Str ''/id/azurerm_subnet.shared_services.id''])])"
  by (simp add: example_keyvault_plan created_def keyvault_resources_def)
     (simp add: kv_key_vault_main_def arg_def keyvault_defaults_def example_env_def
       example_hub_def hub_output_bundle_def example_hub_env_def)

text \<open>
  C1, amended. In the Key Vault spoke and in the Storage spoke the network rules of the
  domain resource list exactly the spoke's own subnet and the shared-services subnet
  of the hub, public network access is enabled exactly when \<open>allow_public_access\<close> is
  set, and the default action is \<open>Deny\<close> exactly when it is not set. The default of
  \<open>allow_public_access\<close> is false in the Storage spoke and true in the Key Vault spoke.
  The Database spoke has no such variable: its server has no public-access argument
  and is placed in the spoke's own delegated subnet.
\<close>

theorem C1_network_access:
  "arg (kv_key_vault_main kv h e) ''public_network_access_enabled'' =
     Some (Bool (kv_allow_public_access kv)) \<and>
   arg (kv_key_vault_main kv h e) ''network_acls'' =
     Some (Obj [(''bypass'', Str ''AzureServices''),
                (''default_action'', Str (if kv_allow_public_access kv then ''Allow'' else ''Deny'')),
                (''virtual_network_subnet_ids'',
                 Lst [Str (resource_id e (kv_subnet_keyvault kv h e)),
                      Str (ho_shared_services_subnet_id h)])]) \<and>
   arg (st_storage_account_main st h e) ''public_network_access_enabled'' =
     Some (Bool (st_allow_public_access st)) \<and>
   arg (st_storage_account_main st h e) ''network_rules'' =
     Some (Obj [(''default_action'', Str (if st_allow_public_access st then ''Allow'' else ''Deny'')),
                (''bypass'', Lst [Str ''AzureServices'']),
                (''virtual_network_subnet_ids'',
                 Lst [Str (resource_id e (st_subnet_storage st h e)),
                      Str (ho_shared_services_subnet_id h)])]) \<and>
   arg (db_postgresql_flexible_server_main db h e) ''public_network_access_enabled'' = None \<and>
   arg (db_postgresql_flexible_server_main db h e) ''delegated_subnet_id'' =
     Some (Str (resource_id e (db_subnet_database db h e))) \<and>
   kv_allow_public_access keyvault_defaults = True \<and>
   st_allow_public_access storage_defaults = False"
  by (simp add: arg_def resource_id_def kv_key_vault_main_def kv_subnet_keyvault_def
      st_storage_account_main_def st_subnet_storage_def db_postgresql_flexible_server_main_def
      db_subnet_database_def keyvault_defaults_def storage_defaults_def)

text \<open>
  The default Storage spoke denies public access and admits its own subnet and the
  shared-services subnet of the hub; so does a Key Vault spoke with the flag unset.
\<close>

theorem C1_network_access_witness:
  "arg (st_storage_account_main storage_defaults example_hub example_env)
     ''public_network_access_enabled'' = Some (Bool False) \<and>
   arg (st_storage_account_main storage_defaults example_hub example_env) ''network_rules'' =
     Some (Obj [(''default_action'', Str ''Deny''), (''bypass'', Lst [Str ''AzureServices'']),
                (''virtual_network_subnet_ids'',
                 Lst [Str ''/id/azurerm_subnet.storage.id'',
                      Str ''/id/azurerm_subnet.shared_services.id''])]) \<and>
   arg (kv_key_vault_main (keyvault_defaults \<lparr> kv_allow_public_access := False \<rparr>)
          example_hub example_env) ''public_network_access_enabled'' = Some (Bool False)"
  using C1_network_access [of "keyvault_defaults \<lparr> kv_allow_public_access := False \<rparr>"
      example_hub example_env storage_defaults database_defaults]
  by (simp add: resource_id_def st_subnet_storage_def example_env_def example_hub_def
      hub_output_bundle_def example_hub_env_def storage_defaults_def)

subsection \<open>Validation of the address variables (C2)\<close>

lemma validation_Nil: "validation c m = [] \<longleftrightarrow> c"
  by (simp add: validation_def)

lemma hub_address_validation_iff:
  "hub_address_validation v = [] \<longleftrightarrow>
     can_cidrhost (hv_hub_vnet_address_space v) \<and>
     can_cidrhost (hv_gateway_subnet_address_prefix v) \<and>
     can_cidrhost (hv_firewall_subnet_address_prefix v) \<and>
     can_cidrhost (hv_bastion_subnet_address_prefix v) \<and>
     can_cidrhost (hv_shared_services_subnet_address_prefix v)"
  by (simp add: hub_address_validation_def validation_Nil)

lemma keyvault_address_validation_iff:
  "keyvault_address_validation v = [] \<longleftrightarrow>
     can_cidrhost (kv_spoke_vnet_address_space v) \<and>
     can_cidrhost (kv_keyvault_subnet_address_prefix v)"
  by (simp add: keyvault_address_validation_def validation_Nil)

lemma database_address_validation_iff:
  "database_address_validation v = [] \<longleftrightarrow>
     can_cidrhost (db_spoke_vnet_address_space v) \<and>
     can_cidrhost (db_database_subnet_address_prefix v)"
  by (simp add: database_address_validation_def validation_Nil)

lemma invalid_address_ends_run:
  "\<not> can_cidrhost (kv_spoke_vnet_address_space kv) \<Longrightarrow> isl (keyvault_plan kv e)"
  "\<not> can_cidrhost (kv_keyvault_subnet_address_prefix kv) \<Longrightarrow> isl (keyvault_plan kv e)"
  "\<not> can_cidrhost (db_spoke_vnet_address_space db) \<Longrightarrow> isl (database_plan db e')"
  "\<not> can_cidrhost (db_database_subnet_address_prefix db) \<Longrightarrow> isl (database_plan db e')"
  by (auto simp: keyvault_plan_def database_plan_def keyvault_validation_def
      database_validation_def keyvault_address_validation_def database_address_validation_def
      validation_def split: list.splits)

text \<open>
  C2 at the Storage spoke: the string \<open>not-a-cidr\<close> is no CIDR block; as
  \<open>spoke_vnet_address_space\<close> of the Key Vault spoke it fails the validation and ends
  the run; as \<open>spoke_vnet_address_space\<close> of the Storage spoke it passes, no rule
  rejects it, and the run plans a virtual network with this address space.
\<close>

theorem C2_storage_accepts_malformed_address:
  "\<not> can_cidrhost ''not-a-cidr'' \<and>
   keyvault_plan (keyvault_defaults \<lparr> kv_spoke_vnet_address_space := ''not-a-cidr'' \<rparr>) example_env =
     Inl (InvalidVariable ''Spoke VNet address space must be a valid CIDR block.'') \<and>
   storage_address_validation (storage_defaults \<lparr> st_spoke_vnet_address_space := ''not-a-cidr'' \<rparr>) = [] \<and>
   \<not> isl (storage_plan (storage_defaults \<lparr> st_spoke_vnet_address_space := ''not-a-cidr'' \<rparr>)
            example_env) \<and>
   st_virtual_network_storage_spoke
       (storage_defaults \<lparr> st_spoke_vnet_address_space := ''not-a-cidr'' \<rparr>) example_hub example_env
     \<in> set (created (storage_plan
         (storage_defaults \<lparr> st_spoke_vnet_address_space := ''not-a-cidr'' \<rparr>) example_env)) \<and>
   arg (st_virtual_network_storage_spoke
         (storage_defaults \<lparr> st_spoke_vnet_address_space := ''not-a-cidr'' \<rparr>) example_hub example_env)
     ''address_space'' = Some (Lst [Str ''not-a-cidr''])"
proof -
  let ?v = "storage_defaults \<lparr> st_spoke_vnet_address_space := ''not-a-cidr'' \<rparr>"
  have bad: "\<not> can_cidrhost ''not-a-cidr''"
    by (simp add: cidr_defs)
  have kv: "keyvault_plan (keyvault_defaults \<lparr> kv_spoke_vnet_address_space := ''not-a-cidr'' \<rparr>)
      example_env = Inl (InvalidVariable ''Spoke VNet address space must be a valid CIDR block.'')"
    using bad
    by (simp add: keyvault_plan_def keyvault_validation_def keyvault_address_validation_def
        validation_def keyvault_defaults_def azure_regions_def)
  have hub: "hub_state_at example_env (st_hub_state_path ?v) = Some example_hub"
    using example_facts(7) by simp
  have kvs: "keyvault_state_at example_env (st_keyvault_state_path ?v) \<noteq> None"
    using example_facts(9) by simp
  have val: "storage_validation ?v = []"
    using example_facts(11) by (simp add: storage_validation_def storage_address_validation_def)
  obtain rs where rs: "storage_plan ?v example_env = Inr rs"
    using storage_plan_ok [OF hub _ val] kvs by blast
  have mem: "st_virtual_network_storage_spoke ?v example_hub example_env \<in> set rs"
    using rs by (elim storage_plan_Inr storage_resources_Inr) (simp add: example_facts(7))
  have "arg (st_virtual_network_storage_spoke ?v example_hub example_env) ''address_space'' =
      Some (Lst [Str ''not-a-cidr''])"
    by (simp add: arg_def st_virtual_network_storage_spoke_def)
  then show ?thesis
    using bad kv mem by (simp add: rs created_def storage_address_validation_def)
qed

subsection \<open>The generated password (C3)\<close>

lemma db_server_password:
  "arg (db_postgresql_flexible_server_main v h e) ''administrator_password'' =
    Some (Str (if db_database_admin_password v \<noteq> [] then db_database_admin_password v
               else random_password_db_admin_result e))"
  by (simp add: db_postgresql_flexible_server_main_def arg_def)

text \<open>
  C3, refuted: \<open>abcdefghABCDEFG!\<close> is a result that \<open>random_password.db_admin\<close> can
  have; it has no digit, so it does not satisfy the password policy; and with no
  password supplied it is the administrator password of the planned server.
\<close>

theorem C3_generated_password_counterexample:
  "db_database_admin_password database_defaults = [] \<and>
   random_admits random_password_db_admin ''abcdefghABCDEFG!'' \<and>
   random_password_db_admin_result example_env = ''abcdefghABCDEFG!'' \<and>
   arg (db_postgresql_flexible_server_main database_defaults example_hub example_env)
     ''administrator_password'' = Some (Str ''abcdefghABCDEFG!'') \<and>
   count_in numeric_chars ''abcdefghABCDEFG!'' = 0 \<and>
   \<not> password_policy ''abcdefghABCDEFG!''"
  by (simp add: database_defaults_def random_admits_def random_password_db_admin_def
      random_provider_defaults_def random_alphabet_def lower_chars_def upper_chars_def
      numeric_chars_def special_chars_def count_in_def example_env_def password_policy_def
      db_postgresql_flexible_server_main_def arg_def)

text \<open>
  C3, amended. When no password is supplied, the administrator password of the server
  is the result of \<open>random_password.db_admin\<close>. Every such result has 16 characters,
  which is within the 12 to 128 characters of the policy, and each character is a
  lowercase letter, an uppercase letter, a digit or a special character of the
  provider. No class has a minimum count.
\<close>

theorem C3_generated_password_shape:
  assumes "db_database_admin_password v = []"
    and "random_admits random_password_db_admin (random_password_db_admin_result e)"
  shows "arg (db_postgresql_flexible_server_main v h e) ''administrator_password'' =
           Some (Str (random_password_db_admin_result e)) \<and>
         length (random_password_db_admin_result e) = 16 \<and>
         12 \<le> length (random_password_db_admin_result e) \<and>
         length (random_password_db_admin_result e) \<le> 128 \<and>
         list_all (\<lambda>c. c \<in> set (lower_chars @ upper_chars @ numeric_chars @ special_chars))
           (random_password_db_admin_result e) \<and>
         ra_min_lower random_password_db_admin = 0 \<and> ra_min_upper random_password_db_admin = 0 \<and>
         ra_min_numeric random_password_db_admin = 0 \<and> ra_min_special random_password_db_admin = 0"
  using assms
  by (simp add: db_server_password random_admits_def random_password_db_admin_def
      random_provider_defaults_def random_alphabet_def)

text \<open>The default Database spoke with the generated password of the example.\<close>

theorem C3_generated_password_shape_witness:
  "db_database_admin_password database_defaults = [] \<and>
   random_admits random_password_db_admin (random_password_db_admin_result example_env) \<and>
   arg (db_postgresql_flexible_server_main database_defaults example_hub example_env)
     ''administrator_password'' = Some (Str ''abcdefghABCDEFG!'') \<and>
   length (random_password_db_admin_result example_env) = 16"
proof -
  have 1: "db_database_admin_password database_defaults = []"
    by (simp add: database_defaults_def)
  have 2: "random_admits random_password_db_admin (random_password_db_admin_result example_env)"
    by (simp add: random_admits_def random_password_db_admin_def
      random_provider_defaults_def random_alphabet_def lower_chars_def upper_chars_def
      numeric_chars_def special_chars_def count_in_def example_env_def)
  have 3: "random_password_db_admin_result example_env = ''abcdefghABCDEFG!''"
    by (simp add: example_env_def)
  show ?thesis
    using C3_generated_password_shape [OF 1 2, of example_hub] 1 2 by (simp add: 3)
qed

subsection \<open>Failing and skipping the secret storage (C4, C5)\<close>

text \<open>
  C4. With \<open>store_password_in_keyvault = true\<close> and no readable state at the path of
  the Key Vault spoke, a run of the Database spoke ends in an error and creates
  nothing, so the PostgreSQL server is not created; when the variables are valid and
  the hub state is readable, the error is the unreadable Key Vault state.
\<close>

theorem C4_unreadable_keyvault_state_fails:
  assumes "db_store_password_in_keyvault v"
    and "keyvault_state_at e (db_keyvault_state_path v) = None"
  shows "isl (database_plan v e) \<and> created (database_plan v e) = [] \<and>
    db_postgresql_flexible_server_main v h e \<notin> set (created (database_plan v e)) \<and>
    (database_validation v = [] \<and> hub_state_at e (db_hub_state_path v) = Some h \<longrightarrow>
       database_plan v e = Inl (RemoteStateUnreadable (db_keyvault_state_path v)))"
proof -
  have kv: "db_data_terraform_remote_state_keyvault v e =
      Inl (RemoteStateUnreadable (db_keyvault_state_path v))"
    using assms by (simp add: db_data_terraform_remote_state_keyvault_def)
  have "isl (database_plan v e)"
    by (simp add: database_plan_def kv split: list.splits option.splits)
  moreover from this have "created (database_plan v e) = []"
    by (cases "database_plan v e") (simp_all add: created_def)
  moreover have "database_validation v = [] \<and>
      hub_state_at e (db_hub_state_path v) = Some h \<longrightarrow>
      database_plan v e = Inl (RemoteStateUnreadable (db_keyvault_state_path v))"
    by (simp add: database_plan_def kv)
  ultimately show ?thesis by simp
qed

text \<open>
  The default Database spoke with the flag set and a path at which there is no state:
  the variables are valid and the hub state is readable, and the run ends with the
  unreadable Key Vault state and nothing created.
\<close>

theorem C4_unreadable_keyvault_state_fails_witness:
  "db_store_password_in_keyvault
     (database_defaults \<lparr> db_store_password_in_keyvault := True,
        db_keyvault_state_path := ''../missing/terraform.tfstate'' \<rparr>) \<and>
   keyvault_state_at example_env ''../missing/terraform.tfstate'' = None \<and>
   database_plan
     (database_defaults \<lparr> db_store_password_in_keyvault := True,
        db_keyvault_state_path := ''../missing/terraform.tfstate'' \<rparr>) example_env =
     Inl (RemoteStateUnreadable ''../missing/terraform.tfstate'') \<and>
   created (database_plan
     (database_defaults \<lparr> db_store_password_in_keyvault := True,
        db_keyvault_state_path := ''../missing/terraform.tfstate'' \<rparr>) example_env) = []"
proof -
  let ?v = "database_defaults \<lparr> db_store_password_in_keyvault := True,
        db_keyvault_state_path := ''../missing/terraform.tfstate'' \<rparr>"
  have 1: "db_store_password_in_keyvault ?v" by simp
  have 2: "keyvault_state_at example_env (db_keyvault_state_path ?v) = None"
    by (simp add: example_env_def)
  have 3: "database_validation ?v = []"
    using example_facts(1)
    by (simp add: database_validation_def database_address_validation_def)
  have 4: "hub_state_at example_env (db_hub_state_path ?v) = Some example_hub"
    using example_facts(4) by simp
  show ?thesis
    using C4_unreadable_keyvault_state_fails [OF 1 2, of example_hub] 2 3 4
    by (simp add: created_def)
qed

lemma db_no_secret:
  assumes "database_resources v h kv e = Inr rs" "\<not> db_store_password_in_keyvault v"
  shows "filter (\<lambda>r. r_type r = ''azurerm_key_vault_secret'') rs = []"
proof -
  have "map id (filter (\<lambda>r. fst (summary r) = ''azurerm_key_vault_secret'') rs) = []"
    unfolding map_is_Nil_conv filter_empty_conv
  proof (intro ballI)
    fix r assume "r \<in> set rs"
    then have "summary r \<in> set (map summary rs)" by simp
    then show "fst (summary r) \<noteq> ''azurerm_key_vault_secret''"
      unfolding db_summary [OF assms(1)] using assms(2) by auto
  qed
  then show ?thesis by (simp add: r_type_summary)
qed

lemma db_resources_keyvault_state:
  "database_resources v h kv (e \<lparr> keyvault_state_at := f \<rparr>) = database_resources v h kv e"
  unfolding database_resources_def
  by (simp add: db_resource_defs cong: sum.case_cong)

lemma is_secret_filter:
  "filter is_secret rs = filter (\<lambda>r. r_type r = ''azurerm_key_vault_secret'') rs"
  by (simp add: is_secret_def cong: filter_cong)

lemma clear_cases:
  "foldl (\<lambda>m r. m(f r := None)) vt xs k = None \<or> foldl (\<lambda>m r. m(f r := None)) vt xs k = vt k"
proof (induction xs arbitrary: vt)
  case Nil
  show ?case by simp
next
  case (Cons x xs)
  from Cons.IH [of "vt(f x := None)"] show ?case by (auto split: if_splits)
qed

lemma remove_secrets_cases:
  "remove_secrets rs vt k = None \<or> remove_secrets rs vt k = vt k"
  unfolding remove_secrets_def by (rule clear_cases)

lemma no_secrets_managed:
  assumes "filter is_secret rs = []"
  shows "remove_secrets rs vt = vt" "write_secrets rs vt = vt"
  using assms by (simp_all add: remove_secrets_def write_secrets_def)

lemma db_no_secret_written:
  assumes "\<not> db_store_password_in_keyvault v"
  shows "filter is_secret (created (database_plan v e)) = []"
proof (cases "database_plan v e")
  case (Inl err)
  then show ?thesis by (simp add: created_def)
next
  case (Inr rs)
  then have "filter (\<lambda>r. r_type r = ''azurerm_key_vault_secret'') rs = []"
    by (elim database_plan_Inr) (rule db_no_secret [OF _ assms])
  with Inr show ?thesis by (simp add: created_def is_secret_filter)
qed

lemma apply_run_flag_off:
  assumes "\<not> db_store_password_in_keyvault v"
  shows "vault_secrets (apply_run (database_plan v e) w) =
    (if isl (database_plan v e) then vault_secrets w
     else remove_secrets (managed w) (vault_secrets w))"
proof (cases "database_plan v e")
  case (Inl err)
  then show ?thesis by (simp add: apply_run_def)
next
  case (Inr rs)
  with db_no_secret_written [OF assms, of e] have "filter is_secret rs = []"
    by (simp add: created_def)
  with Inr show ?thesis by (simp add: apply_run_def no_secrets_managed)
qed

text \<open>
  C5, refuted: the Key Vault's secrets do not stay as they were in every run with
  \<open>store_password_in_keyvault = false\<close>. A first run of the default Database spoke
  with the flag set stores \<open>database-admin-password\<close> in the vault of the Key Vault
  spoke; the next run, with the default variables and so without the flag, takes the
  \<open>count\<close> of both secret resources from 1 to 0, and the secret is gone from the vault.
\<close>

theorem C5_stored_secrets_removed_counterexample:
  "\<not> db_store_password_in_keyvault database_defaults \<and>
   vault_secrets
     (apply_run (database_plan (database_defaults \<lparr> db_store_password_in_keyvault := True \<rparr>)
          example_env)
        \<lparr> managed = [], vault_secrets = Map.empty \<rparr>)
     (''/id/azurerm_key_vault.main.id'', ''database-admin-password'') = Some ''abcdefghABCDEFG!'' \<and>
   vault_secrets
     (apply_run (database_plan database_defaults example_env)
        (apply_run (database_plan (database_defaults \<lparr> db_store_password_in_keyvault := True \<rparr>)
             example_env)
           \<lparr> managed = [], vault_secrets = Map.empty \<rparr>))
     (''/id/azurerm_key_vault.main.id'', ''database-admin-password'') = None"
proof -
  let ?v = "database_defaults \<lparr> db_store_password_in_keyvault := True \<rparr>"
  let ?k = "\<lparr> ko_key_vault_id = ''/id/azurerm_key_vault.main.id'' \<rparr>"
  have off: "\<not> db_store_password_in_keyvault database_defaults"
    by (simp add: database_defaults_def)
  have val: "database_validation ?v = []"
    using example_facts(1)
    by (simp add: database_validation_def database_address_validation_def)
  have hub: "hub_state_at example_env (db_hub_state_path ?v) = Some example_hub"
    using example_facts(4) by simp
  have kv: "keyvault_state_at example_env (db_keyvault_state_path ?v) \<noteq> None"
    using example_facts(8) by simp
  obtain rs1 where rs1: "database_plan ?v example_env = Inr rs1"
    using database_plan_ok [OF val hub example_facts(10)] kv by blast
  then obtain h k where h: "hub_state_at example_env (db_hub_state_path ?v) = Some h"
    "db_data_terraform_remote_state_keyvault ?v example_env = Inr k"
    "database_resources ?v h k example_env = Inr rs1"
    by (rule database_plan_Inr)
  have k: "k = [?k]"
    using h(2) by (simp add: db_data_terraform_remote_state_keyvault_def example_env_def
        database_defaults_def)
  from db_filter_types [OF h(3)] obtain s1 s2 where
    s: "db_key_vault_secret_db_password ?v h k example_env = Inr s1"
       "db_key_vault_secret_db_connection_string ?v h k example_env = Inr s2"
       "filter (\<lambda>r. r_type r = ''azurerm_key_vault_secret'') rs1 = s1 @ s2"
    by blast
  have pw: "random_password_db_admin_result example_env = ''abcdefghABCDEFG!''"
    "db_database_admin_password database_defaults = []"
    by (simp_all add: example_env_def database_defaults_def)
  have w1: "write_secrets rs1 Map.empty
      (''/id/azurerm_key_vault.main.id'', ''database-admin-password'') = Some ''abcdefghABCDEFG!''"
    using s(1,2)
    by (auto simp: write_secrets_def is_secret_filter s(3) k pw str_arg_def arg_def index0_def
        db_key_vault_secret_db_password_def db_key_vault_secret_db_connection_string_def)
  have r1: "remove_secrets rs1 vt
      (''/id/azurerm_key_vault.main.id'', ''database-admin-password'') = None" for vt
    using s(1,2)
    by (auto simp: remove_secrets_def is_secret_filter s(3) k pw str_arg_def arg_def index0_def
        db_key_vault_secret_db_password_def db_key_vault_secret_db_connection_string_def)
  obtain rs2 where rs2: "database_plan database_defaults example_env = Inr rs2"
    using database_plan_ok [OF example_facts(1) example_facts(4) example_facts(10)] off by auto
  have none: "filter is_secret rs2 = []"
    using db_no_secret_written [OF off, of example_env] by (simp add: rs2 created_def)
  show ?thesis
    by (simp add: off rs1 rs2 apply_run_def remove_secrets_def [of "[]"] w1 r1
        no_secrets_managed [OF none])
qed

text \<open>
  C5, amended. With \<open>store_password_in_keyvault = false\<close> a run of the Database spoke
  declares no Key Vault secret, whatever the run reads from outside; the state of the
  Key Vault spoke is not even read, so what the run plans is the same whether or not
  a Key Vault spoke exists. Applied, the run writes no secret: a failed run leaves
  the vaults as they are, a successful one removes the secrets that the state of the
  spoke holds from an earlier run and changes nothing else, so every secret of a vault
  is afterwards either absent or what it was. The vaults are left unchanged when the
  state of the spoke holds no secret, as on a first run.
\<close>

theorem C5_no_secret_without_flag:
  assumes "\<not> db_store_password_in_keyvault v"
  shows "filter (\<lambda>r. r_type r = ''azurerm_key_vault_secret'') (created (database_plan v e)) = [] \<and>
    database_plan v (e \<lparr> keyvault_state_at := f \<rparr>) = database_plan v e \<and>
    vault_secrets (apply_run (database_plan v e) w) =
      (if isl (database_plan v e) then vault_secrets w
       else remove_secrets (managed w) (vault_secrets w)) \<and>
    (vault_secrets (apply_run (database_plan v e) w) k = None \<or>
     vault_secrets (apply_run (database_plan v e) w) k = vault_secrets w k) \<and>
    (filter is_secret (managed w) = [] \<longrightarrow>
       vault_secrets (apply_run (database_plan v e) w) = vault_secrets w)"
proof (intro conjI impI)
  show "filter (\<lambda>r. r_type r = ''azurerm_key_vault_secret'') (created (database_plan v e)) = []"
    using db_no_secret_written [OF assms, of e] by (simp add: is_secret_filter)
  show "database_plan v (e \<lparr> keyvault_state_at := f \<rparr>) = database_plan v e"
    using assms
    by (simp add: database_plan_def db_data_terraform_remote_state_keyvault_def
        db_resources_keyvault_state split: list.splits option.splits)
  show eq: "vault_secrets (apply_run (database_plan v e) w) =
      (if isl (database_plan v e) then vault_secrets w
       else remove_secrets (managed w) (vault_secrets w))"
    by (rule apply_run_flag_off [OF assms])
  show "vault_secrets (apply_run (database_plan v e) w) k = None \<or>
     vault_secrets (apply_run (database_plan v e) w) k = vault_secrets w k"
    unfolding eq using remove_secrets_cases [of "managed w" "vault_secrets w" k] by simp
  assume "filter is_secret (managed w) = []"
  then show "vault_secrets (apply_run (database_plan v e) w) = vault_secrets w"
    unfolding eq by (simp add: no_secrets_managed)
qed

text \<open>
  The default Database spoke next to an existing Key Vault spoke, on a first run: the
  run plans its 14 resources, none of them a secret, plans the same without the Key
  Vault spoke, and leaves a secret that the vault holds as it is.
\<close>

theorem C5_no_secret_without_flag_witness:
  "\<not> db_store_password_in_keyvault database_defaults \<and>
   keyvault_state_at example_env (db_keyvault_state_path database_defaults) =
     Some \<lparr> ko_key_vault_id = ''/id/azurerm_key_vault.main.id'' \<rparr> \<and>
   length (created (database_plan database_defaults example_env)) = 14 \<and>
   filter (\<lambda>r. r_type r = ''azurerm_key_vault_secret'')
     (created (database_plan database_defaults example_env)) = [] \<and>
   database_plan database_defaults (example_env \<lparr> keyvault_state_at := (\<lambda>p. None) \<rparr>) =
     database_plan database_defaults example_env \<and>
   vault_secrets (apply_run (database_plan database_defaults example_env)
     \<lparr> managed = [],
       vault_secrets = [(''/id/azurerm_key_vault.main.id'', ''api-key'') \<mapsto> ''k1''] \<rparr>) =
     [(''/id/azurerm_key_vault.main.id'', ''api-key'') \<mapsto> ''k1'']"
proof -
  have 1: "\<not> db_store_password_in_keyvault database_defaults"
    by (simp add: database_defaults_def)
  obtain rs where rs: "database_plan database_defaults example_env = Inr rs"
    using database_plan_ok [OF example_facts(1) example_facts(4) example_facts(10)] 1 by auto
  have "length (map summary rs) = 14"
    using rs 1
    by (elim database_plan_Inr) (simp add: db_summary toset_def database_defaults_def)
  then have 2: "length (created (database_plan database_defaults example_env)) = 14"
    by (simp add: rs created_def)
  have 3: "keyvault_state_at example_env (db_keyvault_state_path database_defaults) =
     Some \<lparr> ko_key_vault_id = ''/id/azurerm_key_vault.main.id'' \<rparr>"
    by (simp add: example_env_def database_defaults_def)
  show ?thesis
    using C5_no_secret_without_flag [OF 1, of example_env "\<lambda>p. None"
        "\<lparr> managed = [],
           vault_secrets = [(''/id/azurerm_key_vault.main.id'', ''api-key'') \<mapsto> ''k1''] \<rparr>"
        "(''/id/azurerm_key_vault.main.id'', ''api-key'')"] 1 2 3
    by (simp add: remove_secrets_def)
qed

subsection \<open>Peering names (C6)\<close>

lemma kv_peerings:
  "map (\<lambda>r. (r_label r, r_name r)) (filter (\<lambda>r. r_type r = ''azurerm_virtual_network_peering'') (keyvault_resources v h e))
   = [(''spoke_to_hub'', ''peer-keyvault-to-hub''), (''hub_to_spoke'', ''peer-hub-to-keyvault'')]"
  unfolding r_type_summary r_label_summary r_name_summary
    via_summary [where g = "\<lambda>s. (fst (snd s), fst (snd (snd s)))" and p = "\<lambda>s. fst s = t" for t]
    kv_summary
  by simp

lemma db_peerings:
  assumes "database_resources v h kv e = Inr rs"
  shows "map (\<lambda>r. (r_label r, r_name r)) (filter (\<lambda>r. r_type r = ''azurerm_virtual_network_peering'') rs)
   = [(''spoke_to_hub'', ''peer-database-to-hub''), (''hub_to_spoke'', ''peer-hub-to-database'')]"
  unfolding r_type_summary r_label_summary r_name_summary
    via_summary [where g = "\<lambda>s. (fst (snd s), fst (snd (snd s)))" and p = "\<lambda>s. fst s = t" for t]
    db_summary [OF assms]
  by (simp add: filter_map comp_def)

lemma st_peerings:
  assumes "storage_resources v h kv e = Inr rs"
  shows "map (\<lambda>r. (r_label r, r_name r)) (filter (\<lambda>r. r_type r = ''azurerm_virtual_network_peering'') rs)
   = [(''spoke_to_hub'', ''peer-storage-to-hub''), (''hub_to_spoke'', ''peer-hub-to-storage'')]"
  unfolding r_type_summary r_label_summary r_name_summary
    via_summary [where g = "\<lambda>s. (fst (snd s), fst (snd (snd s)))" and p = "\<lambda>s. fst s = t" for t]
    st_summary [OF assms]
  by (simp add: filter_map comp_def)

lemma filter_is_one:
  assumes "p \<in> set rs" "P p" "length (filter P rs) = 1"
  shows "filter P rs = [p]"
proof -
  from assms(3) obtain x where x: "filter P rs = [x]"
    by (cases "filter P rs") auto
  from assms(1,2) have "p \<in> set (filter P rs)" by simp
  with x show ?thesis by simp
qed

lemma filter_is_two:
  assumes "p \<in> set rs" "q \<in> set rs" "P p" "P q"
    "map f (filter P rs) = [a, b]" "f p = a" "f q = b" "a \<noteq> b"
  shows "filter P rs = [p, q]"
proof -
  from assms(5) obtain x y where xy: "filter P rs = [x, y]" "f x = a" "f y = b"
    by (cases "filter P rs"; cases "tl (filter P rs)") auto
  from assms(1-4) have "p \<in> set (filter P rs)" "q \<in> set (filter P rs)" by simp_all
  with xy assms(6-8) have "p = x" "q = y" by auto
  with xy show ?thesis by simp
qed

lemma peered_with_hubI:
  assumes "rg \<in> set rs" "vnet \<in> set rs" "p \<in> set rs" "q \<in> set rs"
    "r_type rg = ''azurerm_resource_group''" "r_type vnet = ''azurerm_virtual_network''"
    "length (filter (\<lambda>s. fst s = ''azurerm_resource_group'') (map summary rs)) = 1"
    "length (filter (\<lambda>s. fst s = ''azurerm_virtual_network'') (map summary rs)) = 1"
    "map (\<lambda>r. (r_label r, r_name r)) (filter (\<lambda>r. r_type r = ''azurerm_virtual_network_peering'') rs)
       = [(''spoke_to_hub'', a), (''hub_to_spoke'', b)]"
    "r_label p = ''spoke_to_hub''" "r_name p = a" "r_label q = ''hub_to_spoke''" "r_name q = b"
    "peering_from_to p (r_name rg) (r_name vnet) (ho_hub_vnet_id h)"
    "peering_from_to q (ho_hub_resource_group_name h) (ho_hub_vnet_name h) (resource_id e vnet)"
  shows "peered_with_hub e h rs"
proof -
  have len: "length (filter (\<lambda>r. r_type r = t) rs) = length (filter (\<lambda>s. fst s = t) (map summary rs))" for t
    by (simp add: filter_map comp_def summary_def)
  have 1: "filter (\<lambda>r. r_type r = ''azurerm_resource_group'') rs = [rg]"
    using assms(1,5,7) by (intro filter_is_one) (simp_all add: len)
  have 2: "filter (\<lambda>r. r_type r = ''azurerm_virtual_network'') rs = [vnet]"
    using assms(2,6,8) by (intro filter_is_one) (simp_all add: len)
  have 3: "filter (\<lambda>r. r_type r = ''azurerm_virtual_network_peering'') rs = [p, q]"
    using assms(3,4) assms(14,15) 
    by (intro filter_is_two [where f = "\<lambda>r. (r_label r, r_name r)", OF _ _ _ _ assms(9)])
       (simp_all add: peering_from_to_def assms(10-13))
  show ?thesis
    by (simp add: peered_with_hub_def 1 2 3 assms(14,15))
qed

lemma kv_peered:
  "peered_with_hub e h (keyvault_resources v h e)"
proof (rule peered_with_hubI [where rg = "kv_resource_group_keyvault_spoke v h e"
      and vnet = "kv_virtual_network_keyvault_spoke v h e"
      and p = "kv_virtual_network_peering_spoke_to_hub v h e"
      and q = "kv_virtual_network_peering_hub_to_spoke v h e"])
  show "map (\<lambda>r. (r_label r, r_name r))
     (filter (\<lambda>r. r_type r = ''azurerm_virtual_network_peering'') (keyvault_resources v h e)) =
    [(''spoke_to_hub'', ''peer-keyvault-to-hub''), (''hub_to_spoke'', ''peer-hub-to-keyvault'')]"
    by (rule kv_peerings)
  show "length (filter (\<lambda>s. fst s = ''azurerm_resource_group'') (map summary (keyvault_resources v h e))) = 1"
    unfolding kv_summary by simp
  show "length (filter (\<lambda>s. fst s = ''azurerm_virtual_network'') (map summary (keyvault_resources v h e))) = 1"
    unfolding kv_summary by simp
qed (simp_all add: keyvault_resources_def kv_virtual_network_peering_spoke_to_hub_def
      kv_virtual_network_peering_hub_to_spoke_def kv_resource_group_keyvault_spoke_def
      kv_virtual_network_keyvault_spoke_def
      peering_from_to_def peering_args_def arg_def resource_id_def)

lemma db_peered:
  assumes "database_resources v h kv e = Inr rs"
  shows "peered_with_hub e h rs"
proof (rule peered_with_hubI [where rg = "db_resource_group_database_spoke v h e"
      and vnet = "db_virtual_network_database_spoke v h e"
      and p = "db_virtual_network_peering_spoke_to_hub v h e"
      and q = "db_virtual_network_peering_hub_to_spoke v h e"])
  show "map (\<lambda>r. (r_label r, r_name r))
     (filter (\<lambda>r. r_type r = ''azurerm_virtual_network_peering'') rs) =
    [(''spoke_to_hub'', ''peer-database-to-hub''), (''hub_to_spoke'', ''peer-hub-to-database'')]"
    by (rule db_peerings [OF assms])
  show "length (filter (\<lambda>s. fst s = ''azurerm_resource_group'') (map summary rs)) = 1"
    unfolding db_summary [OF assms] by (simp add: filter_map comp_def)
  show "length (filter (\<lambda>s. fst s = ''azurerm_virtual_network'') (map summary rs)) = 1"
    unfolding db_summary [OF assms] by (simp add: filter_map comp_def)
  show "db_resource_group_database_spoke v h e \<in> set rs"
    "db_virtual_network_database_spoke v h e \<in> set rs"
    "db_virtual_network_peering_spoke_to_hub v h e \<in> set rs"
    "db_virtual_network_peering_hub_to_spoke v h e \<in> set rs"
    using assms by (elim database_resources_Inr; simp)+
qed (simp_all add: db_virtual_network_peering_spoke_to_hub_def
      db_virtual_network_peering_hub_to_spoke_def db_resource_group_database_spoke_def
      db_virtual_network_database_spoke_def
      peering_from_to_def peering_args_def arg_def resource_id_def)

lemma st_peered:
  assumes "storage_resources v h kv e = Inr rs"
  shows "peered_with_hub e h rs"
proof (rule peered_with_hubI [where rg = "st_resource_group_storage_spoke v h e"
      and vnet = "st_virtual_network_storage_spoke v h e"
      and p = "st_virtual_network_peering_spoke_to_hub v h e"
      and q = "st_virtual_network_peering_hub_to_spoke v h e"])
  show "map (\<lambda>r. (r_label r, r_name r))
     (filter (\<lambda>r. r_type r = ''azurerm_virtual_network_peering'') rs) =
    [(''spoke_to_hub'', ''peer-storage-to-hub''), (''hub_to_spoke'', ''peer-hub-to-storage'')]"
    by (rule st_peerings [OF assms])
  show "length (filter (\<lambda>s. fst s = ''azurerm_resource_group'') (map summary rs)) = 1"
    unfolding st_summary [OF assms] by (simp add: filter_map comp_def)
  show "length (filter (\<lambda>s. fst s = ''azurerm_virtual_network'') (map summary rs)) = 1"
    unfolding st_summary [OF assms] by (simp add: filter_map comp_def)
  show "st_resource_group_storage_spoke v h e \<in> set rs"
    "st_virtual_network_storage_spoke v h e \<in> set rs"
    "st_virtual_network_peering_spoke_to_hub v h e \<in> set rs"
    "st_virtual_network_peering_hub_to_spoke v h e \<in> set rs"
    using assms by (elim storage_resources_Inr; simp)+
qed (simp_all add: st_virtual_network_peering_spoke_to_hub_def
      st_virtual_network_peering_hub_to_spoke_def st_resource_group_storage_spoke_def
      st_virtual_network_storage_spoke_def
      peering_from_to_def peering_args_def arg_def resource_id_def)

text \<open>
  C6. Every spoke that plans successfully declares exactly two peering records, the
  spoke-to-hub and the hub-to-spoke direction. Their names are constants of the
  spoke's role: they are the same for all variables, hub outputs and random suffixes,
  so every run of a spoke creates the same two distinct peering names. The two records
  are one bidirectional peering with the hub that the run reads: the plan has one
  resource group and one virtual network, \<open>spoke_to_hub\<close> is declared on that network
  and points to the virtual network of the hub, and \<open>hub_to_spoke\<close> is declared on the
  virtual network of the hub, in the resource group of the hub, and points to the
  virtual network of the plan.
\<close>

theorem C6_peering_names:
  "(keyvault_plan kv e1 = Inr rs1 \<longrightarrow>
      map (\<lambda>r. (r_label r, r_name r))
        (filter (\<lambda>r. r_type r = ''azurerm_virtual_network_peering'') rs1) =
      [(''spoke_to_hub'', ''peer-keyvault-to-hub''), (''hub_to_spoke'', ''peer-hub-to-keyvault'')] \<and>
      (\<exists>h. hub_state_at e1 (kv_hub_state_path kv) = Some h \<and> peered_with_hub e1 h rs1)) \<and>
   (database_plan db e2 = Inr rs2 \<longrightarrow>
      map (\<lambda>r. (r_label r, r_name r))
        (filter (\<lambda>r. r_type r = ''azurerm_virtual_network_peering'') rs2) =
      [(''spoke_to_hub'', ''peer-database-to-hub''), (''hub_to_spoke'', ''peer-hub-to-database'')] \<and>
      (\<exists>h. hub_state_at e2 (db_hub_state_path db) = Some h \<and> peered_with_hub e2 h rs2)) \<and>
   (storage_plan st e3 = Inr rs3 \<longrightarrow>
      map (\<lambda>r. (r_label r, r_name r))
        (filter (\<lambda>r. r_type r = ''azurerm_virtual_network_peering'') rs3) =
      [(''spoke_to_hub'', ''peer-storage-to-hub''), (''hub_to_spoke'', ''peer-hub-to-storage'')] \<and>
      (\<exists>h. hub_state_at e3 (st_hub_state_path st) = Some h \<and> peered_with_hub e3 h rs3))"
proof (intro conjI impI)
  assume "keyvault_plan kv e1 = Inr rs1"
  then obtain h where h: "hub_state_at e1 (kv_hub_state_path kv) = Some h"
    "rs1 = keyvault_resources kv h e1"
    by (rule keyvault_plan_Inr)
  show "map (\<lambda>r. (r_label r, r_name r))
        (filter (\<lambda>r. r_type r = ''azurerm_virtual_network_peering'') rs1) =
      [(''spoke_to_hub'', ''peer-keyvault-to-hub''), (''hub_to_spoke'', ''peer-hub-to-keyvault'')]"
    unfolding h(2) by (rule kv_peerings)
  show "\<exists>h. hub_state_at e1 (kv_hub_state_path kv) = Some h \<and> peered_with_hub e1 h rs1"
    using h kv_peered by blast
next
  assume "database_plan db e2 = Inr rs2"
  then obtain h k where h: "hub_state_at e2 (db_hub_state_path db) = Some h"
    "database_resources db h k e2 = Inr rs2"
    by (rule database_plan_Inr)
  show "map (\<lambda>r. (r_label r, r_name r))
        (filter (\<lambda>r. r_type r = ''azurerm_virtual_network_peering'') rs2) =
      [(''spoke_to_hub'', ''peer-database-to-hub''), (''hub_to_spoke'', ''peer-hub-to-database'')]"
    by (rule db_peerings [OF h(2)])
  show "\<exists>h. hub_state_at e2 (db_hub_state_path db) = Some h \<and> peered_with_hub e2 h rs2"
    using h(1) db_peered [OF h(2)] by blast
next
  assume "storage_plan st e3 = Inr rs3"
  then obtain h k where h: "hub_state_at e3 (st_hub_state_path st) = Some h"
    "storage_resources st h k e3 = Inr rs3"
    by (rule storage_plan_Inr)
  show "map (\<lambda>r. (r_label r, r_name r))
        (filter (\<lambda>r. r_type r = ''azurerm_virtual_network_peering'') rs3) =
      [(''spoke_to_hub'', ''peer-storage-to-hub''), (''hub_to_spoke'', ''peer-hub-to-storage'')]"
    by (rule st_peerings [OF h(2)])
  show "\<exists>h. hub_state_at e3 (st_hub_state_path st) = Some h \<and> peered_with_hub e3 h rs3"
    using h(1) st_peered [OF h(2)] by blast
qed

text \<open>
  Runs of each spoke that differ in the random suffix create the same peering names,
  and each plan is peered with the example hub in both directions.
\<close>

theorem C6_peering_names_witness:
  "map (\<lambda>r. (r_label r, r_name r))
     (filter (\<lambda>r. r_type r = ''azurerm_virtual_network_peering'')
        (created (keyvault_plan keyvault_defaults example_env))) =
   [(''spoke_to_hub'', ''peer-keyvault-to-hub''), (''hub_to_spoke'', ''peer-hub-to-keyvault'')] \<and>
   peered_with_hub example_env example_hub
     (created (keyvault_plan keyvault_defaults example_env)) \<and>
   map (\<lambda>r. (r_label r, r_name r))
     (filter (\<lambda>r. r_type r = ''azurerm_virtual_network_peering'')
        (created (database_plan database_defaults
           (example_env \<lparr> random_string_suffix_result := ''zz99yy88'' \<rparr>)))) =
   [(''spoke_to_hub'', ''peer-database-to-hub''), (''hub_to_spoke'', ''peer-hub-to-database'')] \<and>
   peered_with_hub (example_env \<lparr> random_string_suffix_result := ''zz99yy88'' \<rparr>) example_hub
     (created (database_plan database_defaults
        (example_env \<lparr> random_string_suffix_result := ''zz99yy88'' \<rparr>))) \<and>
   map (\<lambda>r. (r_label r, r_name r))
     (filter (\<lambda>r. r_type r = ''azurerm_virtual_network_peering'')
        (created (storage_plan (storage_defaults \<lparr> st_store_connection_string_in_keyvault := False \<rparr>)
           example_env))) =
   [(''spoke_to_hub'', ''peer-storage-to-hub''), (''hub_to_spoke'', ''peer-hub-to-storage'')] \<and>
   peered_with_hub example_env example_hub
     (created (storage_plan (storage_defaults \<lparr> st_store_connection_string_in_keyvault := False \<rparr>)
        example_env))"
proof -
  let ?e = "example_env \<lparr> random_string_suffix_result := ''zz99yy88'' \<rparr>"
  let ?st = "storage_defaults \<lparr> st_store_connection_string_in_keyvault := False \<rparr>"
  obtain rs1 where 1: "keyvault_plan keyvault_defaults example_env = Inr rs1"
    using example_keyvault_plan by simp
  have hub: "hub_state_at ?e (db_hub_state_path database_defaults) = Some example_hub"
    "hub_state_at example_env (st_hub_state_path ?st) = Some example_hub"
    "hub_state_at example_env (kv_hub_state_path keyvault_defaults) = Some example_hub"
    using example_facts(4,7) example_facts by simp_all
  have off: "\<not> db_store_password_in_keyvault database_defaults"
    "\<not> st_store_connection_string_in_keyvault ?st"
    by (simp_all add: database_defaults_def)
  obtain rs2 where 2: "database_plan database_defaults ?e = Inr rs2"
    using database_plan_ok [OF example_facts(1) hub(1) example_facts(10)] off(1) by blast
  have val: "storage_validation ?st = []"
    using example_facts(11) by (simp add: storage_validation_def storage_address_validation_def)
  obtain rs3 where 3: "storage_plan ?st example_env = Inr rs3"
    using storage_plan_ok [OF hub(2) _ val] off(2) by blast
  show ?thesis
    using C6_peering_names [of keyvault_defaults example_env rs1 database_defaults ?e rs2
        ?st example_env rs3]
    by (simp add: 1 2 3 created_def example_facts(4,6,7))
qed

subsection \<open>The random suffix in resource names (C7)\<close>

lemma ends_with_suffix: "suffix s (p @ env @ sep @ s)" "suffix s (p @ env @ s)"
proof -
  have "p @ env @ sep @ s = (p @ env @ sep) @ s" "p @ env @ s = (p @ env) @ s"
    by simp_all
  then show "suffix s (p @ env @ sep @ s)" "suffix s (p @ env @ s)"
    unfolding suffix_def by blast+
qed

lemma contains_environment: "sublist env (p @ env @ rest)"
  unfolding sublist_def by blast

lemma kv_names:
  assumes "r \<in> set (keyvault_resources v h e)"
  shows "(r_type r \<in> set named_with_suffix \<longrightarrow>
            suffix (random_string_suffix_result e) (r_name r) \<and>
            sublist (ho_environment h) (r_name r)) \<and>
         (r_type r \<in> set named_by_role \<longrightarrow>
            r_name r \<in> set [''snet-keyvault'', ''peer-keyvault-to-hub'',
              ''peer-hub-to-keyvault'', ''keyvault-spoke-link''])"
proof -
  have "\<forall>s \<in> set (map summary (keyvault_resources v h e)).
     (fst s \<in> set named_with_suffix \<longrightarrow>
            suffix (random_string_suffix_result e) (fst (snd (snd s))) \<and>
            sublist (ho_environment h) (fst (snd (snd s)))) \<and>
         (fst s \<in> set named_by_role \<longrightarrow>
            fst (snd (snd s)) \<in> set [''snet-keyvault'', ''peer-keyvault-to-hub'',
              ''peer-hub-to-keyvault'', ''keyvault-spoke-link''])"
    unfolding kv_summary
    by (simp add: named_with_suffix_def named_by_role_def ends_with_suffix contains_environment
        ball_Un del: append.simps)
  with assms show ?thesis
    by (simp add: r_type_summary r_name_summary)
qed

lemma db_names:
  assumes "database_resources v h kv e = Inr rs" "r \<in> set rs"
  shows "(r_type r \<in> set named_with_suffix \<longrightarrow>
            suffix (random_string_suffix_result e) (r_name r) \<and>
            sublist (ho_environment h) (r_name r)) \<and>
         (r_type r \<in> set named_by_role \<longrightarrow>
            r_name r \<in> set [''snet-database'', ''peer-database-to-hub'',
              ''peer-hub-to-database'', ''database-spoke-link''])"
proof -
  have "\<forall>s \<in> set (map summary rs).
     (fst s \<in> set named_with_suffix \<longrightarrow>
            suffix (random_string_suffix_result e) (fst (snd (snd s))) \<and>
            sublist (ho_environment h) (fst (snd (snd s)))) \<and>
         (fst s \<in> set named_by_role \<longrightarrow>
            fst (snd (snd s)) \<in> set [''snet-database'', ''peer-database-to-hub'',
              ''peer-hub-to-database'', ''database-spoke-link''])"
    unfolding db_summary [OF assms(1)]
    by (cases "db_store_password_in_keyvault v")
       (simp_all add: named_with_suffix_def named_by_role_def ends_with_suffix
         contains_environment ball_Un del: append.simps)
  with assms(2) show ?thesis
    by (simp add: r_type_summary r_name_summary)
qed

lemma st_names:
  assumes "storage_resources v h kv e = Inr rs" "r \<in> set rs"
  shows "(r_type r \<in> set named_with_suffix \<longrightarrow>
            suffix (random_string_suffix_result e) (r_name r) \<and>
            sublist (ho_environment h) (r_name r)) \<and>
         (r_type r \<in> set named_by_role \<longrightarrow>
            r_name r \<in> set [''snet-storage'', ''peer-storage-to-hub'',
              ''peer-hub-to-storage'', ''storage-spoke-link''])"
proof -
  have "\<forall>s \<in> set (map summary rs).
     (fst s \<in> set named_with_suffix \<longrightarrow>
            suffix (random_string_suffix_result e) (fst (snd (snd s))) \<and>
            sublist (ho_environment h) (fst (snd (snd s)))) \<and>
         (fst s \<in> set named_by_role \<longrightarrow>
            fst (snd (snd s)) \<in> set [''snet-storage'', ''peer-storage-to-hub'',
              ''peer-hub-to-storage'', ''storage-spoke-link''])"
    unfolding st_summary [OF assms(1)]
    by (cases "st_store_connection_string_in_keyvault v")
       (simp_all add: named_with_suffix_def named_by_role_def ends_with_suffix
         contains_environment ball_Un del: append.simps)
  with assms(2) show ?thesis
    by (simp add: r_type_summary r_name_summary)
qed

text \<open>
  C7, refuted: the subnet of the Database spoke is a resource of the plan, and its
  name \<open>snet-database\<close> holds neither the environment nor the random suffix.
\<close>

theorem C7_subnet_name_counterexample:
  "db_subnet_database database_defaults example_hub example_env
     \<in> set (created (database_plan database_defaults example_env)) \<and>
   r_name (db_subnet_database database_defaults example_hub example_env) = ''snet-database'' \<and>
   random_string_suffix_result example_env = ''ab12cd34'' \<and>
   ho_environment example_hub = ''dev'' \<and>
   \<not> sublist ''ab12cd34'' ''snet-database'' \<and>
   \<not> sublist ''dev'' ''snet-database''"
proof -
  have 1: "\<not> db_store_password_in_keyvault database_defaults"
    by (simp add: database_defaults_def)
  obtain rs where rs: "database_plan database_defaults example_env = Inr rs"
    using database_plan_ok [OF example_facts(1) example_facts(4) example_facts(10)] 1 by auto
  have mem: "db_subnet_database database_defaults example_hub example_env \<in> set rs"
    using rs by (elim database_plan_Inr database_resources_Inr) (simp add: example_facts(4))
  have ns: "\<not> sublist ''ab12cd34'' ''snet-database''" "\<not> sublist ''dev'' ''snet-database''"
    by (simp_all add: sublist_Cons_right)
  have nm: "r_name (db_subnet_database database_defaults example_hub example_env) =
      ''snet-database''"
    by (simp add: db_subnet_database_def)
  have sfx: "random_string_suffix_result example_env = ''ab12cd34''"
    by (simp add: example_env_def)
  have envh: "ho_environment example_hub = ''dev''"
    by (simp add: example_hub_def hub_output_bundle_def hub_defaults_def)
  have c: "created (database_plan database_defaults example_env) = rs"
    by (simp add: rs created_def)
  from mem nm sfx envh ns show ?thesis
    unfolding c by blast
qed

text \<open>
  C7, amended. A spoke has one random suffix, \<open>random_string.suffix.result\<close>. In a
  planned spoke, the name of every resource group, virtual network, network security
  group, domain resource, private endpoint and diagnostic setting contains the
  environment of the hub and ends in that one suffix. The names of the subnet, the
  two peerings and the DNS zone link are constants of the spoke's role.
\<close>

theorem C7_suffix_in_names:
  "(keyvault_plan kv e = Inr rs \<and> hub_state_at e (kv_hub_state_path kv) = Some h \<and> r \<in> set rs \<longrightarrow>
      (r_type r \<in> set named_with_suffix \<longrightarrow>
         suffix (random_string_suffix_result e) (r_name r) \<and>
         sublist (ho_environment h) (r_name r)) \<and>
      (r_type r \<in> set named_by_role \<longrightarrow>
         r_name r \<in> set [''snet-keyvault'', ''peer-keyvault-to-hub'',
           ''peer-hub-to-keyvault'', ''keyvault-spoke-link''])) \<and>
   (database_plan db e = Inr rs \<and> hub_state_at e (db_hub_state_path db) = Some h \<and> r \<in> set rs \<longrightarrow>
      (r_type r \<in> set named_with_suffix \<longrightarrow>
         suffix (random_string_suffix_result e) (r_name r) \<and>
         sublist (ho_environment h) (r_name r)) \<and>
      (r_type r \<in> set named_by_role \<longrightarrow>
         r_name r \<in> set [''snet-database'', ''peer-database-to-hub'',
           ''peer-hub-to-database'', ''database-spoke-link''])) \<and>
   (storage_plan st e = Inr rs \<and> hub_state_at e (st_hub_state_path st) = Some h \<and> r \<in> set rs \<longrightarrow>
      (r_type r \<in> set named_with_suffix \<longrightarrow>
         suffix (random_string_suffix_result e) (r_name r) \<and>
         sublist (ho_environment h) (r_name r)) \<and>
      (r_type r \<in> set named_by_role \<longrightarrow>
         r_name r \<in> set [''snet-storage'', ''peer-storage-to-hub'',
           ''peer-hub-to-storage'', ''storage-spoke-link'']))"
proof (intro conjI)
  show "keyvault_plan kv e = Inr rs \<and> hub_state_at e (kv_hub_state_path kv) = Some h \<and> r \<in> set rs \<longrightarrow>
      (r_type r \<in> set named_with_suffix \<longrightarrow>
         suffix (random_string_suffix_result e) (r_name r) \<and>
         sublist (ho_environment h) (r_name r)) \<and>
      (r_type r \<in> set named_by_role \<longrightarrow>
         r_name r \<in> set [''snet-keyvault'', ''peer-keyvault-to-hub'',
           ''peer-hub-to-keyvault'', ''keyvault-spoke-link''])"
  proof
    assume a: "keyvault_plan kv e = Inr rs \<and> hub_state_at e (kv_hub_state_path kv) = Some h \<and>
      r \<in> set rs"
    then have "r \<in> set (keyvault_resources kv h e)"
      by (elim conjE keyvault_plan_Inr) simp
    then show "(r_type r \<in> set named_with_suffix \<longrightarrow>
         suffix (random_string_suffix_result e) (r_name r) \<and>
         sublist (ho_environment h) (r_name r)) \<and>
      (r_type r \<in> set named_by_role \<longrightarrow>
         r_name r \<in> set [''snet-keyvault'', ''peer-keyvault-to-hub'',
           ''peer-hub-to-keyvault'', ''keyvault-spoke-link''])"
      by (rule kv_names)
  qed
  show "database_plan db e = Inr rs \<and> hub_state_at e (db_hub_state_path db) = Some h \<and> r \<in> set rs \<longrightarrow>
      (r_type r \<in> set named_with_suffix \<longrightarrow>
         suffix (random_string_suffix_result e) (r_name r) \<and>
         sublist (ho_environment h) (r_name r)) \<and>
      (r_type r \<in> set named_by_role \<longrightarrow>
         r_name r \<in> set [''snet-database'', ''peer-database-to-hub'',
           ''peer-hub-to-database'', ''database-spoke-link''])"
  proof
    assume a: "database_plan db e = Inr rs \<and> hub_state_at e (db_hub_state_path db) = Some h \<and>
      r \<in> set rs"
    then obtain kvs where "database_resources db h kvs e = Inr rs"
      by (elim conjE database_plan_Inr) simp
    from db_names [OF this] a
    show "(r_type r \<in> set named_with_suffix \<longrightarrow>
         suffix (random_string_suffix_result e) (r_name r) \<and>
         sublist (ho_environment h) (r_name r)) \<and>
      (r_type r \<in> set named_by_role \<longrightarrow>
         r_name r \<in> set [''snet-database'', ''peer-database-to-hub'',
           ''peer-hub-to-database'', ''database-spoke-link''])"
      by blast
  qed
  show "storage_plan st e = Inr rs \<and> hub_state_at e (st_hub_state_path st) = Some h \<and> r \<in> set rs \<longrightarrow>
      (r_type r \<in> set named_with_suffix \<longrightarrow>
         suffix (random_string_suffix_result e) (r_name r) \<and>
         sublist (ho_environment h) (r_name r)) \<and>
      (r_type r \<in> set named_by_role \<longrightarrow>
         r_name r \<in> set [''snet-storage'', ''peer-storage-to-hub'',
           ''peer-hub-to-storage'', ''storage-spoke-link''])"
  proof
    assume a: "storage_plan st e = Inr rs \<and> hub_state_at e (st_hub_state_path st) = Some h \<and>
      r \<in> set rs"
    then obtain kvs where "storage_resources st h kvs e = Inr rs"
      by (elim conjE storage_plan_Inr) simp
    from st_names [OF this] a
    show "(r_type r \<in> set named_with_suffix \<longrightarrow>
         suffix (random_string_suffix_result e) (r_name r) \<and>
         sublist (ho_environment h) (r_name r)) \<and>
      (r_type r \<in> set named_by_role \<longrightarrow>
         r_name r \<in> set [''snet-storage'', ''peer-storage-to-hub'',
           ''peer-hub-to-storage'', ''storage-spoke-link''])"
      by blast
  qed
qed

text \<open>
  The storage account of the default Storage spoke is named \<open>stguiworlddevab12cd34\<close>:
  it contains the environment \<open>dev\<close> and ends in the suffix \<open>ab12cd34\<close>.
\<close>

theorem C7_suffix_in_names_witness:
  "st_storage_account_main storage_defaults example_hub example_env
     \<in> set (created (storage_plan storage_defaults example_env)) \<and>
   r_type (st_storage_account_main storage_defaults example_hub example_env)
     \<in> set named_with_suffix \<and>
   r_name (st_storage_account_main storage_defaults example_hub example_env) =
     ''stguiworlddevab12cd34'' \<and>
   suffix (random_string_suffix_result example_env)
     (r_name (st_storage_account_main storage_defaults example_hub example_env)) \<and>
   sublist (ho_environment example_hub)
     (r_name (st_storage_account_main storage_defaults example_hub example_env))"
proof -
  obtain rs where rs: "storage_plan storage_defaults example_env = Inr rs"
    using storage_plan_ok [OF example_facts(7) _ example_facts(11)] example_facts(9) by blast
  have mem: "st_storage_account_main storage_defaults example_hub example_env \<in> set rs"
    using rs by (elim storage_plan_Inr storage_resources_Inr) (simp add: example_facts(7))
  have ty: "r_type (st_storage_account_main storage_defaults example_hub example_env)
     \<in> set named_with_suffix"
    by (simp add: st_storage_account_main_def named_with_suffix_def)
  have nm: "r_name (st_storage_account_main storage_defaults example_hub example_env) =
     ''stguiworlddevab12cd34''"
    by (simp add: st_storage_account_main_def example_env_def example_hub_def
        hub_output_bundle_def hub_defaults_def)
  from C7_suffix_in_names [of _ example_env rs example_hub
      "st_storage_account_main storage_defaults example_hub example_env" _ storage_defaults]
    rs example_facts(7) mem ty
  have "suffix (random_string_suffix_result example_env)
     (r_name (st_storage_account_main storage_defaults example_hub example_env)) \<and>
   sublist (ho_environment example_hub)
     (r_name (st_storage_account_main storage_defaults example_hub example_env))"
    by blast
  moreover have "created (storage_plan storage_defaults example_env) = rs"
    by (simp add: rs created_def)
  ultimately show ?thesis
    using mem ty nm by blast
qed

subsection \<open>Tags (C8)\<close>

lemma kv_tagged:
  assumes "r \<in> set (keyvault_resources v h e)"
  shows "r_tags r = None \<or> r_tags r = Some (kv_spoke_tags v h)"
proof -
  from assms have "summary r \<in> set (map summary (keyvault_resources v h e))"
    by simp
  then show ?thesis
    unfolding kv_summary r_tags_summary by (auto split: if_splits)
qed

lemma db_tagged:
  assumes "database_resources v h kv e = Inr rs" "r \<in> set rs"
  shows "r_tags r = None \<or> r_tags r = Some (db_spoke_tags v h)"
proof -
  from assms have "summary r \<in> set (map summary rs)"
    by simp
  then show ?thesis
    unfolding db_summary [OF assms(1)] r_tags_summary by (auto split: if_splits)
qed

lemma st_tagged:
  assumes "storage_resources v h kv e = Inr rs" "r \<in> set rs"
  shows "r_tags r = None \<or> r_tags r = Some (st_spoke_tags v h)"
proof -
  from assms have "summary r \<in> set (map summary rs)"
    by simp
  then show ?thesis
    unfolding st_summary [OF assms(1)] r_tags_summary by (auto split: if_splits)
qed

text \<open>
  C8. The tags of a spoke are the hub's tags, overridden by the spoke's own
  \<open>Component\<close> and \<open>Region\<close>, overridden by the caller's additional tags: a key is
  looked up in the additional tags first, then in the spoke's two tags, then in the
  hub's. Every resource of a planned spoke that takes tags takes exactly these.
\<close>

theorem C8_spoke_tags_merge:
  "kv_spoke_tags kv h k =
     (case kv_additional_tags kv k of Some x \<Rightarrow> Some x
      | None \<Rightarrow> if k = ''Component'' then Some ''KeyVault-Spoke''
                else if k = ''Region'' then Some (kv_spoke_location kv)
                else ho_common_tags h k) \<and>
   db_spoke_tags db h k =
     (case db_additional_tags db k of Some x \<Rightarrow> Some x
      | None \<Rightarrow> if k = ''Component'' then Some ''Database-Spoke''
                else if k = ''Region'' then Some (db_spoke_location db)
                else ho_common_tags h k) \<and>
   st_spoke_tags st h k =
     (case st_additional_tags st k of Some x \<Rightarrow> Some x
      | None \<Rightarrow> if k = ''Component'' then Some ''Storage-Spoke''
                else if k = ''Region'' then Some (st_spoke_location st)
                else ho_common_tags h k) \<and>
   (keyvault_plan kv e = Inr rs \<and> hub_state_at e (kv_hub_state_path kv) = Some h \<and> r \<in> set rs \<longrightarrow>
      r_tags r = None \<or> r_tags r = Some (kv_spoke_tags kv h)) \<and>
   (database_plan db e = Inr rs \<and> hub_state_at e (db_hub_state_path db) = Some h \<and> r \<in> set rs \<longrightarrow>
      r_tags r = None \<or> r_tags r = Some (db_spoke_tags db h)) \<and>
   (storage_plan st e = Inr rs \<and> hub_state_at e (st_hub_state_path st) = Some h \<and> r \<in> set rs \<longrightarrow>
      r_tags r = None \<or> r_tags r = Some (st_spoke_tags st h))"
proof (intro conjI impI)
  show "kv_spoke_tags kv h k =
     (case kv_additional_tags kv k of Some x \<Rightarrow> Some x
      | None \<Rightarrow> if k = ''Component'' then Some ''KeyVault-Spoke''
                else if k = ''Region'' then Some (kv_spoke_location kv)
                else ho_common_tags h k)"
    by (simp add: kv_spoke_tags_def merge3 map_add_def split: option.splits)
  show "db_spoke_tags db h k =
     (case db_additional_tags db k of Some x \<Rightarrow> Some x
      | None \<Rightarrow> if k = ''Component'' then Some ''Database-Spoke''
                else if k = ''Region'' then Some (db_spoke_location db)
                else ho_common_tags h k)"
    by (simp add: db_spoke_tags_def merge3 map_add_def split: option.splits)
  show "st_spoke_tags st h k =
     (case st_additional_tags st k of Some x \<Rightarrow> Some x
      | None \<Rightarrow> if k = ''Component'' then Some ''Storage-Spoke''
                else if k = ''Region'' then Some (st_spoke_location st)
                else ho_common_tags h k)"
    by (simp add: st_spoke_tags_def merge3 map_add_def split: option.splits)
next
  assume "keyvault_plan kv e = Inr rs \<and> hub_state_at e (kv_hub_state_path kv) = Some h \<and> r \<in> set rs"
  then show "r_tags r = None \<or> r_tags r = Some (kv_spoke_tags kv h)"
    by (elim conjE keyvault_plan_Inr) (simp add: kv_tagged)
next
  assume "database_plan db e = Inr rs \<and> hub_state_at e (db_hub_state_path db) = Some h \<and> r \<in> set rs"
  then show "r_tags r = None \<or> r_tags r = Some (db_spoke_tags db h)"
    by (elim conjE database_plan_Inr) (simp add: db_tagged)
next
  assume "storage_plan st e = Inr rs \<and> hub_state_at e (st_hub_state_path st) = Some h \<and> r \<in> set rs"
  then show "r_tags r = None \<or> r_tags r = Some (st_spoke_tags st h)"
    by (elim conjE storage_plan_Inr) (simp add: st_tagged)
qed

text \<open>
  The variable file of the Database spoke sets the additional tag \<open>Region = "EastUS"\<close>,
  which replaces the spoke's \<open>Region = "East US"\<close>; the spoke's \<open>Component\<close> replaces the
  hub's; the hub's \<open>Project\<close> is kept.
\<close>

theorem C8_spoke_tags_merge_witness:
  "db_spoke_tags database_tfvars example_hub ''Region'' = Some ''EastUS'' \<and>
   db_spoke_tags database_tfvars example_hub ''Component'' = Some ''Database-Spoke'' \<and>
   ho_common_tags example_hub ''Component'' = Some ''Hub'' \<and>
   db_spoke_tags database_tfvars example_hub ''Project'' = Some ''GuiWorld'' \<and>
   db_resource_group_database_spoke database_tfvars example_hub example_env
     \<in> set (created (database_plan database_tfvars example_env)) \<and>
   r_tags (db_resource_group_database_spoke database_tfvars example_hub example_env) =
     Some (db_spoke_tags database_tfvars example_hub)"
proof -
  obtain rs where rs: "database_plan database_tfvars example_env = Inr rs"
    using database_plan_ok [OF example_facts(2) example_facts(5) example_facts(10)]
    by (auto simp: database_tfvars_def database_defaults_def)
  have mem: "db_resource_group_database_spoke database_tfvars example_hub example_env \<in> set rs"
    using rs by (elim database_plan_Inr database_resources_Inr) (simp add: example_facts)
  have hub: "ho_common_tags example_hub ''Component'' = Some ''Hub''"
    "ho_common_tags example_hub ''Project'' = Some ''GuiWorld''"
    "ho_common_tags example_hub ''Region'' = None"
    by (simp_all add: example_hub_def hub_output_bundle_def hub_common_tags_def merge2
        hub_defaults_def)
  have add: "db_additional_tags database_tfvars ''Region'' = Some ''EastUS''"
    "db_additional_tags database_tfvars ''Component'' = None"
    "db_additional_tags database_tfvars ''Project'' = None"
    by (simp_all add: database_tfvars_def)
  have some: "r_tags (db_resource_group_database_spoke database_tfvars example_hub example_env) \<noteq> None"
    by (simp add: db_resource_group_database_spoke_def)
  note inst = C8_spoke_tags_merge [of keyvault_defaults example_hub _ database_tfvars
      storage_defaults example_env rs
      "db_resource_group_database_spoke database_tfvars example_hub example_env"]
  have "r_tags (db_resource_group_database_spoke database_tfvars example_hub example_env) =
     Some (db_spoke_tags database_tfvars example_hub)"
    using inst [of "''Region''"] mem some by (simp add: rs example_facts)
  then show ?thesis
    using inst [of "''Region''"] inst [of "''Component''"] inst [of "''Project''"] mem
    by (simp add: rs created_def hub add)
qed

subsection \<open>One password (C9)\<close>



text \<open>
  The \<open>validation\<close> of \<open>database_admin_password\<close> admits the empty password only: its
  pattern does not compile, so a run with a password supplied ends in the error of
  this rule, or of an earlier one, with nothing created.
\<close>

lemma supplied_password_ends_run:
  assumes "db_database_admin_password v \<noteq> []"
  shows "isl (database_plan v e)"
proof -
  have "database_validation v \<noteq> []"
    using assms
    by (simp add: database_validation_def validation_def can_regex_def patterns_compile)
  then show ?thesis
    by (cases "database_validation v") (simp_all add: database_plan_def)
qed



subsection \<open>Private endpoints of the Storage spoke (C10)\<close>

lemma st_endpoint_counts:
  assumes "storage_resources v h kv e = Inr rs"
  shows "length (filter (\<lambda>r. r_type r = ''azurerm_private_endpoint'' \<and> r_label r = ''storage_blob'') rs) =
           (if st_allow_public_access v then 0 else 1) \<and>
         length (filter (\<lambda>r. r_type r = ''azurerm_private_endpoint'' \<and> r_label r = ''storage_file'') rs) =
           (if st_allow_public_access v \<or> st_file_shares v = [] then 0 else 1)"
proof -
  have "length (filter (\<lambda>r. r_type r = ''azurerm_private_endpoint'' \<and> r_label r = l) rs) =
      length (map id (filter (\<lambda>s. fst s = ''azurerm_private_endpoint'' \<and> fst (snd s) = l)
        (map summary rs)))" for l
    unfolding r_type_summary r_label_summary
    by (simp add: filter_map comp_def)
  then show ?thesis
    unfolding st_summary [OF assms]
    by (simp add: filter_map comp_def)
qed

text \<open>
  C10. The blob private endpoint has one instance when \<open>allow_public_access\<close> is false
  and none otherwise. The file private endpoint has one instance when
  \<open>allow_public_access\<close> is false and \<open>file_shares\<close> is not empty, and none otherwise; so
  with no file share there is no file private endpoint even without public access.
  Each output is \<open>null\<close> exactly when its endpoint has no instance, and is the
  identifier of instance 0 otherwise; evaluating it never fails. The resources of a
  planned Storage spoke hold exactly these instances.
\<close>

theorem C10_storage_private_endpoints:
  "length (st_private_endpoint_storage_blob v h e) = (if st_allow_public_access v then 0 else 1) \<and>
   length (st_private_endpoint_storage_file v h e) =
     (if \<not> st_allow_public_access v \<and> st_file_shares v \<noteq> [] then 1 else 0) \<and>
   (st_file_shares v = [] \<longrightarrow>
      st_private_endpoint_storage_file v h e = [] \<and>
      output_storage_file_private_endpoint_id v h e = Inr Null) \<and>
   output_storage_blob_private_endpoint_id v h e =
     (if st_private_endpoint_storage_blob v h e = [] then Inr Null
      else Inr (Str (computed e ''azurerm_private_endpoint.storage_blob[0].id''))) \<and>
   output_storage_file_private_endpoint_id v h e =
     (if st_private_endpoint_storage_file v h e = [] then Inr Null
      else Inr (Str (computed e ''azurerm_private_endpoint.storage_file[0].id''))) \<and>
   (storage_plan v e = Inr rs \<longrightarrow>
      length (filter (\<lambda>r. r_type r = ''azurerm_private_endpoint'' \<and> r_label r = ''storage_blob'') rs) =
        (if st_allow_public_access v then 0 else 1) \<and>
      length (filter (\<lambda>r. r_type r = ''azurerm_private_endpoint'' \<and> r_label r = ''storage_file'') rs) =
        (if \<not> st_allow_public_access v \<and> st_file_shares v \<noteq> [] then 1 else 0))"
proof (intro conjI impI)
  show "length (st_private_endpoint_storage_blob v h e) = (if st_allow_public_access v then 0 else 1)"
    by (simp add: st_private_endpoint_storage_blob_def)
  show "length (st_private_endpoint_storage_file v h e) =
     (if \<not> st_allow_public_access v \<and> st_file_shares v \<noteq> [] then 1 else 0)"
    by (simp add: st_private_endpoint_storage_file_def)
  show "output_storage_blob_private_endpoint_id v h e =
     (if st_private_endpoint_storage_blob v h e = [] then Inr Null
      else Inr (Str (computed e ''azurerm_private_endpoint.storage_blob[0].id'')))"
    by (simp add: output_storage_blob_private_endpoint_id_def st_private_endpoint_storage_blob_def
        index0_def)
  show "output_storage_file_private_endpoint_id v h e =
     (if st_private_endpoint_storage_file v h e = [] then Inr Null
      else Inr (Str (computed e ''azurerm_private_endpoint.storage_file[0].id'')))"
    by (simp add: output_storage_file_private_endpoint_id_def st_private_endpoint_storage_file_def
        index0_def)
next
  assume "st_file_shares v = []"
  then show "st_private_endpoint_storage_file v h e = []"
    "output_storage_file_private_endpoint_id v h e = Inr Null"
    by (simp_all add: output_storage_file_private_endpoint_id_def
        st_private_endpoint_storage_file_def)
next
  assume "storage_plan v e = Inr rs"
  then obtain h' kv where "storage_resources v h' kv e = Inr rs"
    by (elim storage_plan_Inr)
  from st_endpoint_counts [OF this]
  show "length (filter (\<lambda>r. r_type r = ''azurerm_private_endpoint'' \<and> r_label r = ''storage_blob'') rs) =
        (if st_allow_public_access v then 0 else 1)"
    "length (filter (\<lambda>r. r_type r = ''azurerm_private_endpoint'' \<and> r_label r = ''storage_file'') rs) =
        (if \<not> st_allow_public_access v \<and> st_file_shares v \<noteq> [] then 1 else 0)"
    by auto
qed

text \<open>
  The default variables with no file share: public access is off, there is one blob
  endpoint and no file endpoint, and the file output is \<open>null\<close>.
\<close>

theorem C10_storage_private_endpoints_witness:
  "\<not> st_allow_public_access (storage_defaults \<lparr> st_file_shares := [] \<rparr>) \<and>
   length (filter (\<lambda>r. r_type r = ''azurerm_private_endpoint'' \<and> r_label r = ''storage_blob'')
     (created (storage_plan (storage_defaults \<lparr> st_file_shares := [] \<rparr>) example_env))) = 1 \<and>
   length (filter (\<lambda>r. r_type r = ''azurerm_private_endpoint'' \<and> r_label r = ''storage_file'')
     (created (storage_plan (storage_defaults \<lparr> st_file_shares := [] \<rparr>) example_env))) = 0 \<and>
   length (filter (\<lambda>r. r_type r = ''azurerm_private_endpoint'' \<and> r_label r = ''storage_file'')
     (created (storage_plan storage_defaults example_env))) = 1 \<and>
   output_storage_file_private_endpoint_id (storage_defaults \<lparr> st_file_shares := [] \<rparr>)
     example_hub example_env = Inr Null \<and>
   output_storage_blob_private_endpoint_id (storage_defaults \<lparr> st_file_shares := [] \<rparr>)
     example_hub example_env = Inr (Str ''/id/azurerm_private_endpoint.storage_blob[0].id'')"
proof -
  let ?v = "storage_defaults \<lparr> st_file_shares := [] \<rparr>"
  have hub: "hub_state_at example_env (st_hub_state_path ?v) = Some example_hub"
    using example_facts(7) by simp
  have kv: "keyvault_state_at example_env (st_keyvault_state_path ?v) \<noteq> None"
    using example_facts(9) by simp
  have val: "storage_validation ?v = []"
    using example_facts(11) by (simp add: storage_validation_def storage_address_validation_def)
  obtain rs1 where rs1: "storage_plan ?v example_env = Inr rs1"
    using storage_plan_ok [OF hub _ val] kv by blast
  obtain rs2 where rs2: "storage_plan storage_defaults example_env = Inr rs2"
    using storage_plan_ok [OF example_facts(7) _ example_facts(11)] example_facts(9) by blast
  have known: "\<not> st_allow_public_access storage_defaults"
    "st_file_shares storage_defaults \<noteq> []"
    "computed example_env ''azurerm_private_endpoint.storage_blob[0].id'' =
       ''/id/azurerm_private_endpoint.storage_blob[0].id''"
    by (simp_all add: storage_defaults_def example_env_def)
  show ?thesis
    using C10_storage_private_endpoints [of ?v example_hub example_env rs1]
      C10_storage_private_endpoints [of storage_defaults example_hub example_env rs2]
    by (auto simp add: rs1 rs2 created_def known)
qed

end
